(* ===== verification/Js_Prelude.thy ===== *)
theory Js_Prelude
  imports Main "HOL-Library.Sublist"
begin

text \<open>
  Shared vocabulary of the development: the part of the JavaScript runtime that the
  four exercise files rely on, and the generic facts on lists, sums and maps that
  the component theories use.

  \<^item> \<open>exn\<close> and \<open>completion\<close>: a function call either returns a value or throws;
    a thrown value of the repository is an \<open>Error\<close> or a
    \<open>MultiplicatorUnitFailure\<close> carrying its message.
  \<^item> \<open>js\<close>: a computation over a state \<open>'s\<close> is a function from the state to its
    completion and the state it leaves, so that what a throwing body has already
    written stays written.
  \<^item> \<open>try_finally\<close>: the \<^verbatim>\<open>try ... finally\<close> statement over such computations.
  \<^item> \<open>logged\<close> and \<open>entry\<close>: the arguments of one \<open>console.log\<close> or
    \<open>console.error\<close> call; a console is the list of calls made so far.
  \<^item> \<open>adj\<close>: the array stored under a key of an object, the empty list for a key
    that is absent.
\<close>

section \<open>Fact collections\<close>

named_theorems js_defs \<open>definitions of the runtime combinators, unfolded on demand\<close>

section \<open>Exceptions, completions, console\<close>

datatype exn = Error string | MultiplicatorUnitFailure string

datatype 'a completion = Normal 'a | Throw exn

type_synonym ('s, 'a) js = "'s \<Rightarrow> 'a completion \<times> 's"

datatype logged = LStr string | LBool bool | LNum int | LExn exn

datatype entry = Log "logged list" | Err "logged list"

type_synonym console = "entry list"

fun instanceof_MultiplicatorUnitFailure :: "exn \<Rightarrow> bool" where
  "instanceof_MultiplicatorUnitFailure (MultiplicatorUnitFailure _) = True"
| "instanceof_MultiplicatorUnitFailure (Error _) = False"

definition discard :: "'a completion \<Rightarrow> unit completion" where
  "discard c = (case c of Normal _ \<Rightarrow> Normal () | Throw e \<Rightarrow> Throw e)"

text \<open>
  \<^verbatim>\<open>try { block } finally { fin }\<close>: the finaliser runs on whatever state the
  block leaves, whether it returned or threw; the statement completes as the block
  did unless the finaliser itself throws.
\<close>

definition try_finally :: "('s, 'a) js \<Rightarrow> ('s, unit) js \<Rightarrow> ('s, 'a) js" where
  "try_finally block fin s =
     (let (r, s1) = block s;
          (f, s2) = fin s1
      in (case f of Throw e \<Rightarrow> (Throw e, s2) | Normal _ \<Rightarrow> (r, s2)))"

definition adj :: "('k \<rightharpoonup> 'v list) \<Rightarrow> 'k \<Rightarrow> 'v list" where
  "adj g k = (case g k of None \<Rightarrow> [] | Some ns \<Rightarrow> ns)"

lemmas [js_defs] = discard_def try_finally_def adj_def

section \<open>Completions\<close>

lemma discard_simps [simp]:
  "discard (Normal x) = Normal ()"
  "discard (Throw e) = Throw e"
  by (simp_all add: discard_def)

lemma discard_eq_Throw [simp]: "discard c = Throw e \<longleftrightarrow> c = Throw e"
  by (cases c) simp_all

lemma discard_eq_Normal [simp]: "discard c = Normal u \<longleftrightarrow> (\<exists>x. c = Normal x)"
  by (cases c) simp_all

lemma discard_discard [simp]: "discard (discard c) = discard c"
  by (cases c) simp_all

lemma discard_unit [simp]: "discard (r :: unit completion) = r"
  by (cases r) simp_all

lemma try_finally_Normal:
  "fin (snd (block s)) = (Normal u, s2) \<Longrightarrow> try_finally block fin s = (fst (block s), s2)"
  by (cases "block s") (simp add: try_finally_def)

lemma try_finally_state:
  "snd (try_finally block fin s) = snd (fin (snd (block s)))"
  by (simp add: try_finally_def split: prod.splits completion.splits)

section \<open>Arrays under keys\<close>

lemma adj_simps [simp]:
  "g k = None \<Longrightarrow> adj g k = []"
  "g k = Some ns \<Longrightarrow> adj g k = ns"
  by (simp_all add: adj_def)

lemma adj_empty [simp]: "adj Map.empty k = []"
  by (simp add: adj_def)

lemma adj_upd [simp]: "adj (g(a \<mapsto> ns)) k = (if k = a then ns else adj g k)"
  by (simp add: adj_def)

text \<open>A map is determined by its domain and the arrays it stores.\<close>

lemma map_conv_adj: "g k = (if k \<in> dom g then Some (adj g k) else None)"
  by (auto simp: adj_def)

lemma map_eqI_adj:
  assumes "dom g = dom h" and "\<And>k. adj g k = adj h k"
  shows "g = h"
proof
  fix k
  show "g k = h k"
    by (subst map_conv_adj, subst (2) map_conv_adj) (simp add: assms)
qed

section \<open>Counting and flattening lists\<close>

text \<open>
  Counting is split off the head without a case distinction on equality of the
  head, which keeps the simplifier away from equations between variables.
\<close>

lemma count_list_Cons1: "count_list (x # xs) y = count_list [x] y + count_list xs y"
  by simp

lemma concat_map_concat:
  "concat (map f (concat (map g xs))) = concat (map (\<lambda>x. concat (map f (g x))) xs)"
  by (induction xs) simp_all

end
