(* ===== verification/Road_Graph.thy ===== *)
theory Road_Graph
  imports Js_Prelude
begin

text \<open>
  Model of \<^verbatim>\<open>chapter 10 exercises/roadModules/graph.js\<close>: \<open>buildGraph\<close> turns a
  list of roads (pairs of places) into an object that maps every place to the
  array of the places it is connected to.

  The object \<open>graph\<close> is created with a null prototype, so it holds exactly the
  properties the function writes: it is a partial map from keys to arrays. The
  closure \<open>addEdge\<close> mutates it; the model passes the map in and returns the new
  one. The \<^verbatim>\<open>for ... of\<close> loop is \<open>buildFrom\<close>, with the map as the
  accumulator; its body, the two calls in the source's order, is \<open>addRoad\<close>.
  A place is its own property key (the module's callers pass strings); roads are
  pairs, as the destructuring pattern of the loop reads them. \<open>module_exports\<close> is
  the object that the last line of the file fills for the programs that require the
  module.

  The specification side is \<open>neighbours\<close>, the ends of the roads that touch a
  place, in the order of the roads, and \<open>adjacency\<close>, the map it induces.
  The theorems show that \<open>buildGraph\<close> computes \<open>adjacency\<close>, and derive from it
  the key set, the symmetry of the result, the multiplicities of repeated roads
  and loops, the degree sum, the independence of the orientation of a road and the
  stability of the arrays when more roads follow.
\<close>

section \<open>The module\<close>

type_synonym 'a graph = "'a \<rightharpoonup> 'a list"

definition addEdge :: "'a graph \<Rightarrow> 'a \<Rightarrow> 'a \<Rightarrow> 'a graph" where
  "addEdge graph from to =
     (case graph from of
        None \<Rightarrow> graph(from \<mapsto> [to])
      | Some ns \<Rightarrow> graph(from \<mapsto> ns @ [to]))"

fun addRoad :: "'a graph \<Rightarrow> 'a \<times> 'a \<Rightarrow> 'a graph" where
  "addRoad graph (from, to) = addEdge (addEdge graph from to) to from"

primrec buildFrom :: "'a graph \<Rightarrow> ('a \<times> 'a) list \<Rightarrow> 'a graph" where
  "buildFrom graph [] = graph"
| "buildFrom graph (road # roads) = buildFrom (addRoad graph road) roads"

definition buildGraph :: "('a \<times> 'a) list \<Rightarrow> 'a graph" where
  "buildGraph roads = buildFrom Map.empty roads"

text \<open>
  The last line of the file puts the function on the object \<^verbatim>\<open>module.exports\<close>,
  which is empty when the file starts to run: what a program that requires the
  module gets is an object with the one property \<open>buildGraph\<close>.
\<close>

definition module_exports :: "string \<rightharpoonup> (('a \<times> 'a) list \<Rightarrow> 'a graph)" where
  "module_exports = Map.empty(''buildGraph'' \<mapsto> buildGraph)"

section \<open>What the module promises\<close>

fun incident :: "'a \<Rightarrow> 'a \<times> 'a \<Rightarrow> 'a list" where
  "incident k (a, b) = (if a = k then [b] else []) @ (if b = k then [a] else [])"

definition neighbours :: "('a \<times> 'a) list \<Rightarrow> 'a \<Rightarrow> 'a list" where
  "neighbours roads k = concat (map (incident k) roads)"

definition nodes :: "('a \<times> 'a) list \<Rightarrow> 'a set" where
  "nodes roads = fst ` set roads \<union> snd ` set roads"

definition adjacency :: "('a \<times> 'a) list \<Rightarrow> 'a graph" where
  "adjacency roads = (\<lambda>k. if k \<in> nodes roads then Some (neighbours roads k) else None)"

text \<open>
  The invariant of the loop: no key holds an empty array, every place in an array
  is itself a key, and \<open>b\<close> is listed under \<open>a\<close> as often as \<open>a\<close> under \<open>b\<close>.
\<close>

definition graph_inv :: "'a graph \<Rightarrow> bool" where
  "graph_inv g \<longleftrightarrow>
     (\<forall>k. g k \<noteq> Some []) \<and>
     (\<forall>k. set (adj g k) \<subseteq> dom g) \<and>
     (\<forall>a b. count_list (adj g a) b = count_list (adj g b) a)"

section \<open>One edge\<close>

lemma addEdge_apply: "addEdge g a b k = (if k = a then Some (adj g a @ [b]) else g k)"
  by (simp add: addEdge_def js_defs split: option.splits)

lemma adj_addEdge: "adj (addEdge g a b) k = adj g k @ (if k = a then [b] else [])"
  by (simp add: js_defs addEdge_apply)

lemma dom_addEdge: "dom (addEdge g a b) = insert a (dom g)"
  by (auto simp: addEdge_apply dom_def)

section \<open>One road\<close>

lemma adj_addRoad: "adj (addRoad g r) k = adj g k @ incident k r"
  by (cases r) (simp add: adj_addEdge)

lemma dom_addRoad: "dom (addRoad g r) = insert (fst r) (insert (snd r) (dom g))"
  by (cases r) (auto simp: dom_addEdge)

lemma set_incident: "set (incident k r) \<subseteq> {fst r, snd r}"
  by (cases r) auto

lemma incident_Nil_iff: "incident k r = [] \<longleftrightarrow> k \<noteq> fst r \<and> k \<noteq> snd r"
  by (cases r) auto

lemma count_incident:
  "count_list (incident a r) b = count_list [r] (a, b) + count_list [r] (b, a)"
proof -
  obtain x y where r: "r = (x, y)" by (cases r)
  show ?thesis
    unfolding r by (cases "x = a"; cases "y = a"; cases "x = b"; cases "y = b"; simp)
qed

lemma count_incident_sym: "count_list (incident a r) b = count_list (incident b r) a"
  by (simp only: count_incident add.commute)

lemma length_incident_sum:
  assumes "finite A" and "fst r \<in> A" and "snd r \<in> A"
  shows "(\<Sum>k\<in>A. length (incident k r)) = 2"
proof -
  obtain a b where r: "r = (a, b)" by (cases r)
  have "(\<Sum>k\<in>A. length (incident k r)) =
      (\<Sum>k\<in>A. if a = k then 1 else 0) + (\<Sum>k\<in>A. if b = k then 1 else 0)"
    by (simp add: r sum.distrib if_distrib [of length] cong: if_cong)
  also have "\<dots> = 2"
    using assms by (simp add: r)
  finally show ?thesis .
qed

section \<open>The neighbours of a place\<close>

lemma neighbours_Nil [simp]: "neighbours [] k = []"
  by (simp add: neighbours_def)

lemma neighbours_Cons [simp]: "neighbours (r # roads) k = incident k r @ neighbours roads k"
  by (simp add: neighbours_def)

lemma neighbours_append [simp]:
  "neighbours (xs @ ys) k = neighbours xs k @ neighbours ys k"
  by (simp add: neighbours_def)

lemma nodes_Nil [simp]: "nodes [] = {}"
  by (simp add: nodes_def)

lemma nodes_Cons [simp]: "nodes (r # roads) = insert (fst r) (insert (snd r) (nodes roads))"
  by (auto simp: nodes_def)

lemma finite_nodes [simp]: "finite (nodes roads)"
  by (simp add: nodes_def)

lemma set_incident_eq: "set (incident k r) = {b. r = (k, b) \<or> r = (b, k)}"
  by (cases r) auto

lemma set_neighbours_eq:
  "set (neighbours roads k) = {b. (k, b) \<in> set roads \<or> (b, k) \<in> set roads}"
  by (induction roads) (auto simp: set_incident_eq)

lemma neighbours_Nil_iff: "neighbours roads k = [] \<longleftrightarrow> k \<notin> nodes roads"
  by (induction roads) (auto simp: incident_Nil_iff)

lemma count_neighbours:
  "count_list (neighbours roads a) b = count_list roads (a, b) + count_list roads (b, a)"
proof (induction roads)
  case Nil
  show ?case by simp
next
  case (Cons r roads)
  have "count_list (neighbours (r # roads) a) b =
      (count_list [r] (a, b) + count_list [r] (b, a)) +
      (count_list roads (a, b) + count_list roads (b, a))"
    by (simp only: neighbours_Cons count_list_append count_incident Cons.IH)
  also have "\<dots> = count_list (r # roads) (a, b) + count_list (r # roads) (b, a)"
    by (simp only: count_list_Cons1 [of r roads] add_ac)
  finally show ?case .
qed

lemma length_neighbours_sum:
  "finite A \<Longrightarrow> nodes roads \<subseteq> A \<Longrightarrow> (\<Sum>k\<in>A. length (neighbours roads k)) = 2 * length roads"
  by (induction roads) (simp_all add: sum.distrib length_incident_sum)

lemma neighbours_swap: "neighbours (map prod.swap roads) k = neighbours roads k"
  by (induction roads) auto

lemma nodes_swap: "nodes (map prod.swap roads) = nodes roads"
  by (induction roads) auto

section \<open>The loop\<close>

lemma adj_buildFrom: "adj (buildFrom g roads) k = adj g k @ neighbours roads k"
  by (induction roads arbitrary: g) (simp_all add: adj_addRoad)

lemma dom_buildFrom: "dom (buildFrom g roads) = dom g \<union> nodes roads"
  by (induction roads arbitrary: g) (auto simp: dom_addRoad)

lemma buildFrom_apply:
  "buildFrom g roads k =
     (if k \<in> dom g \<union> nodes roads then Some (adj g k @ neighbours roads k) else None)"
  by (subst map_conv_adj) (simp add: dom_buildFrom adj_buildFrom)

lemma buildGraph_apply:
  "buildGraph roads k = (if k \<in> nodes roads then Some (neighbours roads k) else None)"
  by (simp add: buildGraph_def buildFrom_apply)

lemma buildFrom_append: "buildFrom g (xs @ ys) = buildFrom (buildFrom g xs) ys"
  by (induction xs arbitrary: g) simp_all

lemma adj_buildGraph [simp]: "adj (buildGraph roads) k = neighbours roads k"
  by (simp add: buildGraph_def adj_buildFrom)

lemma dom_buildGraph [simp]: "dom (buildGraph roads) = nodes roads"
  by (simp add: buildGraph_def dom_buildFrom)

section \<open>The invariant\<close>

lemma graph_inv_empty: "graph_inv Map.empty"
  by (simp add: graph_inv_def)

lemma graph_inv_addRoad:
  assumes "graph_inv g"
  shows "graph_inv (addRoad g r)"
proof -
  obtain a b where r: "r = (a, b)" by (cases r)
  have "addRoad g r k \<noteq> Some []" for k
    using assms by (auto simp: r addEdge_apply graph_inv_def)
  moreover have "set (adj (addRoad g r) k) \<subseteq> dom (addRoad g r)" for k
    using assms set_incident [of k r]
    by (auto simp: adj_addRoad dom_addRoad graph_inv_def)
  moreover have "count_list (adj (addRoad g r) x) y = count_list (adj (addRoad g r) y) x"
    for x y
    using assms count_incident_sym [of x r y] by (simp add: adj_addRoad graph_inv_def)
  ultimately show ?thesis
    by (simp add: graph_inv_def)
qed

lemma graph_inv_buildFrom: "graph_inv g \<Longrightarrow> graph_inv (buildFrom g roads)"
  by (induction roads arbitrary: g) (simp_all add: graph_inv_addRoad)

section \<open>Properties of the module\<close>

text \<open>
  The module exports \<open>buildGraph\<close> under its own name and nothing else: the closure
  \<open>addEdge\<close> cannot be reached from outside.
\<close>

lemma module_exports_iff:
  "module_exports name = Some f \<longleftrightarrow> name = ''buildGraph'' \<and> f = buildGraph"
  by (auto simp: module_exports_def)

text \<open>
  C1. \<open>buildGraph\<close> returns the adjacency map of its roads: a place that is an end
  of some road is a key, and its array holds, in the order of the roads, the other
  end of every road that touches it (both ends of a road from the place to
  itself); every other key is absent.
\<close>

theorem buildGraph_adjacency: "buildGraph roads = adjacency roads"
  by (rule ext) (simp add: adjacency_def buildGraph_apply)

text \<open>
  C5. Every road connects its two ends in both directions: for a road from \<open>a\<close> to
  \<open>b\<close>, \<open>a\<close> is a key whose array holds \<open>b\<close>, and \<open>b\<close> is a key whose array
  holds \<open>a\<close>.
\<close>

theorem buildGraph_connects:
  assumes "(a, b) \<in> set roads"
  shows "(\<exists>ns. buildGraph roads a = Some ns \<and> b \<in> set ns) \<and>
         (\<exists>ms. buildGraph roads b = Some ms \<and> a \<in> set ms)"
proof -
  from assms have "a \<in> nodes roads" and "b \<in> nodes roads"
    by (force simp: nodes_def)+
  moreover from assms have "b \<in> set (neighbours roads a)" and "a \<in> set (neighbours roads b)"
    by (simp_all add: set_neighbours_eq)
  ultimately show ?thesis
    by (simp add: buildGraph_apply)
qed

theorem buildGraph_connects_witness:
  "(\<exists>ns. buildGraph [(1::nat, 2), (2, 3)] 2 = Some ns \<and> 3 \<in> set ns) \<and>
   (\<exists>ms. buildGraph [(1::nat, 2), (2, 3)] 3 = Some ms \<and> 2 \<in> set ms)"
  using buildGraph_connects [of 2 3 "[(1::nat, 2), (2, 3)]"] by simp

text \<open>
  C30. The keys of the result are exactly the places that occur as an end of a road,
  and no key holds an empty array; in particular the result of an empty road list
  has no key, and it is the only road list with that result.
\<close>

theorem buildGraph_keys:
  "(buildGraph roads k \<noteq> None \<longleftrightarrow> k \<in> nodes roads) \<and>
   buildGraph roads k \<noteq> Some [] \<and>
   (buildGraph roads = Map.empty \<longleftrightarrow> roads = [])"
proof -
  have "buildGraph roads = Map.empty \<longleftrightarrow> nodes roads = {}"
    by (metis dom_buildGraph dom_eq_empty_conv)
  moreover have "nodes roads = {} \<longleftrightarrow> roads = []"
    by (cases roads) simp_all
  ultimately show ?thesis
    by (simp add: buildGraph_apply neighbours_Nil_iff)
qed

text \<open>
  C32. Nothing is deduplicated: \<open>b\<close> occurs in the array of \<open>a\<close> once for every
  road from \<open>a\<close> to \<open>b\<close> and once for every road from \<open>b\<close> to \<open>a\<close>, so a road from
  a place to itself puts the place into its own array twice.
\<close>

theorem buildGraph_multiplicity:
  "count_list (adj (buildGraph roads) a) b = count_list roads (a, b) + count_list roads (b, a)"
  by (simp add: count_neighbours)

text \<open>
  C23. The loop invariant holds of the result: no empty array, every listed place is
  a key, and \<open>b\<close> is listed under \<open>a\<close> exactly as often as \<open>a\<close> under \<open>b\<close>.
\<close>

theorem buildGraph_inv: "graph_inv (buildGraph roads)"
  unfolding buildGraph_def by (rule graph_inv_buildFrom [OF graph_inv_empty])

text \<open>
  The lengths of all arrays add up to twice the number of roads: every road is
  recorded once at each of its ends.
\<close>

lemma buildGraph_degree_sum:
  "(\<Sum>k\<in>dom (buildGraph roads). length (adj (buildGraph roads) k)) = 2 * length roads"
  by (simp add: length_neighbours_sum)

text \<open>
  The direction in which a road is written does not matter: turning every road
  around gives the same object, arrays in the same order.
\<close>

lemma buildGraph_swap: "buildGraph (map prod.swap roads) = buildGraph roads"
  by (rule map_eqI_adj) (simp_all add: nodes_swap neighbours_swap)

text \<open>
  C31. Arrays only grow at the end: the array of a place after the roads \<open>roads\<close> is
  a prefix of its array after \<open>roads @ more\<close>, every key stays a key, and building
  from the longer list is building on from the result of the shorter.
\<close>

theorem buildGraph_stable:
  "prefix (adj (buildGraph roads) k) (adj (buildGraph (roads @ more)) k) \<and>
   dom (buildGraph roads) \<subseteq> dom (buildGraph (roads @ more)) \<and>
   buildGraph (roads @ more) = buildFrom (buildGraph roads) more"
proof -
  have "buildGraph (roads @ more) = buildFrom (buildGraph roads) more"
    by (simp add: buildGraph_def buildFrom_append)
  then show ?thesis
    by (simp add: adj_buildFrom dom_buildFrom)
qed

end
