(* ===== verification/Graph_Object.thy ===== *)
theory Graph_Object
  imports Road_Graph "HOL-Library.AList" "HOL-Library.Multiset"
begin

text \<open>
  A second, more concrete model of \<^verbatim>\<open>chapter 10 exercises/roadModules/graph.js\<close>, in
  which the object keeps the order of its keys.

  An object enumerates its string keys in the order in which they were created
  (\<open>Object.keys\<close>, \<^verbatim>\<open>for ... in\<close>); an assignment to an existing key keeps its
  place. The object is therefore an association list with distinct keys, and
  \<open>AList.update\<close> is the assignment \<^verbatim>\<open>graph[from] = ...\<close>: in place for a key that
  is there, at the end for a new one. \<open>addEdge_obj\<close>, \<open>addRoad_obj\<close>,
  \<open>buildFrom_obj\<close> and \<open>buildGraph_obj\<close> are the closure, the loop body, the loop
  and the function over such objects, and \<open>keys_obj\<close> is \<open>Object.keys\<close>.

  The lemmas: \<open>map_of\<close> takes each operation of this model to that of
  \<open>Road_Graph\<close>. The theorems: keys stay distinct and never move; and the result
  of \<open>buildGraph_obj\<close> in closed form: the places in the order of their first
  occurrence in the road list, each with its neighbours.

  Keys that are canonical array indices (\<open>"0"\<close>, \<open>"1"\<close>, ...) are enumerated before
  all others, in numeric order; the model is for place names that are not.
\<close>

section \<open>The object with ordered keys\<close>

type_synonym 'a object = "('a \<times> 'a list) list"

definition addEdge_obj :: "'a object \<Rightarrow> 'a \<Rightarrow> 'a \<Rightarrow> 'a object" where
  "addEdge_obj graph from to =
     (case map_of graph from of
        None \<Rightarrow> AList.update from [to] graph
      | Some ns \<Rightarrow> AList.update from (ns @ [to]) graph)"

fun addRoad_obj :: "'a object \<Rightarrow> 'a \<times> 'a \<Rightarrow> 'a object" where
  "addRoad_obj graph (from, to) = addEdge_obj (addEdge_obj graph from to) to from"

primrec buildFrom_obj :: "'a object \<Rightarrow> ('a \<times> 'a) list \<Rightarrow> 'a object" where
  "buildFrom_obj graph [] = graph"
| "buildFrom_obj graph (road # roads) = buildFrom_obj (addRoad_obj graph road) roads"

definition buildGraph_obj :: "('a \<times> 'a) list \<Rightarrow> 'a object" where
  "buildGraph_obj roads = buildFrom_obj [] roads"

definition keys_obj :: "'a object \<Rightarrow> 'a list" where
  "keys_obj graph = map fst graph"

definition edges_obj :: "'a object \<Rightarrow> ('a \<times> 'a) list" where
  "edges_obj graph = concat (map (\<lambda>(k, ns). map (Pair k) ns) graph)"

definition obj_wf :: "'a object \<Rightarrow> bool" where
  "obj_wf graph \<longleftrightarrow> distinct (keys_obj graph) \<and> [] \<notin> snd ` set graph"

definition add_key :: "'a list \<Rightarrow> 'a \<Rightarrow> 'a list" where
  "add_key ks k = (if k \<in> set ks then ks else ks @ [k])"

definition ends :: "('a \<times> 'a) list \<Rightarrow> 'a list" where
  "ends roads = concat (map (\<lambda>(a, b). [a, b]) roads)"

definition first_occurrences :: "'a list \<Rightarrow> 'a list" where
  "first_occurrences xs = rev (remdups (rev xs))"

section \<open>Refinement and keys\<close>

lemma map_of_addEdge_obj: "map_of (addEdge_obj g a b) = addEdge (map_of g) a b"
  by (simp add: addEdge_obj_def addEdge_def update_conv' split: option.splits)

lemma map_of_addRoad_obj: "map_of (addRoad_obj g road) = addRoad (map_of g) road"
  by (cases road) (simp add: map_of_addEdge_obj)

lemma map_of_buildFrom_obj: "map_of (buildFrom_obj g roads) = buildFrom (map_of g) roads"
  by (induction roads arbitrary: g) (simp_all add: map_of_addRoad_obj)

lemma keys_addEdge_obj: "keys_obj (addEdge_obj g a b) = add_key (keys_obj g) a"
  by (auto simp: addEdge_obj_def keys_obj_def add_key_def update_keys map_of_eq_None_iff
      split: option.splits)

lemma keys_buildFrom_obj:
  "keys_obj (buildFrom_obj g roads) = foldl add_key (keys_obj g) (ends roads)"
  by (induction roads arbitrary: g) (auto simp: ends_def keys_addEdge_obj)

lemma set_foldl_add_key: "set (foldl add_key ks xs) = set ks \<union> set xs"
  by (induction xs arbitrary: ks) (auto simp: add_key_def)

lemma prefix_add_key: "prefix ks (add_key ks k)"
  by (simp add: add_key_def)

lemma prefix_foldl_add_key: "prefix ks (foldl add_key ks xs)"
proof (induction xs arbitrary: ks)
  case Nil
  show ?case by simp
next
  case (Cons x xs)
  from prefix_add_key Cons [of "add_key ks x"] show ?case
    by (simp only: foldl_Cons) (rule prefix_order.trans)
qed

lemma foldl_add_key_first: "foldl add_key [] xs = first_occurrences xs"
proof (induction xs rule: rev_induct)
  case Nil
  show ?case by (simp add: first_occurrences_def)
next
  case (snoc x xs)
  then show ?case
    using set_foldl_add_key [of "[]" xs] by (simp add: first_occurrences_def add_key_def)
qed

lemma alist_by_keys:
  assumes "distinct (map fst al)" and "\<And>k. k \<in> fst ` set al \<Longrightarrow> map_of al k = Some (f k)"
  shows "map (\<lambda>k. (k, f k)) (map fst al) = al"
  using assms
proof (induction al)
  case Nil
  show ?case by simp
next
  case (Cons p ps)
  from Cons.prems(1) have d: "distinct (map fst ps)" and n: "fst p \<notin> fst ` set ps"
    by simp_all
  have "map_of ps k = Some (f k)" if "k \<in> fst ` set ps" for k
    using Cons.prems(2) [of k] that n by (cases p) (auto split: if_splits)
  with d have "map (\<lambda>k. (k, f k)) (map fst ps) = ps"
    by (rule Cons.IH)
  moreover have "f (fst p) = snd p"
    using Cons.prems(2) [of "fst p"] by (cases p) simp
  ultimately show ?case by (cases p) simp
qed

lemma map_of_buildGraph_obj: "map_of (buildGraph_obj roads) = buildGraph roads"
  by (simp add: buildGraph_obj_def buildGraph_def map_of_buildFrom_obj)

lemma keys_buildGraph_obj: "keys_obj (buildGraph_obj roads) = first_occurrences (ends roads)"
  using keys_buildFrom_obj [of "[]" roads]
  by (simp add: buildGraph_obj_def foldl_add_key_first keys_obj_def)

lemma distinct_first_occurrences: "distinct (first_occurrences xs)"
  by (simp add: first_occurrences_def)

lemma set_first_occurrences: "set (first_occurrences xs) = set xs"
  by (simp add: first_occurrences_def)

lemma set_ends: "set (ends roads) = nodes roads"
  by (induction roads) (auto simp: ends_def)

section \<open>Well-formed objects and their edges\<close>

lemma addEdge_obj_update:
  "addEdge_obj g a b = AList.update a (adj (map_of g) a @ [b]) g"
  by (simp add: addEdge_obj_def split: option.splits)

lemma values_update: "snd ` set (AList.update k v al) \<subseteq> insert v (snd ` set al)"
  by (induction al) auto

lemma obj_wf_Nil [simp]: "obj_wf []"
  by (simp add: obj_wf_def keys_obj_def)

lemma obj_wf_addEdge_obj: "obj_wf g \<Longrightarrow> obj_wf (addEdge_obj g a b)"
  using values_update [of a "adj (map_of g) a @ [b]" g]
  by (auto simp: obj_wf_def keys_obj_def addEdge_obj_update distinct_update)

lemma obj_wf_addRoad_obj: "obj_wf g \<Longrightarrow> obj_wf (addRoad_obj g road)"
  by (cases road) (simp add: obj_wf_addEdge_obj)

lemma obj_wf_buildFrom_obj: "obj_wf g \<Longrightarrow> obj_wf (buildFrom_obj g roads)"
  by (induction roads arbitrary: g) (simp_all add: obj_wf_addRoad_obj)

lemma edges_obj_simps [simp]:
  "edges_obj [] = []"
  "edges_obj ((k, ns) # g) = map (Pair k) ns @ edges_obj g"
  by (simp_all add: edges_obj_def)

lemma mset_edges_update:
  "mset (edges_obj (AList.update a (adj (map_of g) a @ [b]) g)) =
     add_mset (a, b) (mset (edges_obj g))"
proof (induction g)
  case Nil
  show ?case by simp
next
  case (Cons p g)
  then show ?case by (cases p) (simp add: js_defs)
qed

lemma mset_edges_addEdge_obj:
  "mset (edges_obj (addEdge_obj g a b)) = add_mset (a, b) (mset (edges_obj g))"
  by (simp only: addEdge_obj_update mset_edges_update)

lemma mset_edges_buildFrom_obj:
  "mset (edges_obj (buildFrom_obj g roads)) =
     mset (edges_obj g) + mset roads + mset (map prod.swap roads)"
  by (induction roads arbitrary: g) (auto simp: mset_edges_addEdge_obj)

section \<open>Properties of the ordered object\<close>

text \<open>
  The ordered object refines the map: reading the association list as a map
  commutes with every operation of the module, so all that is proved of
  \<open>buildGraph\<close> on maps holds of the object the code builds.
\<close>

lemma graph_object_refinement:
  "map_of (addEdge_obj g a b) = addEdge (map_of g) a b \<and>
   map_of (addRoad_obj g road) = addRoad (map_of g) road \<and>
   map_of (buildFrom_obj g roads) = buildFrom (map_of g) roads \<and>
   map_of (buildGraph_obj roads) = buildGraph roads"
  by (simp add: map_of_addEdge_obj map_of_addRoad_obj map_of_buildFrom_obj map_of_buildGraph_obj)

text \<open>
  C21. The object that \<open>buildGraph\<close> returns, with the order of its keys: the places
  in the order of their first occurrence among the ends of the roads, each with the
  array of its neighbours.
\<close>

theorem buildGraph_obj_closed_form:
  "buildGraph_obj roads = map (\<lambda>k. (k, neighbours roads k)) (first_occurrences (ends roads))"
proof -
  let ?g = "buildGraph_obj roads"
  have keys: "map fst ?g = first_occurrences (ends roads)"
    using keys_buildGraph_obj [of roads] by (simp only: keys_obj_def)
  have "map (\<lambda>k. (k, neighbours roads k)) (map fst ?g) = ?g"
  proof (rule alist_by_keys)
    show "distinct (map fst ?g)"
      by (simp only: keys distinct_first_occurrences)
    fix k assume "k \<in> fst ` set ?g"
    then have "k \<in> nodes roads"
      by (simp only: set_map [symmetric] keys set_first_occurrences set_ends)
    then show "map_of ?g k = Some (neighbours roads k)"
      by (simp add: map_of_buildGraph_obj buildGraph_apply)
  qed
  then show ?thesis by (simp only: keys)
qed

text \<open>
  C27. Well-formedness is an invariant of every operation: on an object whose keys
  are distinct and whose arrays are not empty, \<open>addEdge\<close>, the loop body and the
  loop give such an object again, and the loop leaves the old keys in their places
  at the front.
\<close>

theorem obj_wf_preserved:
  assumes "obj_wf g"
  shows "obj_wf (addEdge_obj g a b) \<and> obj_wf (addRoad_obj g road) \<and>
         obj_wf (buildFrom_obj g roads) \<and>
         prefix (keys_obj g) (keys_obj (buildFrom_obj g roads))"
  using assms
  by (simp add: obj_wf_addEdge_obj obj_wf_addRoad_obj obj_wf_buildFrom_obj keys_buildFrom_obj
      prefix_foldl_add_key)

theorem obj_wf_preserved_witness:
  "obj_wf (addEdge_obj [(1::nat, [2]), (2, [1])] 3 2) \<and>
   obj_wf (addRoad_obj [(1::nat, [2]), (2, [1])] (3, 2)) \<and>
   obj_wf (buildFrom_obj [(1::nat, [2]), (2, [1])] [(3, 2), (1, 3)]) \<and>
   prefix (keys_obj [(1::nat, [2]), (2, [1])])
     (keys_obj (buildFrom_obj [(1::nat, [2]), (2, [1])] [(3, 2), (1, 3)]))"
  using obj_wf_preserved [of "[(1::nat, [2]), (2, [1])]" 3 2 "(3, 2)" "[(3, 2), (1, 3)]"]
  by (simp add: obj_wf_def keys_obj_def)

text \<open>
  No road is lost and none is invented: read back as directed edges, the object
  that \<open>buildGraph\<close> returns holds every road once in each direction, with the
  multiplicity it has in the road list.
\<close>

lemma buildGraph_obj_edges:
  "mset (edges_obj (buildGraph_obj roads)) = mset roads + mset (map prod.swap roads)"
  by (simp add: buildGraph_obj_def mset_edges_buildFrom_obj)

end
