(* ===== verification/Graph_Keys.thy ===== *)
theory Graph_Keys
  imports Road_Graph
begin

text \<open>
  \<^verbatim>\<open>chapter 10 exercises/roadModules/graph.js\<close> for places of any kind and roads of
  any length.

  The keys of an object are strings: \<open>graph[from]\<close> reads and writes the property
  whose name is the string form of \<open>from\<close>, while the arrays hold the places as they
  were given. \<open>Road_Graph\<close> takes places that are their own keys, which is exact for
  strings. Here \<open>key\<close> is the conversion of a place to its property key, and
  \<open>addEdge_key\<close>, \<open>addRoad_key\<close>, \<open>buildFrom_key\<close> and \<open>buildGraph_key\<close> are the
  closure, the loop body, the loop and the function with it.

  The loop takes \<open>from\<close> and \<open>to\<close> out of each road by the pattern \<open>[from, to]\<close>,
  which gives the first two elements of an array and \<open>undefined\<close> for an element
  that is not there. \<open>destructure\<close> is this pattern, with \<open>None\<close> for \<open>undefined\<close>;
  \<open>property_key\<close> extends a key function to \<open>undefined\<close>, whose key is the string
  \<open>"undefined"\<close> (\<open>ukey\<close>); \<open>buildGraph_arr\<close> is \<open>buildGraph\<close> on roads that are
  arrays of any length.

  The theorem: the result under any key function, in closed form. The lemmas: for
  a key function that tells the places apart it is the result of \<open>Road_Graph\<close>,
  under the keys; on arrays of two elements \<open>buildGraph_arr\<close> is
  \<open>buildGraph_key\<close>; and, in the last section, what happens otherwise: places with
  the same key become one node, and a road with one end gives a node
  \<open>undefined\<close>.
\<close>

section \<open>The module with property keys\<close>

type_synonym ('k, 'a) kgraph = "'k \<rightharpoonup> 'a list"

definition addEdge_key :: "('a \<Rightarrow> 'k) \<Rightarrow> ('k, 'a) kgraph \<Rightarrow> 'a \<Rightarrow> 'a \<Rightarrow> ('k, 'a) kgraph" where
  "addEdge_key key graph from to =
     (case graph (key from) of
        None \<Rightarrow> graph(key from \<mapsto> [to])
      | Some ns \<Rightarrow> graph(key from \<mapsto> ns @ [to]))"

fun addRoad_key :: "('a \<Rightarrow> 'k) \<Rightarrow> ('k, 'a) kgraph \<Rightarrow> 'a \<times> 'a \<Rightarrow> ('k, 'a) kgraph" where
  "addRoad_key key graph (from, to) = addEdge_key key (addEdge_key key graph from to) to from"

primrec buildFrom_key :: "('a \<Rightarrow> 'k) \<Rightarrow> ('k, 'a) kgraph \<Rightarrow> ('a \<times> 'a) list \<Rightarrow> ('k, 'a) kgraph" where
  "buildFrom_key key graph [] = graph"
| "buildFrom_key key graph (road # roads) = buildFrom_key key (addRoad_key key graph road) roads"

definition buildGraph_key :: "('a \<Rightarrow> 'k) \<Rightarrow> ('a \<times> 'a) list \<Rightarrow> ('k, 'a) kgraph" where
  "buildGraph_key key roads = buildFrom_key key Map.empty roads"

text \<open>The pattern \<^verbatim>\<open>[from, to]\<close> of the loop, on an array of any length.\<close>

fun destructure :: "'a list \<Rightarrow> 'a option \<times> 'a option" where
  "destructure [] = (None, None)"
| "destructure [a] = (Some a, None)"
| "destructure (a # b # rest) = (Some a, Some b)"

definition property_key :: "('a \<Rightarrow> 'k) \<Rightarrow> 'k \<Rightarrow> 'a option \<Rightarrow> 'k" where
  "property_key key ukey v = (case v of None \<Rightarrow> ukey | Some a \<Rightarrow> key a)"

definition buildGraph_arr :: "('a \<Rightarrow> 'k) \<Rightarrow> 'k \<Rightarrow> 'a list list \<Rightarrow> ('k, 'a option) kgraph" where
  "buildGraph_arr key ukey roads = buildGraph_key (property_key key ukey) (map destructure roads)"

section \<open>What the module computes under a key function\<close>

fun incident_key :: "('a \<Rightarrow> 'k) \<Rightarrow> 'k \<Rightarrow> 'a \<times> 'a \<Rightarrow> 'a list" where
  "incident_key key k (a, b) = (if key a = k then [b] else []) @ (if key b = k then [a] else [])"

definition neighbours_key :: "('a \<Rightarrow> 'k) \<Rightarrow> ('a \<times> 'a) list \<Rightarrow> 'k \<Rightarrow> 'a list" where
  "neighbours_key key roads k = concat (map (incident_key key k) roads)"

section \<open>Edges under keys\<close>

lemma adj_addEdge_key:
  "adj (addEdge_key key g a b) k = adj g k @ (if k = key a then [b] else [])"
  by (simp add: addEdge_key_def js_defs split: option.splits)

lemma dom_addEdge_key: "dom (addEdge_key key g a b) = insert (key a) (dom g)"
  by (auto simp: addEdge_key_def split: option.splits)

lemma adj_addRoad_key: "adj (addRoad_key key g r) k = adj g k @ incident_key key k r"
  by (cases r) (auto simp: adj_addEdge_key)

lemma dom_addRoad_key:
  "dom (addRoad_key key g r) = insert (key (fst r)) (insert (key (snd r)) (dom g))"
  by (cases r) (auto simp: dom_addEdge_key)

lemma neighbours_key_simps [simp]:
  "neighbours_key key [] k = []"
  "neighbours_key key (r # roads) k = incident_key key k r @ neighbours_key key roads k"
  by (simp_all add: neighbours_key_def)

lemma adj_buildFrom_key:
  "adj (buildFrom_key key g roads) k = adj g k @ neighbours_key key roads k"
  by (induction roads arbitrary: g) (simp_all add: adj_addRoad_key)

lemma dom_buildFrom_key: "dom (buildFrom_key key g roads) = dom g \<union> key ` nodes roads"
  by (induction roads arbitrary: g) (auto simp: dom_addRoad_key)

lemma buildGraph_key_apply:
  "buildGraph_key key roads k =
     (if k \<in> key ` nodes roads then Some (neighbours_key key roads k) else None)"
  unfolding buildGraph_key_def
  by (subst map_conv_adj) (simp add: adj_buildFrom_key dom_buildFrom_key)

section \<open>Keys that tell places apart\<close>

lemma incident_key_inj:
  "inj_on key (insert a (insert x (insert y A))) \<Longrightarrow> incident_key key (key a) (x, y) = incident a (x, y)"
  by (auto simp: inj_on_def)

lemma neighbours_key_inj:
  "inj_on key (insert a (nodes roads)) \<Longrightarrow> neighbours_key key roads (key a) = neighbours roads a"
proof (induction roads)
  case Nil
  show ?case by simp
next
  case (Cons r roads)
  obtain x y where r: "r = (x, y)" by (cases r)
  from Cons.prems have "inj_on key (insert a (insert x (insert y (nodes roads))))"
    by (simp add: r insert_commute)
  moreover from Cons.prems have "inj_on key (insert a (nodes roads))"
    by (rule inj_on_subset) auto
  ultimately show ?case
    using Cons.IH by (simp add: r incident_key_inj del: incident_key.simps incident.simps)
qed

section \<open>Keys that do not, and roads that are not pairs\<close>

lemma neighbours_key_const: "neighbours_key (\<lambda>a. k) roads k = concat (map (\<lambda>(a, b). [b, a]) roads)"
  by (induction roads) auto

lemma buildGraph_key_collapse:
  "roads \<noteq> [] \<Longrightarrow> buildGraph_key (\<lambda>a. k) roads = [k \<mapsto> concat (map (\<lambda>(a, b). [b, a]) roads)]"
  by (rule ext) (cases roads; auto simp: buildGraph_key_apply neighbours_key_const simp del: neighbours_key_simps)

lemma buildGraph_arr_short:
  "key a \<noteq> ukey \<Longrightarrow> buildGraph_arr key ukey [[a]] = [key a \<mapsto> [None], ukey \<mapsto> [Some a]]"
  by (rule ext) (auto simp: buildGraph_arr_def buildGraph_key_apply property_key_def)

lemma nodes_map_prod: "nodes (map (map_prod g g) roads) = g ` nodes roads"
  by (induction roads) auto

lemma neighbours_key_map:
  "neighbours_key f (map (map_prod g g) roads) k = map g (neighbours_key (f \<circ> g) roads k)"
  by (induction roads) auto

lemma buildGraph_key_map:
  "buildGraph_key f (map (map_prod g g) roads) k = map_option (map g) (buildGraph_key (f \<circ> g) roads k)"
  by (simp add: buildGraph_key_apply nodes_map_prod neighbours_key_map image_image)

lemma buildGraph_arr_pairs:
  "buildGraph_arr key ukey (map (\<lambda>(a, b). [a, b]) roads) k =
     map_option (map Some) (buildGraph_key key roads k)"
proof -
  have "map destructure (map (\<lambda>(a, b). [a, b]) roads) = map (map_prod Some Some) roads"
    by (induction roads) auto
  moreover have "property_key key ukey \<circ> Some = key"
    by (rule ext) (simp add: property_key_def)
  ultimately show ?thesis
    by (simp only: buildGraph_arr_def buildGraph_key_map)
qed

section \<open>Properties of the module with keys\<close>

text \<open>
  C22. The object that \<open>buildGraph\<close> returns, for any conversion of places to keys:
  its keys are the keys of the ends of the roads, and under a key it lists, in the
  order of the roads, the other end of every road that has an end with this key.
  Places with the same key share one array.
\<close>

theorem buildGraph_key_adjacency:
  "buildGraph_key key roads =
     (\<lambda>k. if k \<in> key ` nodes roads then Some (neighbours_key key roads k) else None)"
  by (rule ext) (rule buildGraph_key_apply)

text \<open>
  When the conversion to keys tells the places of the roads apart, and the
  place asked for from them, the object under the key of a place holds what the
  model with places as keys holds under the place.
\<close>

lemma buildGraph_key_refines:
  assumes "inj_on key (insert a (nodes roads))"
  shows "buildGraph_key key roads (key a) = buildGraph roads a"
proof -
  from assms have "key a \<in> key ` nodes roads \<longleftrightarrow> a \<in> nodes roads"
    by (auto simp: inj_on_def)
  with assms show ?thesis
    by (simp add: buildGraph_key_apply buildGraph_apply neighbours_key_inj)
qed

text \<open>
  For places that are their own keys the two models are the same function.
\<close>

lemma buildGraph_key_id: "buildGraph_key (\<lambda>a. a) roads = buildGraph roads"
proof
  fix a
  have "neighbours_key (\<lambda>a. a) roads a = neighbours roads a"
    using neighbours_key_inj [of "\<lambda>a. a" a roads] by simp
  then show "buildGraph_key (\<lambda>a. a) roads a = buildGraph roads a"
    by (simp add: buildGraph_key_apply buildGraph_apply)
qed

end
