(* ===== verification/Locked_Box.thy ===== *)
theory Locked_Box
  imports Js_Prelude
begin

text \<open>
  Model of \<^verbatim>\<open>chapter 8 exercises/lockedBox.js\<close>.

  The object \<open>box\<close> is a record of its two data properties: the flag \<open>locked\<close>
  and the array behind \<open>_content\<close> (field \<open>priv_content\<close>). Its methods \<open>unlock\<close>
  and \<open>lock\<close> write the flag; the getter \<open>content\<close> throws \<open>Error("Locked!")\<close>
  while the flag is set and returns the array otherwise. In this theory the array
  is reached through the getter only, so pushing to \<open>box.content\<close> is an update
  of \<open>priv_content\<close> (\<open>content_push\<close>); \<open>Box_Store\<close> has the array in a store
  and clients that keep a reference to it.

  \<open>withBoxUnlocked\<close> takes the body as a computation on the box: a function from
  the box to a completion and the box it leaves, so that bodies which throw,
  write the content or call \<open>lock\<close> and \<open>unlock\<close> themselves are all covered.
  Bodies that do not return, and bodies that write anything of the box but the
  flag and the content, are not.
  The local variable \<open>progress\<close> is threaded through the \<^verbatim>\<open>try\<close> block and the
  \<^verbatim>\<open>finally\<close> block beside the box.

  \<open>lockedBox_main\<close> is the top level of the file: the two calls, the
  \<^verbatim>\<open>catch\<close> and the two \<open>console.log\<close> calls.

  \<open>reachable\<close> are the boxes a client can produce that touches the box through
  \<open>withBoxUnlocked\<close> only, with any bodies; it states the contract of the box and
  translates no line of the file.

  The operations are stated for every record that extends \<open>box\<close>, so that they
  apply unchanged to a state that holds more than the box; \<open>Box_Clients\<close> uses them
  on the box together with the console.
\<close>

section \<open>The box\<close>

record 'a box =
  locked :: bool
  priv_content :: "'a list"

definition initial_box :: "'a box" where
  "initial_box = \<lparr>locked = True, priv_content = []\<rparr>"

definition unlock :: "('a, 'z) box_scheme \<Rightarrow> ('a, 'z) box_scheme" where
  "unlock b = b\<lparr>locked := False\<rparr>"

definition lock :: "('a, 'z) box_scheme \<Rightarrow> ('a, 'z) box_scheme" where
  "lock b = b\<lparr>locked := True\<rparr>"

definition content :: "('a, 'z) box_scheme \<Rightarrow> 'a list completion" where
  "content b = (if locked b then Throw (Error ''Locked!'') else Normal (priv_content b))"

definition content_push :: "'a \<Rightarrow> (('a, 'z) box_scheme, unit) js" where
  "content_push x b =
     (case content b of
        Throw e \<Rightarrow> (Throw e, b)
      | Normal c \<Rightarrow> (Normal (), b\<lparr>priv_content := c @ [x]\<rparr>))"

section \<open>withBoxUnlocked\<close>

definition withBoxUnlocked ::
    "(('a, 'z) box_scheme, 'r) js \<Rightarrow> (('a, 'z) box_scheme, unit) js" where
  "withBoxUnlocked body b =
     (let progress = (0::nat);
          (r, progress, b) =
            try_finally
              (\<lambda>(progress, b).
                 let (progress, b) = (if locked b then (1, unlock b) else (progress, b));
                     (r, b) = body b
                 in (discard r, progress, b))
              (\<lambda>(progress, b).
                 (Normal (), progress, if progress = 1 then lock b else b))
              (progress, b)
      in (r, b))"

section \<open>The top level of the file\<close>

definition gold_body :: "((string, 'z) box_scheme, unit) js" where
  "gold_body = content_push ''gold piece''"

definition pirate_body :: "((string, 'z) box_scheme, unit) js" where
  "pirate_body b = (Throw (Error ''Pirates on the horizon! Abort!''), b)"

definition lockedBox_main :: "unit completion \<times> string box \<times> console" where
  "lockedBox_main =
     (let b = initial_box; out = [];
          (r, b) = withBoxUnlocked gold_body b
      in case r of
           Throw e \<Rightarrow> (Throw e, b, out)
         | Normal _ \<Rightarrow>
             let (r, b) = withBoxUnlocked pirate_body b;
                 out = (case r of
                          Throw e \<Rightarrow> out @ [Log [LStr ''Error raised:'', LExn e]]
                        | Normal _ \<Rightarrow> out);
                 out = out @ [Log [LBool (locked b)]]
             in (Normal (), b, out))"

section \<open>Clients that go through withBoxUnlocked\<close>

inductive reachable :: "'a box \<Rightarrow> bool" where
  initial: "reachable initial_box"
| call: "reachable b \<Longrightarrow> reachable (snd (withBoxUnlocked (body :: ('a box, unit) js) b))"

section \<open>The methods of the box\<close>

lemma locked_simps [simp]:
  "locked (unlock b) = False"
  "locked (lock b) = True"
  "locked initial_box = True"
  by (simp_all add: unlock_def lock_def initial_box_def)

lemma priv_content_simps [simp]:
  "priv_content (unlock b) = priv_content b"
  "priv_content (lock b) = priv_content b"
  "priv_content initial_box = []"
  by (simp_all add: unlock_def lock_def initial_box_def)

lemma unlock_idem [simp]: "\<not> locked b \<Longrightarrow> unlock b = b"
  by (simp add: unlock_def)

lemma lock_idem [simp]: "locked b \<Longrightarrow> lock b = b"
  by (simp add: lock_def)

lemma lock_unlock [simp]: "lock (unlock b) = lock b" "unlock (lock b) = unlock b"
  "unlock (unlock b) = unlock b" "lock (lock b) = lock b"
  by (simp_all add: lock_def unlock_def)

lemma content_locked [simp]: "locked b \<Longrightarrow> content b = Throw (Error ''Locked!'')"
  by (simp add: content_def)

lemma content_unlocked [simp]: "\<not> locked b \<Longrightarrow> content b = Normal (priv_content b)"
  by (simp add: content_def)

lemma content_push_unlocked:
  "\<not> locked b \<Longrightarrow> content_push x b = (Normal (), b\<lparr>priv_content := priv_content b @ [x]\<rparr>)"
  by (simp add: content_push_def)

lemma content_push_locked: "locked b \<Longrightarrow> content_push x b = (Throw (Error ''Locked!''), b)"
  by (simp add: content_push_def)

section \<open>The two entries of withBoxUnlocked\<close>

text \<open>
  Entered on a locked box the function unlocks, runs the body and locks; entered
  on an unlocked box it only runs the body. In both cases it completes as the
  body did.
\<close>

lemma withBoxUnlocked_locked:
  "locked b \<Longrightarrow>
   withBoxUnlocked body b = (discard (fst (body (unlock b))), lock (snd (body (unlock b))))"
  by (simp add: withBoxUnlocked_def js_defs split: prod.splits)

lemma withBoxUnlocked_unlocked:
  "\<not> locked b \<Longrightarrow> withBoxUnlocked body b = (discard (fst (body b)), snd (body b))"
  by (simp add: withBoxUnlocked_def js_defs split: prod.splits)

lemmas withBoxUnlocked_simps = withBoxUnlocked_locked withBoxUnlocked_unlocked

lemma reachable_locked: "reachable b \<Longrightarrow> locked b"
  by (induction rule: reachable.induct) (simp_all add: withBoxUnlocked_locked)

section \<open>Properties of the box\<close>

text \<open>
  C6. \<open>withBoxUnlocked\<close> runs the body on the unlocked box and completes as the
  body does, with the body's result dropped; the box it leaves is the one the body
  left, locked again if and only if the box was locked on entry.
\<close>

theorem withBoxUnlocked_behaviour:
  "withBoxUnlocked body b =
     (let (r, b') = body (unlock b) in (discard r, if locked b then lock b' else b'))"
  by (cases "locked b") (simp_all add: withBoxUnlocked_simps split: prod.splits)

text \<open>
  C2. A box that is locked when \<open>withBoxUnlocked\<close> is called is locked when the
  call is over, whatever the body does: return, throw, or write the flag itself.
\<close>

theorem withBoxUnlocked_relocks:
  "locked b \<Longrightarrow> locked (snd (withBoxUnlocked body b))"
  by (simp add: withBoxUnlocked_locked)

theorem withBoxUnlocked_relocks_witness:
  "locked (initial_box :: string box) \<and>
   fst (withBoxUnlocked pirate_body initial_box) = Throw (Error ''Pirates on the horizon! Abort!'') \<and>
   locked (snd (withBoxUnlocked pirate_body initial_box))"
  using withBoxUnlocked_relocks [of "initial_box :: string box" pirate_body]
  by (simp add: withBoxUnlocked_locked pirate_body_def)

text \<open>
  C8. A failure of the body is not swallowed: the call throws exactly when the
  body, run on the unlocked box, throws, and it throws the same exception.
\<close>

theorem withBoxUnlocked_propagates:
  "fst (withBoxUnlocked body b) = Throw e \<longleftrightarrow> fst (body (unlock b)) = Throw e"
  by (cases "locked b") (simp_all add: withBoxUnlocked_simps)

text \<open>
  For a body that leaves the flag as it finds it, the call leaves the flag as
  it finds it: locked boxes are locked again, unlocked boxes stay unlocked.
\<close>

lemma withBoxUnlocked_restores:
  assumes "\<And>s. locked (snd (body s)) = locked s"
  shows "locked (snd (withBoxUnlocked body b)) = locked b"
  by (cases "locked b") (simp_all add: withBoxUnlocked_simps assms)

text \<open>
  C24. A client that touches the box through \<open>withBoxUnlocked\<close> only, with any
  bodies and any number of calls, finds the box locked between the calls: reading
  \<open>box.content\<close> there throws \<open>Error("Locked!")\<close>.
\<close>

theorem reachable_content_denied:
  "reachable b \<Longrightarrow> locked b \<and> content b = Throw (Error ''Locked!'')"
  by (simp add: reachable_locked)

theorem reachable_content_denied_witness:
  "reachable (snd (withBoxUnlocked gold_body initial_box)) \<and>
   locked (snd (withBoxUnlocked gold_body initial_box)) \<and>
   content (snd (withBoxUnlocked gold_body initial_box)) = Throw (Error ''Locked!'')"
  using reachable_content_denied [OF reachable.call [OF reachable.initial, of gold_body]]
    reachable.call [OF reachable.initial, of gold_body]
  by simp

text \<open>
  What a body pushes to \<open>box.content\<close> stays in the box after it is locked
  again: a call whose body pushes \<open>x\<close> returns normally and changes nothing but
  the content, which has \<open>x\<close> at its end.
\<close>

lemma withBoxUnlocked_push:
  "withBoxUnlocked (content_push x) b = (Normal (), b\<lparr>priv_content := priv_content b @ [x]\<rparr>)"
  by (cases "locked b")
    (simp_all add: withBoxUnlocked_simps content_push_unlocked lock_def unlock_def)

text \<open>
  A call inside the body of another call neither locks nor unlocks: wrapping a
  body twice is the same as wrapping it once.
\<close>

lemma withBoxUnlocked_nested:
  "withBoxUnlocked (withBoxUnlocked body) b = withBoxUnlocked body b"
  by (cases "locked b") (simp_all add: withBoxUnlocked_simps)

text \<open>
  C36. The file as a whole: it ends normally with the box locked and holding the
  gold piece, and it prints the caught error and then \<open>true\<close>.
\<close>

theorem lockedBox_main_result:
  "lockedBox_main =
     (Normal (),
      \<lparr>locked = True, priv_content = [''gold piece'']\<rparr>,
      [Log [LStr ''Error raised:'', LExn (Error ''Pirates on the horizon! Abort!'')],
       Log [LBool True]])"
  by (simp add: lockedBox_main_def withBoxUnlocked_simps gold_body_def pirate_body_def
      content_push_unlocked initial_box_def lock_def unlock_def)

text \<open>
  C39. The flag after a call, for every body and every box: the box is locked when
  it was locked on entry or when the body left it locked. So the flag is not always
  put back to what it was: entered on an unlocked box, the call does not write the
  flag after the body, and a body that locks the box leaves it locked.
\<close>

theorem withBoxUnlocked_keeps_body_lock:
  "locked (snd (withBoxUnlocked body b)) \<longleftrightarrow> locked b \<or> locked (snd (body (unlock b)))"
  by (cases "locked b") (simp_all add: withBoxUnlocked_simps)

text \<open>
  A body that locks the box, called on an unlocked box.
\<close>

lemma withBoxUnlocked_locking_body:
  "\<not> locked b \<Longrightarrow> locked (snd (withBoxUnlocked (\<lambda>s. (Normal (), lock s)) b))"
  by (simp add: withBoxUnlocked_unlocked)

end
