(* ===== verification/Box_Store.thy ===== *)
theory Box_Store
  imports Locked_Box
begin

text \<open>
  A second model of \<^verbatim>\<open>chapter 8 exercises/lockedBox.js\<close>, in which the array of the
  box lives in a store and the box holds a reference to it.

  In \<open>Locked_Box\<close> the array is a field of the box, which is right as long as the
  array is reached through the box. But the getter \<open>content\<close> returns the array
  itself, not a copy, and \<open>_content\<close> is an ordinary property: whoever has the
  reference can push to the array without asking the box. Here a \<open>world\<close> holds the
  flag of the box, the reference \<open>content_ref\<close> stored in \<open>_content\<close>, the arrays
  of the store by address, and the variables of a client. \<open>content_s\<close> is the
  getter and returns the reference; \<open>array_push\<close> is \<open>push\<close> on an array, which
  knows nothing of the flag; \<open>content_push_s\<close> is \<open>box.content.push(x)\<close>;
  \<open>withBoxUnlocked_s\<close> is the function of the file on worlds.

  \<open>box_of\<close> reads the box of \<open>Locked_Box\<close> off a world, and \<open>refines\<close> says that a
  computation on worlds does to the box what a computation on boxes does. The
  lemmas: \<open>withBoxUnlocked_s\<close> refines \<open>withBoxUnlocked\<close> for bodies that refine
  each other, so what is proved in \<open>Locked_Box\<close> holds of the box in the store.
  The theorem: a body that keeps the reference it reads (\<open>keep_content\<close>) lets its
  client change the content of the box after the box is locked again.
\<close>

section \<open>The box in a store\<close>

type_synonym addr = nat

record ('a, 'v) world =
  flag :: bool
  content_ref :: addr
  arrays :: "addr \<Rightarrow> 'a list"
  vars :: 'v

definition initial_world :: "'v \<Rightarrow> ('a, 'v) world" where
  "initial_world v = \<lparr>flag = True, content_ref = 0, arrays = (\<lambda>a. []), vars = v\<rparr>"

definition unlock_s :: "('a, 'v) world \<Rightarrow> ('a, 'v) world" where
  "unlock_s w = w\<lparr>flag := False\<rparr>"

definition lock_s :: "('a, 'v) world \<Rightarrow> ('a, 'v) world" where
  "lock_s w = w\<lparr>flag := True\<rparr>"

definition content_s :: "('a, 'v) world \<Rightarrow> addr completion" where
  "content_s w = (if flag w then Throw (Error ''Locked!'') else Normal (content_ref w))"

definition array_push :: "addr \<Rightarrow> 'a \<Rightarrow> (('a, 'v) world, unit) js" where
  "array_push a x w = (Normal (), w\<lparr>arrays := (arrays w)(a := arrays w a @ [x])\<rparr>)"

definition content_push_s :: "'a \<Rightarrow> (('a, 'v) world, unit) js" where
  "content_push_s x w =
     (case content_s w of
        Throw e \<Rightarrow> (Throw e, w)
      | Normal a \<Rightarrow> array_push a x w)"

definition withBoxUnlocked_s :: "(('a, 'v) world, 'r) js \<Rightarrow> (('a, 'v) world, unit) js" where
  "withBoxUnlocked_s body w =
     (let progress = (0::nat);
          (r, progress, w) =
            try_finally
              (\<lambda>(progress, w).
                 let (progress, w) = (if flag w then (1, unlock_s w) else (progress, w));
                     (r, w) = body w
                 in (discard r, progress, w))
              (\<lambda>(progress, w).
                 (Normal (), progress, if progress = 1 then lock_s w else w))
              (progress, w)
      in (r, w))"

section \<open>Abstraction and clients\<close>

definition box_of :: "('a, 'v) world \<Rightarrow> 'a box" where
  "box_of w = \<lparr>locked = flag w, priv_content = arrays w (content_ref w)\<rparr>"

definition refines :: "(('a, 'v) world, 'r) js \<Rightarrow> ('a box, 'q) js \<Rightarrow> bool" where
  "refines body_s body \<longleftrightarrow>
     (\<forall>w. discard (fst (body_s w)) = discard (fst (body (box_of w))) \<and>
          box_of (snd (body_s w)) = snd (body (box_of w)))"

definition keep_content :: "(('a, addr) world, unit) js" where
  "keep_content w =
     (case content_s w of
        Throw e \<Rightarrow> (Throw e, w)
      | Normal a \<Rightarrow> (Normal (), w\<lparr>vars := a\<rparr>))"

section \<open>The box behind a world\<close>

lemma box_of_simps [simp]:
  "locked (box_of w) = flag w"
  "priv_content (box_of w) = arrays w (content_ref w)"
  "box_of (unlock_s w) = unlock (box_of w)"
  "box_of (lock_s w) = lock (box_of w)"
  "box_of (initial_world v) = initial_box"
  by (simp_all add: box_of_def unlock_s_def lock_s_def unlock_def lock_def initial_world_def
      initial_box_def)

lemma flag_simps [simp]:
  "flag (unlock_s w) = False" "flag (lock_s w) = True" "flag (initial_world v) = True"
  by (simp_all add: unlock_s_def lock_s_def initial_world_def)

lemma withBoxUnlocked_s_locked:
  "flag w \<Longrightarrow>
   withBoxUnlocked_s body w = (discard (fst (body (unlock_s w))), lock_s (snd (body (unlock_s w))))"
  by (simp add: withBoxUnlocked_s_def js_defs split: prod.splits)

lemma withBoxUnlocked_s_unlocked:
  "\<not> flag w \<Longrightarrow> withBoxUnlocked_s body w = (discard (fst (body w)), snd (body w))"
  by (simp add: withBoxUnlocked_s_def js_defs split: prod.splits)

lemmas withBoxUnlocked_s_simps = withBoxUnlocked_s_locked withBoxUnlocked_s_unlocked

lemma refinesD:
  "refines body_s body \<Longrightarrow> discard (fst (body_s w)) = discard (fst (body (box_of w)))"
  "refines body_s body \<Longrightarrow> box_of (snd (body_s w)) = snd (body (box_of w))"
  by (simp_all add: refines_def)

lemma refines_content_push: "refines (content_push_s x) (content_push x)"
  by (simp add: refines_def content_push_s_def content_push_def content_s_def content_def
      array_push_def box_of_def)

lemma refines_withBoxUnlocked:
  assumes "refines body_s body"
  shows "refines (withBoxUnlocked_s body_s) (withBoxUnlocked body)"
  unfolding refines_def
proof (intro allI)
  fix w
  show "discard (fst (withBoxUnlocked_s body_s w)) = discard (fst (withBoxUnlocked body (box_of w))) \<and>
        box_of (snd (withBoxUnlocked_s body_s w)) = snd (withBoxUnlocked body (box_of w))"
    by (cases "flag w")
      (simp_all add: withBoxUnlocked_s_simps withBoxUnlocked_simps refinesD [OF assms])
qed

section \<open>Pushing through a reference\<close>

lemma array_push_elsewhere:
  "a \<noteq> content_ref w \<Longrightarrow> box_of (snd (array_push a x w)) = box_of w"
  by (simp add: array_push_def box_of_def)

lemma array_push_alias:
  "box_of (snd (array_push (content_ref w) x w)) =
     (box_of w)\<lparr>priv_content := priv_content (box_of w) @ [x]\<rparr>"
  by (simp add: array_push_def box_of_def)

lemma keep_content_unlocked:
  "\<not> flag w \<Longrightarrow> keep_content w = (Normal (), w\<lparr>vars := content_ref w\<rparr>)"
  by (simp add: keep_content_def content_s_def)

section \<open>Properties of the box in the store\<close>

text \<open>
  The store model refines the record model: pushing to \<open>box.content\<close> on a world
  does to the box what \<open>content_push\<close> does, and \<open>withBoxUnlocked\<close> on worlds does
  to the box what \<open>withBoxUnlocked\<close> on boxes does, for every pair of bodies of
  which the first refines the second; nested calls included.
\<close>

lemma store_refinement:
  assumes "refines body_s body"
  shows "refines (withBoxUnlocked_s body_s) (withBoxUnlocked body) \<and>
         refines (content_push_s x) (content_push x)"
  using assms by (simp add: refines_withBoxUnlocked refines_content_push)

text \<open>
  C14. The lock guards the getter, not the array. A body that keeps the reference
  which \<open>box.content\<close> returns ends normally and the box is locked again; a push
  through the kept reference then succeeds although the box is locked, reading
  \<open>box.content\<close> still throws, and the content of the box has changed.
\<close>

theorem content_reference_escapes:
  assumes "flag w"
  shows "(let (r1, w1) = withBoxUnlocked_s keep_content w;
              (r2, w2) = array_push (vars w1) x w1
          in r1 = Normal () \<and> flag w1 \<and> r2 = Normal () \<and> flag w2 \<and>
             content_s w2 = Throw (Error ''Locked!'') \<and>
             priv_content (box_of w2) = priv_content (box_of w) @ [x])"
  using assms
  by (simp add: withBoxUnlocked_s_locked keep_content_unlocked array_push_def content_s_def
      lock_s_def unlock_s_def box_of_def)

theorem content_reference_escapes_witness:
  "(let (r1, w1) = withBoxUnlocked_s keep_content (initial_world 1 :: (string, addr) world);
        (r2, w2) = array_push (vars w1) ''coin'' w1
    in r1 = Normal () \<and> flag w1 \<and> r2 = Normal () \<and> flag w2 \<and>
       content_s w2 = Throw (Error ''Locked!'') \<and>
       priv_content (box_of w2) = priv_content (box_of (initial_world 1 :: (string, addr) world)) @ [''coin''])"
  using content_reference_escapes [of "initial_world 1 :: (string, addr) world" "''coin''"]
  by simp

end
