(* ===== verification/Box_Steps.thy ===== *)
theory Box_Steps
  imports Locked_Box
begin

text \<open>
  The function \<open>withBoxUnlocked\<close> of \<^verbatim>\<open>chapter 8 exercises/lockedBox.js\<close>, statement by
  statement.

  A configuration is a point in the function (\<open>at\<close>), the local variable
  \<open>progress\<close>, the completion that is pending (\<open>result\<close>) and the box. \<open>step\<close> has one
  rule for every way through a statement: at \<open>Entry\<close> the test of \<open>box.locked\<close> with the
  unlocking and the assignment to \<open>progress\<close>, or nothing; at \<open>Body\<close> the call of the
  body, which leads to the \<^verbatim>\<open>finally\<close> block whether the body returned or threw; at
  \<open>Finally\<close> the test of \<open>progress\<close> with the locking, or nothing. \<open>reach\<close> are the
  configurations that a call on a box passes through.

  \<open>config_at\<close> says in closed form what the configuration at each point is. The
  theorems: the configurations reached are these four and no others, so a call
  runs through \<open>Entry\<close>, \<open>Body\<close>, \<open>Finally\<close> and \<open>Done\<close> in this order and ends with
  the result and the box of the function \<open>withBoxUnlocked\<close> of \<open>Locked_Box\<close>; and the
  invariants of the run: the body starts on an unlocked box, \<open>progress\<close> is set
  exactly when this call unlocked, and a box locked on entry is locked at the end.
\<close>

section \<open>The statements of withBoxUnlocked\<close>

datatype pc = Entry | Body | Finally | Done

record 'a config =
  at :: pc
  progress :: nat
  result :: "unit completion"
  the_box :: "'a box"

definition start :: "'a box \<Rightarrow> 'a config" where
  "start b = \<lparr>at = Entry, progress = 0, result = Normal (), the_box = b\<rparr>"

inductive step :: "('a box, 'r) js \<Rightarrow> 'a config \<Rightarrow> 'a config \<Rightarrow> bool"
  for body :: "('a box, 'r) js"
where
  unlock_it:
    "at c = Entry \<Longrightarrow> locked (the_box c) \<Longrightarrow>
     step body c (c\<lparr>at := Body, progress := 1, the_box := unlock (the_box c)\<rparr>)"
| leave_it:
    "at c = Entry \<Longrightarrow> \<not> locked (the_box c) \<Longrightarrow> step body c (c\<lparr>at := Body\<rparr>)"
| run_body:
    "at c = Body \<Longrightarrow>
     step body c (c\<lparr>at := Finally, result := discard (fst (body (the_box c))),
                     the_box := snd (body (the_box c))\<rparr>)"
| lock_again:
    "at c = Finally \<Longrightarrow> progress c = 1 \<Longrightarrow>
     step body c (c\<lparr>at := Done, the_box := lock (the_box c)\<rparr>)"
| leave_again:
    "at c = Finally \<Longrightarrow> progress c \<noteq> 1 \<Longrightarrow> step body c (c\<lparr>at := Done\<rparr>)"

inductive reach :: "('a box, 'r) js \<Rightarrow> 'a box \<Rightarrow> 'a config \<Rightarrow> bool"
  for body :: "('a box, 'r) js" and b :: "'a box"
where
  reach_start: "reach body b (start b)"
| reach_step: "reach body b c \<Longrightarrow> step body c c' \<Longrightarrow> reach body b c'"

inductive_simps step_iff: "step body c c'"

section \<open>The run of a call\<close>

primrec next_pc :: "pc \<Rightarrow> pc" where
  "next_pc Entry = Body"
| "next_pc Body = Finally"
| "next_pc Finally = Done"
| "next_pc Done = Done"

primrec config_at :: "('a box, 'r) js \<Rightarrow> 'a box \<Rightarrow> pc \<Rightarrow> 'a config" where
  "config_at body b Entry = start b"
| "config_at body b Body =
     \<lparr>at = Body, progress = (if locked b then 1 else 0), result = Normal (), the_box = unlock b\<rparr>"
| "config_at body b Finally =
     \<lparr>at = Finally, progress = (if locked b then 1 else 0),
      result = discard (fst (body (unlock b))), the_box = snd (body (unlock b))\<rparr>"
| "config_at body b Done =
     \<lparr>at = Done, progress = (if locked b then 1 else 0),
      result = fst (withBoxUnlocked body b), the_box = snd (withBoxUnlocked body b)\<rparr>"

section \<open>Steps and reachable configurations\<close>

lemma at_config_at [simp]: "at (config_at body b p) = p"
  by (cases p) (simp_all add: start_def)

lemma step_config_at:
  "step body (config_at body b p) c' \<longleftrightarrow> p \<noteq> Done \<and> c' = config_at body b (next_pc p)"
  by (cases p; cases "locked b")
    (auto simp: step_iff start_def withBoxUnlocked_simps)

lemma reach_config_at: "reach body b (config_at body b p)"
proof -
  have 0: "reach body b (config_at body b Entry)"
    by (simp add: reach_start)
  then have 1: "reach body b (config_at body b Body)"
    by (rule reach_step) (simp add: step_config_at del: config_at.simps)
  then have 2: "reach body b (config_at body b Finally)"
    by (rule reach_step) (simp add: step_config_at del: config_at.simps)
  then have "reach body b (config_at body b Done)"
    by (rule reach_step) (simp add: step_config_at del: config_at.simps)
  with 0 1 2 show ?thesis by (cases p) simp_all
qed

lemma reach_is_config_at: "reach body b c \<Longrightarrow> c = config_at body b (at c)"
proof (induction rule: reach.induct)
  case reach_start
  show ?case by (simp add: start_def)
next
  case (reach_step c c')
  then have "step body (config_at body b (at c)) c'" by simp
  then show ?case by (simp add: step_config_at)
qed

lemma UNIV_pc: "UNIV = {Entry, Body, Finally, Done}"
  by (auto intro: pc.exhaust)

lemma inj_config_at: "inj (config_at body b)"
  by (rule inj_on_inverseI [where g = at]) simp

section \<open>Properties of the run\<close>

text \<open>
  C17. The step relation and the function agree: the configurations that a call
  passes through are exactly those of \<open>config_at\<close>, one for each point, and the one
  at \<open>Done\<close> holds the completion and the box that \<open>withBoxUnlocked\<close> returns. The
  \<^verbatim>\<open>finally\<close> block is passed on every run.
\<close>

theorem reach_iff: "reach body b c \<longleftrightarrow> (\<exists>p. c = config_at body b p)"
  using reach_is_config_at [of body b c] reach_config_at [of body b] by auto

text \<open>
  Invariants of the run: the body starts on an unlocked box; \<open>progress\<close> is \<open>1\<close>
  exactly when the box was locked on entry and the test has been passed; a box that
  was locked on entry is locked at the end; and the end is the result of the
  function.
\<close>

lemma reach_invariant:
  assumes "reach body b c"
  shows "(at c = Body \<longrightarrow> \<not> locked (the_box c)) \<and>
         (at c = Done \<and> locked b \<longrightarrow> locked (the_box c)) \<and>
         (progress c = 1 \<longleftrightarrow> locked b \<and> at c \<noteq> Entry) \<and>
         (at c = Done \<longrightarrow> (result c, the_box c) = withBoxUnlocked body b)"
proof -
  from assms obtain p where "c = config_at body b p"
    by (auto simp: reach_iff)
  then show ?thesis
    by (cases p) (auto simp: start_def withBoxUnlocked_locked)
qed


text \<open>A call passes through four configurations, and each has one successor at most.\<close>

lemma reach_card: "card {c. reach body b c} = 4"
proof -
  have "{c. reach body b c} = config_at body b ` UNIV"
    using reach_is_config_at [of body b] reach_config_at [of body b] by auto
  then have "card {c. reach body b c} = card (UNIV :: pc set)"
    by (simp only: card_image [OF inj_config_at])
  also have "\<dots> = 4"
    by (simp add: UNIV_pc)
  finally show ?thesis .
qed

lemma step_deterministic: "step body c c1 \<Longrightarrow> step body c c2 \<Longrightarrow> c1 = c2"
  by (auto simp: step_iff)

end
