(* ===== verification/Box_Clients.thy ===== *)
theory Box_Clients
  imports Locked_Box
begin

text \<open>
  The clients of the box, as programs.

  The top level of \<^verbatim>\<open>lockedBox.js\<close> is written with a handful of statements: a
  push to \<open>box.content\<close>, a \<^verbatim>\<open>throw\<close> of an \<open>Error\<close>, a call of
  \<open>withBoxUnlocked\<close> on a function whose body is again such statements, a
  \<^verbatim>\<open>try\<close> with the \<^verbatim>\<open>catch\<close> block of the file, and the print of
  \<open>box.locked\<close>; \<open>box.unlock()\<close> and \<open>box.lock()\<close> are the two methods a client may
  call besides. \<open>stmt\<close> is the syntax of these statements and \<open>exec_stmt\<close>,
  \<open>exec_block\<close> their meaning, a computation on a \<open>session\<close>: the record of the box
  extended by the console. A call of \<open>withBoxUnlocked\<close> is the function of
  \<open>Locked_Box\<close> applied to the meaning of the body. \<open>lockedBox_program\<close> is the top
  level of the file in this syntax.

  The specification side describes a program without the box: \<open>plain_stmt\<close> and
  \<open>plain_block\<close> run it on the bare array and the console, and take as a parameter
  whether the statement stands inside a call of \<open>withBoxUnlocked\<close>; a push outside
  fails as the getter does. \<open>flag_free\<close> programs call neither \<open>lock\<close> nor
  \<open>unlock\<close>; \<open>scoped\<close> programs moreover push only inside a call of
  \<open>withBoxUnlocked\<close>; \<open>raises\<close> collects the messages a program throws outside
  every \<^verbatim>\<open>try\<close>.

  The theorems: a program that does not write the flag itself behaves as the plain
  program, and leaves the flag as it found it; a scoped program throws nothing but
  the errors it raises itself, so the getter never fails in it. That the program
  of the file runs as \<open>lockedBox_main\<close> is a lemma.
\<close>

section \<open>Programs\<close>

record 'a session = "'a box" +
  printed :: console

definition initial_session :: "'a session" where
  "initial_session = \<lparr>locked = True, priv_content = [], printed = []\<rparr>"

datatype stmt =
    Push string
  | ThrowError string
  | WithBoxUnlocked "stmt list"
  | TryCatchLog "stmt list"
  | LogLocked
  | Unlock
  | Lock

primrec exec_stmt :: "stmt \<Rightarrow> (string session, unit) js"
  and exec_block :: "stmt list \<Rightarrow> (string session, unit) js" where
  "exec_stmt (Push v) s = content_push v s"
| "exec_stmt (ThrowError msg) s = (Throw (Error msg), s)"
| "exec_stmt (WithBoxUnlocked body) s = withBoxUnlocked (exec_block body) s"
| "exec_stmt (TryCatchLog block) s =
     (case exec_block block s of
        (Normal u, s') \<Rightarrow> (Normal (), s')
      | (Throw e, s') \<Rightarrow> (Normal (), s'\<lparr>printed := printed s' @ [Log [LStr ''Error raised:'', LExn e]]\<rparr>))"
| "exec_stmt LogLocked s = (Normal (), s\<lparr>printed := printed s @ [Log [LBool (locked s)]]\<rparr>)"
| "exec_stmt Unlock s = (Normal (), unlock s)"
| "exec_stmt Lock s = (Normal (), lock s)"
| "exec_block [] s = (Normal (), s)"
| "exec_block (st # sts) s =
     (case exec_stmt st s of
        (Normal u, s') \<Rightarrow> exec_block sts s'
      | (Throw e, s') \<Rightarrow> (Throw e, s'))"

definition lockedBox_program :: "stmt list" where
  "lockedBox_program =
     [WithBoxUnlocked [Push ''gold piece''],
      TryCatchLog [WithBoxUnlocked [ThrowError ''Pirates on the horizon! Abort!'']],
      LogLocked]"

section \<open>Programs without the box\<close>

type_synonym plain_state = "string list \<times> console"

primrec plain_stmt :: "stmt \<Rightarrow> bool \<Rightarrow> (plain_state, unit) js"
  and plain_block :: "stmt list \<Rightarrow> bool \<Rightarrow> (plain_state, unit) js" where
  "plain_stmt (Push v) u s =
     (if u then (Normal (), fst s @ [v], snd s) else (Throw (Error ''Locked!''), s))"
| "plain_stmt (ThrowError msg) u s = (Throw (Error msg), s)"
| "plain_stmt (WithBoxUnlocked body) u s = plain_block body True s"
| "plain_stmt (TryCatchLog block) u s =
     (case plain_block block u s of
        (Normal v, s') \<Rightarrow> (Normal (), s')
      | (Throw e, s') \<Rightarrow> (Normal (), fst s', snd s' @ [Log [LStr ''Error raised:'', LExn e]]))"
| "plain_stmt LogLocked u s = (Normal (), fst s, snd s @ [Log [LBool (\<not> u)]])"
| "plain_stmt Unlock u s = (Normal (), s)"
| "plain_stmt Lock u s = (Normal (), s)"
| "plain_block [] u s = (Normal (), s)"
| "plain_block (st # sts) u s =
     (case plain_stmt st u s of
        (Normal v, s') \<Rightarrow> plain_block sts u s'
      | (Throw e, s') \<Rightarrow> (Throw e, s'))"

primrec flag_free_stmt :: "stmt \<Rightarrow> bool" and flag_free_block :: "stmt list \<Rightarrow> bool" where
  "flag_free_stmt (Push v) = True"
| "flag_free_stmt (ThrowError msg) = True"
| "flag_free_stmt (WithBoxUnlocked body) = flag_free_block body"
| "flag_free_stmt (TryCatchLog block) = flag_free_block block"
| "flag_free_stmt LogLocked = True"
| "flag_free_stmt Unlock = False"
| "flag_free_stmt Lock = False"
| "flag_free_block [] = True"
| "flag_free_block (st # sts) = (flag_free_stmt st \<and> flag_free_block sts)"

text \<open>
  The discipline of the clients, checked on the syntax: \<open>flag_free\<close> programs leave
  the flag to \<open>withBoxUnlocked\<close>, and \<open>scoped\<close> programs moreover touch the content
  only inside a call of it. The second argument of \<open>scoped\<close> says whether the program
  starts on an unlocked box.
\<close>

primrec scoped_stmt :: "stmt \<Rightarrow> bool \<Rightarrow> bool" and scoped_block :: "stmt list \<Rightarrow> bool \<Rightarrow> bool" where
  "scoped_stmt (Push v) u = u"
| "scoped_stmt (ThrowError msg) u = True"
| "scoped_stmt (WithBoxUnlocked body) u = scoped_block body True"
| "scoped_stmt (TryCatchLog block) u = scoped_block block u"
| "scoped_stmt LogLocked u = True"
| "scoped_stmt Unlock u = False"
| "scoped_stmt Lock u = False"
| "scoped_block [] u = True"
| "scoped_block (st # sts) u = (scoped_stmt st u \<and> scoped_block sts u)"

primrec raises_stmt :: "stmt \<Rightarrow> string set" and raises_block :: "stmt list \<Rightarrow> string set" where
  "raises_stmt (Push v) = {}"
| "raises_stmt (ThrowError msg) = {msg}"
| "raises_stmt (WithBoxUnlocked body) = raises_block body"
| "raises_stmt (TryCatchLog block) = {}"
| "raises_stmt LogLocked = {}"
| "raises_stmt Unlock = {}"
| "raises_stmt Lock = {}"
| "raises_block [] = {}"
| "raises_block (st # sts) = raises_stmt st \<union> raises_block sts"

text \<open>
  A session and the plain state it holds: \<open>plain_of\<close> forgets the flag,
  \<open>with_plain\<close> puts a plain state back into a session and \<open>lift\<close> does so for the
  result of a plain program.
\<close>

definition plain_of :: "string session \<Rightarrow> plain_state" where
  "plain_of s = (priv_content s, printed s)"

definition with_plain :: "string session \<Rightarrow> plain_state \<Rightarrow> string session" where
  "with_plain s cp = s\<lparr>priv_content := fst cp, printed := snd cp\<rparr>"

definition lift ::
    "string session \<Rightarrow> unit completion \<times> plain_state \<Rightarrow> unit completion \<times> string session" where
  "lift s res = (fst res, with_plain s (snd res))"

section \<open>Sessions and plain states\<close>

lemma plain_of_with_plain [simp]: "plain_of (with_plain s cp) = cp"
  by (simp add: plain_of_def with_plain_def)

lemma with_plain_plain_of [simp]: "with_plain s (plain_of s) = s"
  by (simp add: plain_of_def with_plain_def)

lemma with_plain_twice [simp]: "with_plain (with_plain s cp) cp' = with_plain s cp'"
  by (simp add: with_plain_def)

lemma locked_with_plain [simp]: "locked (with_plain s cp) = locked s"
  by (simp add: with_plain_def)

lemma plain_of_flag [simp]: "plain_of (unlock s) = plain_of s" "plain_of (lock s) = plain_of s"
  by (simp_all add: plain_of_def unlock_def lock_def)

lemma with_plain_unlock: "locked s \<Longrightarrow> lock (with_plain (unlock s) cp) = with_plain s cp"
  by (simp add: with_plain_def lock_def unlock_def)

lemma lift_simps [simp]:
  "fst (lift s res) = fst res" "snd (lift s res) = with_plain s (snd res)"
  "lift s (r, cp) = (r, with_plain s cp)"
  "lift (with_plain s cp) res = lift s res"
  by (simp_all add: lift_def)

section \<open>The flag is a matter of nesting\<close>

lemma exec_plain_stmt:
  "flag_free_stmt st \<Longrightarrow> exec_stmt st s = lift s (plain_stmt st (\<not> locked s) (plain_of s))"
  and exec_plain_block:
  "flag_free_block prog \<Longrightarrow> exec_block prog s = lift s (plain_block prog (\<not> locked s) (plain_of s))"
proof (induction st and prog arbitrary: s and s rule: exec_stmt.induct exec_block.induct)
  case (Push v)
  show ?case
    by (cases "locked s")
      (simp_all add: content_push_locked content_push_unlocked plain_of_def with_plain_def)
next
  case (WithBoxUnlocked body)
  then have body: "exec_block body t = lift t (plain_block body (\<not> locked t) (plain_of t))" for t
    by simp
  show ?case
  proof (cases "locked s")
    case True
    then show ?thesis
      by (simp add: withBoxUnlocked_locked body [of "unlock s"] with_plain_unlock lift_def)
  next
    case False
    then show ?thesis
      by (simp add: withBoxUnlocked_unlocked body [of s] lift_def)
  qed
next
  case (TryCatchLog block)
  then have "exec_block block s = lift s (plain_block block (\<not> locked s) (plain_of s))"
    by simp
  then show ?case
    by (cases "plain_block block (\<not> locked s) (plain_of s)" rule: prod_cases3)
      (auto simp: with_plain_def split: completion.splits)
next
  case LogLocked
  show ?case by (simp add: plain_of_def with_plain_def)
next
  case (Cons_stmt st sts)
  then have st: "exec_stmt st s = lift s (plain_stmt st (\<not> locked s) (plain_of s))"
    and sts: "exec_block sts t = lift t (plain_block sts (\<not> locked t) (plain_of t))" for t
    by simp_all
  show ?case
    by (cases "plain_stmt st (\<not> locked s) (plain_of s)" rule: prod_cases3)
      (auto simp: st sts split: completion.splits)
qed simp_all

section \<open>What a scoped program can throw\<close>

lemma scoped_flag_free_stmt: "scoped_stmt st u \<Longrightarrow> flag_free_stmt st"
  and scoped_flag_free_block: "scoped_block prog u \<Longrightarrow> flag_free_block prog"
  by (induction st and prog arbitrary: u and u rule: exec_stmt.induct exec_block.induct) auto

lemma plain_raises_stmt:
  "scoped_stmt st u \<Longrightarrow> fst (plain_stmt st u s) = Throw e \<Longrightarrow> e \<in> Error ` raises_stmt st"
  and plain_raises_block:
  "scoped_block prog u \<Longrightarrow> fst (plain_block prog u s) = Throw e \<Longrightarrow> e \<in> Error ` raises_block prog"
proof (induction st and prog arbitrary: u s and u s rule: exec_stmt.induct exec_block.induct)
  case (TryCatchLog block)
  from TryCatchLog.prems(2) show ?case
    by (simp split: prod.splits completion.splits)
next
  case (Cons_stmt st sts)
  from Cons_stmt.prems Cons_stmt.IH(1) [of u s] Cons_stmt.IH(2) [of u] show ?case
    by (auto split: prod.splits completion.splits)
qed simp_all

section \<open>Properties of the clients\<close>

lemma exec_block_single: "exec_block [st] = exec_stmt st"
  by (rule ext) (simp split: prod.splits completion.splits)

text \<open>
  C11. A program that calls neither \<open>lock\<close> nor \<open>unlock\<close> itself behaves as the plain
  program on the array and the console: whether the box is unlocked at a statement
  is decided by where the statement stands, not by the run. The flag is the same
  after the program as before it, whether it ends normally or throws.
\<close>

theorem exec_block_plain:
  assumes "flag_free_block prog"
  shows "exec_block prog s =
    (let (r, c, p) = plain_block prog (\<not> locked s) (priv_content s, printed s)
     in (r, s\<lparr>priv_content := c, printed := p\<rparr>))"
  by (simp add: exec_plain_block [OF assms] lift_def plain_of_def with_plain_def split: prod.splits)

theorem exec_block_plain_witness:
  "flag_free_block lockedBox_program \<and>
   exec_block lockedBox_program initial_session =
    (let (r, c, p) = plain_block lockedBox_program (\<not> locked (initial_session :: string session))
       (priv_content (initial_session :: string session), printed (initial_session :: string session))
     in (r, initial_session\<lparr>priv_content := c, printed := p\<rparr>))"
  using exec_block_plain [of lockedBox_program initial_session]
  by (simp add: lockedBox_program_def)

text \<open>
  The flag is restored by every such program. It is not by programs that write
  the flag: a call entered on an unlocked box whose body locks it leaves the box
  locked.
\<close>

lemma flag_free_keeps_flag:
  "flag_free_block prog \<Longrightarrow> locked (snd (exec_block prog s)) = locked s"
  by (simp add: exec_plain_block)

lemma flag_written_not_restored:
  "\<not> locked s \<Longrightarrow> locked (snd (exec_block [WithBoxUnlocked [Lock]] s))"
  by (simp add: withBoxUnlocked_unlocked)

text \<open>
  C15. The check is sound: a scoped program, started on a box in the state the check
  assumes, throws only errors that the program raises itself outside every
  \<^verbatim>\<open>try\<close>. The getter of \<open>box.content\<close> never throws in it.
\<close>

theorem scoped_sound:
  assumes "scoped_block prog (\<not> locked s)" and "fst (exec_block prog s) = Throw e"
  shows "e \<in> Error ` raises_block prog"
  using assms plain_raises_block [of prog "\<not> locked s" "plain_of s" e]
  by (simp add: exec_plain_block scoped_flag_free_block)

theorem scoped_sound_witness:
  "Error ''Pirates on the horizon! Abort!'' \<in>
     Error ` raises_block [WithBoxUnlocked [ThrowError ''Pirates on the horizon! Abort!'']]"
  using scoped_sound [of "[WithBoxUnlocked [ThrowError ''Pirates on the horizon! Abort!'']]"
      initial_session "Error ''Pirates on the horizon! Abort!''"]
  by (simp add: initial_session_def withBoxUnlocked_locked)

text \<open>
  In particular a scoped program that raises no error with the message of the
  getter is never denied access; the program of the file is scoped for a box that
  is locked at the start.
\<close>

lemma scoped_never_denied:
  assumes "scoped_block prog (\<not> locked s)" and "''Locked!'' \<notin> raises_block prog"
  shows "fst (exec_block prog s) \<noteq> Throw (Error ''Locked!'')"
  using assms plain_raises_block [of prog "\<not> locked s" "plain_of s" "Error ''Locked!''"]
  by (auto simp: exec_plain_block scoped_flag_free_block)

lemma lockedBox_program_scoped:
  "scoped_block lockedBox_program False \<and>
   raises_block lockedBox_program = {} \<and> flag_free_block lockedBox_program"
  by (simp add: lockedBox_program_def)

text \<open>
  The bodies of the two calls of the file are the bodies of \<open>Locked_Box\<close>.
\<close>

lemma exec_bodies:
  "exec_block [Push ''gold piece''] = gold_body"
  "exec_block [ThrowError ''Pirates on the horizon! Abort!''] = pirate_body"
  by (rule ext, simp add: exec_block_single gold_body_def pirate_body_def)+

text \<open>
  The top level of the file, written as a program and run from the initial box
  and an empty console, completes as \<open>lockedBox_main\<close> does, with the same box and
  the same console.
\<close>

lemma lockedBox_program_main:
  "lockedBox_main =
     (let (r, s) = exec_block lockedBox_program initial_session
      in (r, box.truncate s, printed s))"
  by (simp add: lockedBox_main_def lockedBox_program_def initial_session_def initial_box_def
      gold_body_def pirate_body_def withBoxUnlocked_simps content_push_unlocked lock_def unlock_def
      box.truncate_def)

end
