(* ===== verification/Retry.thy ===== *)
theory Retry
  imports Complex_Main Js_Prelude "HOL-Library.Stream"
begin

text \<open>
  Model of \<^verbatim>\<open>chapter 8 exercises/retry.js\<close>.

  \<open>primitiveMultiply\<close> draws a random number and either returns the product or
  throws a \<open>MultiplicatorUnitFailure\<close>. The draw is made explicit: the function
  takes the value of \<open>Math.random()\<close> as its first argument, a real number (the
  rounding of floating point multiplication is not modelled; the operands are
  integers, for which the product is exact below \<open>2 ^ 53\<close>). \<open>round_js\<close> is
  \<open>Math.round\<close>, which rounds halves up.

  \<open>trial\<close> is the endless \<^verbatim>\<open>for(;;)\<close> loop. It consumes one draw per
  iteration from a stream of draws and appends to the console; since the loop
  has no bound it is a partial function into \<open>option\<close>, where \<open>None\<close> is a run
  that never ends. \<open>trial_fuel\<close> is the same loop cut off after \<open>n\<close> iterations.
  \<open>retry_main\<close> is the call at the end of the file.

  \<open>grid_draw\<close> and \<open>passing\<close> count the draws that pass among equally spaced
  ones. \<open>succeeds\<close> is the test of the draw, \<open>first_success rnds k\<close> says that draw
  \<open>k\<close> is the first that passes it, and \<open>trace k a b\<close> is what a run with \<open>k\<close>
  failures prints: \<open>k\<close> errors and the product.
\<close>

section \<open>The file\<close>

definition round_js :: "real \<Rightarrow> int" where
  "round_js x = \<lfloor>x + 1 / 2\<rfloor>"

definition primitiveMultiply :: "real \<Rightarrow> int \<Rightarrow> int \<Rightarrow> int completion" where
  "primitiveMultiply rnd a b =
     (if round_js (rnd * 100) \<le> 20 then Normal (a * b)
      else Throw (MultiplicatorUnitFailure ''Failed to multiply''))"

partial_function (option) trial ::
    "real stream \<Rightarrow> int \<Rightarrow> int \<Rightarrow> console \<Rightarrow> (unit completion \<times> console) option" where
  "trial rnds a b out =
     (case primitiveMultiply (shd rnds) a b of
        Normal result \<Rightarrow> Some (Normal (), out @ [Log [LNum result]])
      | Throw e \<Rightarrow>
          if instanceof_MultiplicatorUnitFailure e
          then trial (stl rnds) a b (out @ [Err [LExn e]])
          else Some (Throw e, out))"

fun trial_fuel ::
    "nat \<Rightarrow> real stream \<Rightarrow> int \<Rightarrow> int \<Rightarrow> console \<Rightarrow> (unit completion \<times> console) option" where
  "trial_fuel 0 rnds a b out = None"
| "trial_fuel (Suc n) rnds a b out =
     (case primitiveMultiply (shd rnds) a b of
        Normal result \<Rightarrow> Some (Normal (), out @ [Log [LNum result]])
      | Throw e \<Rightarrow>
          if instanceof_MultiplicatorUnitFailure e
          then trial_fuel n (stl rnds) a b (out @ [Err [LExn e]])
          else Some (Throw e, out))"

definition retry_main :: "real stream \<Rightarrow> (unit completion \<times> console) option" where
  "retry_main rnds = trial rnds 12 5 []"

section \<open>Describing runs\<close>

definition succeeds :: "real \<Rightarrow> bool" where
  "succeeds rnd \<longleftrightarrow> round_js (rnd * 100) \<le> 20"

definition first_success :: "real stream \<Rightarrow> nat \<Rightarrow> bool" where
  "first_success rnds k \<longleftrightarrow> succeeds (rnds !! k) \<and> (\<forall>i<k. \<not> succeeds (rnds !! i))"

definition failure :: entry where
  "failure = Err [LExn (MultiplicatorUnitFailure ''Failed to multiply'')]"

definition trace :: "nat \<Rightarrow> int \<Rightarrow> int \<Rightarrow> console" where
  "trace k a b = replicate k failure @ [Log [LNum (a * b)]]"

text \<open>
  How often an attempt passes. \<open>Math.random()\<close> returns one of finitely many equally
  spaced numbers from \<open>0\<close> up to but not including \<open>1\<close>, each as likely as the
  others; for a generator with \<open>N\<close> values these are \<open>grid_draw N k\<close> for
  \<open>k < N\<close>, and \<open>passing N\<close> are those among them for which an attempt succeeds.
\<close>

definition grid_draw :: "nat \<Rightarrow> nat \<Rightarrow> real" where
  "grid_draw N k = real k / real N"

definition passing :: "nat \<Rightarrow> nat set" where
  "passing N = {k. k < N \<and> succeeds (grid_draw N k)}"

section \<open>One attempt\<close>

lemma succeeds_iff: "succeeds rnd \<longleftrightarrow> rnd < 205 / 1000"
  unfolding succeeds_def round_js_def by (auto simp: floor_le_iff)

lemma primitiveMultiply_simps:
  "succeeds rnd \<Longrightarrow> primitiveMultiply rnd a b = Normal (a * b)"
  "\<not> succeeds rnd \<Longrightarrow>
     primitiveMultiply rnd a b = Throw (MultiplicatorUnitFailure ''Failed to multiply'')"
  by (simp_all add: primitiveMultiply_def succeeds_def)

lemma succeeds_grid_draw: "0 < N \<Longrightarrow> succeeds (grid_draw N k) \<longleftrightarrow> 1000 * k < 205 * N"
proof -
  assume "0 < N"
  then have "real k / real N < 205 / 1000 \<longleftrightarrow> real k * 1000 < 205 * real N"
    by (simp add: field_simps)
  also have "\<dots> \<longleftrightarrow> real (1000 * k) < real (205 * N)"
    by (simp add: mult.commute)
  also have "\<dots> \<longleftrightarrow> 1000 * k < 205 * N"
    by (simp only: of_nat_less_iff)
  finally show ?thesis
    by (simp add: succeeds_iff grid_draw_def)
qed

lemma passing_eq: "passing N = {..<(205 * N + 999) div 1000}"
proof (cases "N = 0")
  case True
  then show ?thesis by (simp add: passing_def)
next
  case False
  then have "k < N \<and> succeeds (grid_draw N k) \<longleftrightarrow> k < (205 * N + 999) div 1000" for k
    by (simp add: succeeds_grid_draw) arith
  then show ?thesis
    by (auto simp: passing_def)
qed

lemma round_js_range:
  "0 \<le> rnd \<Longrightarrow> rnd < 1 \<Longrightarrow> 0 \<le> round_js (rnd * 100) \<and> round_js (rnd * 100) \<le> 100"
  unfolding round_js_def by (auto simp: le_floor_iff floor_le_iff)

section \<open>The first successful draw\<close>

lemma first_success_0: "first_success rnds 0 \<longleftrightarrow> succeeds (shd rnds)"
  by (simp add: first_success_def)

lemma first_success_Suc:
  "first_success rnds (Suc k) \<longleftrightarrow> \<not> succeeds (shd rnds) \<and> first_success (stl rnds) k"
  by (auto simp: first_success_def less_Suc_eq_0_disj)

lemma first_success_ex: "succeeds (rnds !! n) \<Longrightarrow> \<exists>k\<le>n. first_success rnds k"
  unfolding first_success_def
  by (induction n rule: less_induct) (metis le_less_trans less_or_eq_imp_le not_le_imp_less order_refl)

lemma first_success_Least:
  "\<exists>k. succeeds (rnds !! k) \<Longrightarrow> first_success rnds (LEAST k. succeeds (rnds !! k))"
  unfolding first_success_def by (metis LeastI not_less_Least)

section \<open>The loop\<close>

lemma trial_step_success:
  "succeeds (shd rnds) \<Longrightarrow> trial rnds a b out = Some (Normal (), out @ [Log [LNum (a * b)]])"
  by (subst trial.simps) (simp add: primitiveMultiply_simps)

lemma trial_step_failure:
  "\<not> succeeds (shd rnds) \<Longrightarrow> trial rnds a b out = trial (stl rnds) a b (out @ [failure])"
  by (subst trial.simps) (simp add: primitiveMultiply_simps failure_def)

lemma trial_first_success:
  "first_success rnds k \<Longrightarrow> trial rnds a b out = Some (Normal (), out @ trace k a b)"
proof (induction k arbitrary: rnds out)
  case 0
  then show ?case by (simp add: first_success_0 trial_step_success trace_def)
next
  case (Suc k)
  then show ?case
    by (simp add: first_success_Suc trial_step_failure trace_def replicate_app_Cons_same)
qed

lemma trial_fuel_first_success:
  "first_success rnds k \<Longrightarrow>
   trial_fuel n rnds a b out = (if k < n then Some (Normal (), out @ trace k a b) else None)"
proof (induction n arbitrary: rnds out k)
  case 0
  show ?case by simp
next
  case (Suc n)
  show ?case
  proof (cases k)
    case 0
    with Suc.prems show ?thesis
      by (simp add: first_success_0 primitiveMultiply_simps trace_def)
  next
    case (Suc j)
    with Suc.prems Suc.IH [of "stl rnds" j] show ?thesis
      by (simp add: first_success_Suc primitiveMultiply_simps trace_def failure_def
          replicate_app_Cons_same)
  qed
qed

lemma trial_fuel_never:
  "(\<forall>i<n. \<not> succeeds (rnds !! i)) \<Longrightarrow> trial_fuel n rnds a b out = None"
proof (induction n arbitrary: rnds out)
  case 0
  show ?case by simp
next
  case (Suc n)
  from Suc.prems have "\<not> succeeds (shd rnds)" and "\<forall>i<n. \<not> succeeds (stl rnds !! i)"
    by (auto dest: spec [of _ 0] spec [of _ "Suc _"])
  with Suc.IH show ?case
    by (simp add: primitiveMultiply_simps)
qed

lemma trial_Some_succeeds:
  assumes ret: "trial rnds a b out = Some res"
  shows "\<exists>k. succeeds (rnds !! k)"
proof (rule trial.raw_induct [where P = "\<lambda>rnds a b out res. \<exists>k. succeeds (rnds !! k)", OF _ ret])
  fix f rnds a b out res
  assume IH: "\<And>rnds a b out res. f rnds a b out = Some res \<Longrightarrow> \<exists>k. succeeds (rnds !! k)"
    and eq: "(case primitiveMultiply (shd rnds) a b of
        Normal result \<Rightarrow> Some (Normal (), out @ [Log [LNum result]])
      | Throw e \<Rightarrow>
          if instanceof_MultiplicatorUnitFailure e
          then f (stl rnds) a b (out @ [Err [LExn e]])
          else Some (Throw e, out)) = Some res"
  show "\<exists>k. succeeds (rnds !! k)"
  proof (cases "succeeds (shd rnds)")
    case True
    then have "succeeds (rnds !! 0)" by simp
    then show ?thesis ..
  next
    case False
    with eq have "f (stl rnds) a b (out @ [failure]) = Some res"
      by (simp add: primitiveMultiply_simps failure_def)
    then obtain k where "succeeds (stl rnds !! k)" using IH by blast
    then have "succeeds (rnds !! Suc k)" by simp
    then show ?thesis ..
  qed
qed

lemma trial_never: "(\<forall>k. \<not> succeeds (rnds !! k)) \<Longrightarrow> trial rnds a b out = None"
  using trial_Some_succeeds [of rnds a b out] by (cases "trial rnds a b out") auto

lemma trial_cases:
  obtains (returns) k where "first_success rnds k"
      and "trial rnds a b out = Some (Normal (), out @ trace k a b)"
    | (diverges) "\<forall>k. \<not> succeeds (rnds !! k)" and "trial rnds a b out = None"
proof (cases "\<exists>k. succeeds (rnds !! k)")
  case True
  then have "first_success rnds (LEAST k. succeeds (rnds !! k))"
    by (rule first_success_Least)
  then show ?thesis
    by (rule returns) (simp add: trial_first_success \<open>first_success rnds _\<close>)
next
  case False
  then show ?thesis
    by (intro diverges) (simp_all add: trial_never)
qed

section \<open>Properties of the retry loop\<close>

text \<open>
  C3. What \<open>trial\<close> does, for every sequence of draws: if some draw passes the test,
  the loop ends normally after printing one error for each draw before the first
  that passes and then the product \<open>a * b\<close>; if no draw passes, the loop never
  ends.
\<close>

theorem trial_characterisation:
  "trial rnds a b out =
     (if \<exists>k. succeeds (rnds !! k)
      then Some (Normal (), out @ trace (LEAST k. succeeds (rnds !! k)) a b)
      else None)"
proof (cases "\<exists>k. succeeds (rnds !! k)")
  case True
  with first_success_Least [of rnds] show ?thesis
    by (simp add: trial_first_success)
next
  case False
  then show ?thesis by (simp add: trial_never)
qed

text \<open>
  C9. The loop ends as soon as a draw passes: if draw \<open>n\<close> passes the test, \<open>trial\<close>
  returns normally after at most \<open>n\<close> failures, having printed the product last.
\<close>

theorem trial_returns:
  assumes "succeeds (rnds !! n)"
  shows "\<exists>k\<le>n. trial rnds a b out = Some (Normal (), out @ trace k a b)"
  using first_success_ex [OF assms] trial_first_success by blast

theorem trial_returns_witness:
  "\<exists>k\<le>2. trial (9 / 10 ## 1 / 2 ## sconst (1 / 10)) 12 5 [] = Some (Normal (), [] @ trace k 12 5)"
  using trial_returns [of "9 / 10 ## 1 / 2 ## sconst (1 / 10)" 2 12 5 "[]"]
  by (simp add: succeeds_iff numeral_2_eq_2)

text \<open>
  C10. The retry has no bound: on a sequence of draws none of which passes the test
  the loop never returns, and the cut-off loop runs out of fuel for every amount of
  fuel.
\<close>

theorem trial_diverges:
  assumes "\<forall>k. \<not> succeeds (rnds !! k)"
  shows "trial rnds a b out = None \<and> (\<forall>n. trial_fuel n rnds a b out = None)"
  using assms by (simp add: trial_never trial_fuel_never)

theorem trial_diverges_witness:
  "trial (sconst (1 / 2)) 12 5 [] = None \<and> (\<forall>n. trial_fuel n (sconst (1 / 2)) 12 5 [] = None)"
  using trial_diverges [of "sconst (1 / 2)" 12 5 "[]"] by (simp add: succeeds_iff)

text \<open>
  C29. \<open>trial\<close> never returns a wrong value and never fails: whenever it returns, it
  returns normally, the last thing printed is the product \<open>a * b\<close>, and everything
  printed before it is the error of a failed attempt. The branch that rethrows
  other exceptions is never taken.
\<close>

theorem trial_result:
  assumes "trial rnds a b out = Some (r, out')"
  shows "r = Normal () \<and> (\<exists>k. first_success rnds k \<and> out' = out @ trace k a b)"
  using assms by (cases rule: trial_cases [of rnds a b out]) auto

theorem trial_result_witness:
  "\<exists>k. first_success (1 / 10 ## sconst 1) k \<and> [Log [LNum 60]] = [] @ trace k 12 5"
  using trial_result [of "1 / 10 ## sconst 1" 12 5 "[]" "Normal ()" "[Log [LNum 60]]"]
  by (simp add: trial_step_success succeeds_iff)

text \<open>
  The loop cut off after \<open>n\<close> iterations agrees with the endless loop: \<open>trial\<close>
  returns a result exactly when some amount of fuel yields that result.
\<close>

lemma trial_fuel_agrees:
  "trial rnds a b out = Some res \<longleftrightarrow> (\<exists>n. trial_fuel n rnds a b out = Some res)"
proof (cases rule: trial_cases [of rnds a b out])
  case (returns k)
  then show ?thesis
    by (auto simp: trial_fuel_first_success split: if_splits)
next
  case diverges
  then show ?thesis by (simp add: trial_fuel_never)
qed

text \<open>
  The number of attempts is the position of the first draw that passes: if that
  is draw \<open>k\<close>, fuel for \<open>k + 1\<close> iterations or more gives the result of \<open>trial\<close>, and
  less fuel gives none.
\<close>

lemma trial_fuel_enough:
  assumes "first_success rnds k"
  shows "trial_fuel n rnds a b out = (if k < n then trial rnds a b out else None)"
  using assms by (simp add: trial_fuel_first_success trial_first_success)

text \<open>
  C38. One attempt succeeds exactly when the draw is below \<open>0.205\<close>: then it returns
  the product, otherwise it throws a \<open>MultiplicatorUnitFailure\<close> with the message
  \<open>Failed to multiply\<close>, and it throws nothing else.
\<close>

theorem primitiveMultiply_threshold:
  "primitiveMultiply rnd a b =
     (if rnd < 205 / 1000 then Normal (a * b)
      else Throw (MultiplicatorUnitFailure ''Failed to multiply''))"
  using succeeds_iff [of rnd] by (simp add: primitiveMultiply_simps)

text \<open>
  C37. The share of the draws that pass: of \<open>N\<close> equally spaced draws exactly
  \<open>205 * N / 1000\<close>, rounded up, pass the test, so the share is \<open>20.5\<close> percent up
  to one draw, and not the \<open>20\<close> percent that the test seems to ask for.
\<close>

theorem card_passing:
  "card (passing N) = (205 * N + 999) div 1000 \<and>
   205 * N \<le> 1000 * card (passing N) \<and> 1000 * card (passing N) < 205 * N + 1000"
  by (simp add: passing_eq) arith

text \<open>
  The call at the end of the file, \<open>trial(12, 5)\<close>: on draws that fail twice and
  then pass it prints the error twice and then \<open>60\<close>.
\<close>

lemma retry_main_example:
  "retry_main (9 / 10 ## 1 / 2 ## sconst (1 / 10)) =
     Some (Normal (), [failure, failure, Log [LNum 60]])"
  by (simp add: retry_main_def trial_step_failure trial_step_success succeeds_iff)

end

