(* ===== verification/Retry_Loop.thy ===== *)
theory Retry_Loop
  imports Retry "HOL-Library.While_Combinator"
begin

text \<open>
  The loop of \<open>trial\<close> for any operation in the place of \<open>primitiveMultiply\<close>.

  \<open>trial\<close> tells apart two kinds of failure of the operation it calls (line 19 and
  line 20 of \<^verbatim>\<open>retry.js\<close>), of which \<open>primitiveMultiply\<close> only ever shows one.
  \<open>trial_with prim\<close> is the same loop around an operation \<open>prim\<close> that may complete
  in any way; what an attempt depends on besides the operands (for
  \<open>primitiveMultiply\<close>, the draw) is the element of the stream it is given. An
  attempt is \<open>retried\<close> when it throws a \<open>MultiplicatorUnitFailure\<close>; the loop stops
  at the first attempt that is not (\<open>first_stop\<close>), with \<open>outcome\<close>: the product
  printed, or the exception thrown on. \<open>errors\<close> is what the attempts before it
  print.

  \<open>trial_while\<close> is the loop once more, as a while loop of
  \<open>HOL-Library.While_Combinator\<close>: the state is how the last iteration left the
  \<^verbatim>\<open>try\<close> statement (\<open>control\<close>: by falling through the \<^verbatim>\<open>catch\<close>, by
  \<^verbatim>\<open>break\<close>, by \<^verbatim>\<open>throw\<close>), the draws left and the console; \<open>iteration\<close> is
  the body, the loop goes on while the state is \<open>running\<close>, and \<open>leave\<close> is the
  completion of the function.

  The theorems: the result of the loop for every operation and stream; an
  exception of another kind ends the loop at once and reaches the caller, with no
  product printed. The lemmas: the while loop and the recursive function are the
  same function; \<open>trial\<close> is the instance for \<open>primitiveMultiply\<close>.
\<close>

section \<open>The loop around any operation\<close>

type_synonym 'r operation = "'r \<Rightarrow> int \<Rightarrow> int \<Rightarrow> int completion"

partial_function (option) trial_with ::
    "'r operation \<Rightarrow> 'r stream \<Rightarrow> int \<Rightarrow> int \<Rightarrow> console \<Rightarrow> (unit completion \<times> console) option" where
  "trial_with prim rnds a b out =
     (case prim (shd rnds) a b of
        Normal result \<Rightarrow> Some (Normal (), out @ [Log [LNum result]])
      | Throw e \<Rightarrow>
          if instanceof_MultiplicatorUnitFailure e
          then trial_with prim (stl rnds) a b (out @ [Err [LExn e]])
          else Some (Throw e, out))"

section \<open>Describing runs\<close>

fun retried :: "int completion \<Rightarrow> bool" where
  "retried (Normal result) = False"
| "retried (Throw e) = instanceof_MultiplicatorUnitFailure e"

fun outcome :: "int completion \<Rightarrow> console \<Rightarrow> unit completion \<times> console" where
  "outcome (Normal result) out = (Normal (), out @ [Log [LNum result]])"
| "outcome (Throw e) out = (Throw e, out)"

fun logged_error :: "int completion \<Rightarrow> console" where
  "logged_error (Normal result) = []"
| "logged_error (Throw e) = [Err [LExn e]]"

definition errors :: "'r operation \<Rightarrow> 'r stream \<Rightarrow> int \<Rightarrow> int \<Rightarrow> nat \<Rightarrow> console" where
  "errors prim rnds a b k = concat (map (\<lambda>rnd. logged_error (prim rnd a b)) (stake k rnds))"

definition first_stop :: "'r operation \<Rightarrow> 'r stream \<Rightarrow> int \<Rightarrow> int \<Rightarrow> nat \<Rightarrow> bool" where
  "first_stop prim rnds a b k \<longleftrightarrow>
     \<not> retried (prim (rnds !! k) a b) \<and> (\<forall>i<k. retried (prim (rnds !! i) a b))"

section \<open>The loop as a while loop\<close>

datatype control = Running | Broke | Threw exn

type_synonym 'r loop_state = "control \<times> 'r stream \<times> console"

fun iteration :: "'r operation \<Rightarrow> int \<Rightarrow> int \<Rightarrow> 'r loop_state \<Rightarrow> 'r loop_state" where
  "iteration prim a b (ctl, rnds, out) =
     (case prim (shd rnds) a b of
        Normal result \<Rightarrow> (Broke, stl rnds, out @ [Log [LNum result]])
      | Throw e \<Rightarrow>
          if instanceof_MultiplicatorUnitFailure e
          then (Running, stl rnds, out @ [Err [LExn e]])
          else (Threw e, stl rnds, out))"

fun running :: "'r loop_state \<Rightarrow> bool" where
  "running (ctl, rnds, out) \<longleftrightarrow> ctl = Running"

fun leave :: "'r loop_state \<Rightarrow> unit completion \<times> console" where
  "leave (Threw e, rnds, out) = (Throw e, out)"
| "leave (ctl, rnds, out) = (Normal (), out)"

definition trial_while ::
    "'r operation \<Rightarrow> 'r stream \<Rightarrow> int \<Rightarrow> int \<Rightarrow> console \<Rightarrow> (unit completion \<times> console) option" where
  "trial_while prim rnds a b out =
     map_option leave (while_option running (iteration prim a b) (Running, rnds, out))"

section \<open>One iteration\<close>

lemma trial_with_stop:
  "\<not> retried (prim (shd rnds) a b) \<Longrightarrow>
   trial_with prim rnds a b out = Some (outcome (prim (shd rnds) a b) out)"
  by (subst trial_with.simps) (cases "prim (shd rnds) a b"; simp)

lemma trial_with_retry:
  "retried (prim (shd rnds) a b) \<Longrightarrow>
   trial_with prim rnds a b out =
     trial_with prim (stl rnds) a b (out @ logged_error (prim (shd rnds) a b))"
  by (subst trial_with.simps) (cases "prim (shd rnds) a b"; simp)

lemma first_stop_0: "first_stop prim rnds a b 0 \<longleftrightarrow> \<not> retried (prim (shd rnds) a b)"
  by (simp add: first_stop_def)

lemma first_stop_Suc:
  "first_stop prim rnds a b (Suc k) \<longleftrightarrow>
     retried (prim (shd rnds) a b) \<and> first_stop prim (stl rnds) a b k"
  by (auto simp: first_stop_def less_Suc_eq_0_disj)

lemma first_stop_Least:
  "\<exists>k. \<not> retried (prim (rnds !! k) a b) \<Longrightarrow>
   first_stop prim rnds a b (LEAST k. \<not> retried (prim (rnds !! k) a b))"
  unfolding first_stop_def by (metis (mono_tags, lifting) LeastI not_less_Least)

lemma errors_simps [simp]:
  "errors prim rnds a b 0 = []"
  "errors prim rnds a b (Suc k) =
     logged_error (prim (shd rnds) a b) @ errors prim (stl rnds) a b k"
  by (simp_all add: errors_def)

section \<open>The loop\<close>

lemma trial_with_first_stop:
  "first_stop prim rnds a b k \<Longrightarrow>
   trial_with prim rnds a b out =
     Some (outcome (prim (rnds !! k) a b) (out @ errors prim rnds a b k))"
proof (induction k arbitrary: rnds out)
  case 0
  then show ?case by (simp add: first_stop_0 trial_with_stop)
next
  case (Suc k)
  then show ?case by (simp add: first_stop_Suc trial_with_retry)
qed

lemma trial_with_Some_stops:
  assumes ret: "trial_with prim rnds a b out = Some res"
  shows "\<exists>k. \<not> retried (prim (rnds !! k) a b)"
proof (rule trial_with.raw_induct
    [where P = "\<lambda>prim rnds a b out res. \<exists>k. \<not> retried (prim (rnds !! k) a b)", OF _ ret])
  fix f and prim :: "'r operation" and rnds a b out res
  assume IH: "\<And>prim rnds a b out res. f prim rnds a b out = Some res \<Longrightarrow>
      \<exists>k. \<not> retried (prim (rnds !! k) a b)"
    and eq: "(case prim (shd rnds) a b of
        Normal result \<Rightarrow> Some (Normal (), out @ [Log [LNum result]])
      | Throw e \<Rightarrow>
          if instanceof_MultiplicatorUnitFailure e
          then f prim (stl rnds) a b (out @ [Err [LExn e]])
          else Some (Throw e, out)) = Some res"
  show "\<exists>k. \<not> retried (prim (rnds !! k) a b)"
  proof (cases "retried (prim (shd rnds) a b)")
    case False
    then have "\<not> retried (prim (rnds !! 0) a b)" by simp
    then show ?thesis ..
  next
    case True
    with eq obtain out' where "f prim (stl rnds) a b out' = Some res"
      by (cases "prim (shd rnds) a b") simp_all
    then obtain k where "\<not> retried (prim (stl rnds !! k) a b)" using IH by blast
    then have "\<not> retried (prim (rnds !! Suc k) a b)" by simp
    then show ?thesis ..
  qed
qed

lemma trial_with_never:
  "(\<forall>k. retried (prim (rnds !! k) a b)) \<Longrightarrow> trial_with prim rnds a b out = None"
  using trial_with_Some_stops [of prim rnds a b out] by (cases "trial_with prim rnds a b out") auto

section \<open>Properties\<close>

text \<open>
  C12. What the loop does around any operation: it ends at the first attempt that is not
  retried, with the outcome of that attempt behind the errors of the attempts
  before it, and it never ends when every attempt is retried.
\<close>

theorem trial_with_characterisation:
  "trial_with prim rnds a b out =
     (if \<exists>k. \<not> retried (prim (rnds !! k) a b)
      then let k = (LEAST k. \<not> retried (prim (rnds !! k) a b))
           in Some (outcome (prim (rnds !! k) a b) (out @ errors prim rnds a b k))
      else None)"
proof (cases "\<exists>k. \<not> retried (prim (rnds !! k) a b)")
  case True
  with first_stop_Least [of prim rnds a b] show ?thesis
    by (simp add: trial_with_first_stop Let_def)
next
  case False
  then show ?thesis by (simp add: trial_with_never)
qed

text \<open>
  C13. An exception that is not a \<open>MultiplicatorUnitFailure\<close> is not retried: if the
  first attempt that is not retried throws, the loop ends with that exception, thrown
  on to the caller, and has printed the errors of the attempts before it and
  nothing else.
\<close>

theorem trial_with_rethrows:
  assumes "first_stop prim rnds a b k" and "prim (rnds !! k) a b = Throw e"
  shows "trial_with prim rnds a b out = Some (Throw e, out @ errors prim rnds a b k)"
  using assms by (simp add: trial_with_first_stop)

theorem trial_with_rethrows_witness:
  "trial_with (\<lambda>rnd a b. if rnd then Throw (Error ''overflow'')
                          else Throw (MultiplicatorUnitFailure ''Failed to multiply''))
     (False ## sconst True) 12 5 [] =
   Some (Throw (Error ''overflow''),
     [] @ errors (\<lambda>rnd a b. if rnd then Throw (Error ''overflow'')
                            else Throw (MultiplicatorUnitFailure ''Failed to multiply''))
       (False ## sconst True) 12 5 1)"
  using trial_with_rethrows [of "\<lambda>rnd a b. if rnd then Throw (Error ''overflow'')
      else Throw (MultiplicatorUnitFailure ''Failed to multiply'')" "False ## sconst True" 12 5 1
      "Error ''overflow''" "[]"]
  by (simp add: first_stop_def)

section \<open>The while loop\<close>

lemma trial_while_stop:
  "\<not> retried (prim (shd rnds) a b) \<Longrightarrow>
   trial_while prim rnds a b out = Some (outcome (prim (shd rnds) a b) out)"
  unfolding trial_while_def
  by (subst while_option_unfold, subst while_option_unfold) (cases "prim (shd rnds) a b"; simp)

lemma trial_while_retry:
  "retried (prim (shd rnds) a b) \<Longrightarrow>
   trial_while prim rnds a b out =
     trial_while prim (stl rnds) a b (out @ logged_error (prim (shd rnds) a b))"
  unfolding trial_while_def
  by (subst while_option_unfold) (cases "prim (shd rnds) a b"; simp)

lemma trial_while_first_stop:
  "first_stop prim rnds a b k \<Longrightarrow>
   trial_while prim rnds a b out =
     Some (outcome (prim (rnds !! k) a b) (out @ errors prim rnds a b k))"
proof (induction k arbitrary: rnds out)
  case 0
  then show ?case by (simp add: first_stop_0 trial_while_stop)
next
  case (Suc k)
  then show ?case by (simp add: first_stop_Suc trial_while_retry)
qed

lemma trial_while_never:
  assumes "\<forall>k. retried (prim (rnds !! k) a b)"
  shows "trial_while prim rnds a b out = None"
proof (cases "while_option running (iteration prim a b) (Running, rnds, out)")
  case None
  then show ?thesis by (simp add: trial_while_def)
next
  case (Some t)
  let ?inv = "\<lambda>(ctl, rnds', out'). ctl = Running \<and> (\<forall>k. retried (prim (rnds' !! k) a b))"
  have "?inv t"
  proof (rule while_option_rule [where P = ?inv, OF _ Some])
    show "?inv (Running, rnds, out)" using assms by simp
  next
    fix s :: "'a loop_state"
    assume "?inv s" and "running s"
    then obtain rnds' out' where s: "s = (Running, rnds', out')"
      and all: "\<forall>k. retried (prim (rnds' !! k) a b)"
      by (cases s) auto
    from all have "retried (prim (shd rnds') a b)" and "\<forall>k. retried (prim (stl rnds' !! k) a b)"
      by (auto dest: spec [of _ 0] spec [of _ "Suc _"])
    then show "?inv (iteration prim a b s)"
      by (cases "prim (shd rnds') a b") (simp_all add: s)
  qed
  moreover from while_option_stop [OF Some] have "\<not> running t" .
  ultimately show ?thesis by (cases t) simp
qed

text \<open>
  The loop written with \<open>while_option\<close> and the loop written by recursion are
  the same function: they return the same completion and console, and neither
  returns when the other does not.
\<close>

lemma trial_while_trial_with:
  "trial_while prim rnds a b out = trial_with prim rnds a b out"
proof (cases "\<exists>k. \<not> retried (prim (rnds !! k) a b)")
  case True
  then have "first_stop prim rnds a b (LEAST k. \<not> retried (prim (rnds !! k) a b))"
    by (rule first_stop_Least)
  then show ?thesis
    by (simp add: trial_while_first_stop trial_with_first_stop)
next
  case False
  then show ?thesis by (simp add: trial_while_never trial_with_never)
qed

section \<open>The loop of the file\<close>

lemma retried_primitiveMultiply [simp]: "retried (primitiveMultiply rnd a b) \<longleftrightarrow> \<not> succeeds rnd"
  by (simp add: primitiveMultiply_def succeeds_def)

lemma first_stop_primitiveMultiply:
  "first_stop primitiveMultiply rnds a b k \<longleftrightarrow> first_success rnds k"
  by (simp add: first_stop_def first_success_def)

lemma errors_primitiveMultiply:
  "\<forall>i<k. \<not> succeeds (rnds !! i) \<Longrightarrow> errors primitiveMultiply rnds a b k = replicate k failure"
proof (induction k arbitrary: rnds)
  case 0
  show ?case by simp
next
  case (Suc k)
  from Suc.prems have "\<not> succeeds (shd rnds)" and "\<forall>i<k. \<not> succeeds (stl rnds !! i)"
    by (auto dest: spec [of _ 0] spec [of _ "Suc _"])
  with Suc.IH show ?case
    by (simp add: primitiveMultiply_simps failure_def)
qed

text \<open>
  \<open>trial\<close> is the loop around \<open>primitiveMultiply\<close>: what is proved of the loop
  for every operation holds of the function of the file.
\<close>

lemma trial_with_primitiveMultiply:
  "trial_with primitiveMultiply rnds a b out = trial rnds a b out"
proof (cases rule: trial_cases [of rnds a b out])
  case (returns k)
  then show ?thesis
    by (simp add: trial_with_first_stop first_stop_primitiveMultiply errors_primitiveMultiply
        first_success_def primitiveMultiply_simps trace_def)
next
  case diverges
  then show ?thesis by (simp add: trial_with_never)
qed

end
