(* ===== verification/Js_Regex.thy ===== *)
theory Js_Regex
  imports Js_Prelude
begin

text \<open>
  The regular expressions of the language, as far as \<^verbatim>\<open>numbersAgain.js\<close> uses them:
  the syntax of a pattern, its matcher and \<open>RegExp.prototype.test\<close>.

  A pattern is a \<open>node\<close>: the empty alternative, a character, a character class
  (the list of its members; \<open>\d\<close> is the class of the ten digits), sequence and
  disjunction, the greedy quantifiers \<open>*\<close>, \<open>+\<close> and \<open>?\<close>, a group, and the
  assertions \<open>^\<close> and \<open>$\<close> (without the multiline flag).

  The matcher of the language is a backtracking search: a node is run on a
  position of the input with a continuation, and alternatives are tried in a fixed
  order until the continuation succeeds. \<open>ms inp r s\<close> is that search with the
  continuation taken out: the list of all positions at which \<open>r\<close> can end when
  started at position \<open>s\<close> of the input \<open>inp\<close>, in the order in which the
  matcher tries them. A position is the rest of the input from there on. An
  iteration of \<open>*\<close> or \<open>?\<close> that consumes nothing is rejected, as the language
  prescribes; this is what makes the search end. Captures are not recorded,
  because \<open>test\<close> only reports whether there is a match.

  \<open>regexp_test\<close> tries the start positions from left to right (\<open>search\<close>), as
  \<open>test\<close> does for a pattern without the global and sticky flags.

  The specification side: \<open>lang r\<close> is the set of strings a pattern without
  assertions denotes, built from \<open>conc\<close> and \<open>star\<close>, and \<open>residuals L s\<close> are the
  rests of \<open>s\<close> after a prefix in \<open>L\<close>. The theorems show that the search finds
  exactly the residuals of the language, that results are suffixes of the
  position it starts from, that the nesting of a sequence does not matter, and
  what \<open>test\<close> computes in general and for a pattern between \<open>^\<close> and \<open>$\<close>.
\<close>

section \<open>Patterns and their matcher\<close>

datatype node =
    Empty
  | Char char
  | Class "char list"
  | Seq node node
  | Alt node node
  | Star node
  | Plus node
  | Opt node
  | Group node
  | LineStart
  | LineEnd

primrec rank :: "node \<Rightarrow> nat" where
  "rank Empty = 0"
| "rank (Char c) = 0"
| "rank (Class cs) = 0"
| "rank (Seq r1 r2) = Suc (rank r1 + rank r2)"
| "rank (Alt r1 r2) = Suc (rank r1 + rank r2)"
| "rank (Star r) = Suc (rank r)"
| "rank (Plus r) = Suc (Suc (rank r))"
| "rank (Opt r) = Suc (rank r)"
| "rank (Group r) = Suc (rank r)"
| "rank LineStart = 0"
| "rank LineEnd = 0"

function ms :: "string \<Rightarrow> node \<Rightarrow> string \<Rightarrow> string list" where
  "ms inp Empty s = [s]"
| "ms inp (Char c) s = (case s of [] \<Rightarrow> [] | d # s' \<Rightarrow> if d = c then [s'] else [])"
| "ms inp (Class cs) s = (case s of [] \<Rightarrow> [] | d # s' \<Rightarrow> if d \<in> set cs then [s'] else [])"
| "ms inp (Seq r1 r2) s = concat (map (ms inp r2) (ms inp r1 s))"
| "ms inp (Alt r1 r2) s = ms inp r1 s @ ms inp r2 s"
| "ms inp (Star r) s =
     concat (map (ms inp (Star r)) (filter (\<lambda>s'. length s' < length s) (ms inp r s))) @ [s]"
| "ms inp (Plus r) s = concat (map (ms inp (Star r)) (ms inp r s))"
| "ms inp (Opt r) s = filter (\<lambda>s'. length s' < length s) (ms inp r s) @ [s]"
| "ms inp (Group r) s = ms inp r s"
| "ms inp LineStart s = (if length s = length inp then [s] else [])"
| "ms inp LineEnd s = (if s = [] then [s] else [])"
  by pat_completeness auto
termination
  by (relation "measures [\<lambda>(inp, r, s). rank r, \<lambda>(inp, r, s). length s]") auto

lemmas ms_Star = ms.simps(6)
declare ms.simps(6) [simp del]

primrec search :: "node \<Rightarrow> string \<Rightarrow> string \<Rightarrow> bool" where
  "search r inp [] = (ms inp r [] \<noteq> [])"
| "search r inp (c # s) = (ms inp r (c # s) \<noteq> [] \<or> search r inp s)"

definition regexp_test :: "node \<Rightarrow> string \<Rightarrow> bool" where
  "regexp_test r inp = search r inp inp"


section \<open>The language of a pattern\<close>

primrec assertion_free :: "node \<Rightarrow> bool" where
  "assertion_free Empty = True"
| "assertion_free (Char c) = True"
| "assertion_free (Class cs) = True"
| "assertion_free (Seq r1 r2) = (assertion_free r1 \<and> assertion_free r2)"
| "assertion_free (Alt r1 r2) = (assertion_free r1 \<and> assertion_free r2)"
| "assertion_free (Star r) = assertion_free r"
| "assertion_free (Plus r) = assertion_free r"
| "assertion_free (Opt r) = assertion_free r"
| "assertion_free (Group r) = assertion_free r"
| "assertion_free LineStart = False"
| "assertion_free LineEnd = False"

definition conc :: "string set \<Rightarrow> string set \<Rightarrow> string set" where
  "conc A B = {u @ v | u v. u \<in> A \<and> v \<in> B}"

inductive_set star :: "string set \<Rightarrow> string set" for A :: "string set" where
  star_Nil: "[] \<in> star A"
| star_step: "u \<in> A \<Longrightarrow> v \<in> star A \<Longrightarrow> u @ v \<in> star A"

primrec lang :: "node \<Rightarrow> string set" where
  "lang Empty = {[]}"
| "lang (Char c) = {[c]}"
| "lang (Class cs) = (\<lambda>c. [c]) ` set cs"
| "lang (Seq r1 r2) = conc (lang r1) (lang r2)"
| "lang (Alt r1 r2) = lang r1 \<union> lang r2"
| "lang (Star r) = star (lang r)"
| "lang (Plus r) = conc (lang r) (star (lang r))"
| "lang (Opt r) = insert [] (lang r)"
| "lang (Group r) = lang r"
| "lang LineStart = {[]}"
| "lang LineEnd = {[]}"

definition residuals :: "string set \<Rightarrow> string \<Rightarrow> string set" where
  "residuals L s = {s'. \<exists>w\<in>L. s = w @ s'}"

section \<open>Residuals, concatenation and star\<close>

lemma residuals_iff: "s' \<in> residuals L s \<longleftrightarrow> (\<exists>w\<in>L. s = w @ s')"
  by (simp add: residuals_def)

lemma residuals_empty [simp]: "residuals {} s = {}"
  by (simp add: residuals_def)

lemma residuals_Un [simp]: "residuals (A \<union> B) s = residuals A s \<union> residuals B s"
  by (auto simp: residuals_def)

lemma residuals_insert_Nil [simp]: "residuals (insert [] A) s = insert s (residuals A s)"
  by (auto simp: residuals_def)

lemma residuals_conc: "residuals (conc A B) s = (\<Union>s'\<in>residuals A s. residuals B s')"
  by (fastforce simp: residuals_def conc_def)

lemma residuals_chars: "residuals ((\<lambda>c. [c]) ` C) s = {s'. \<exists>c\<in>C. s = c # s'}"
  by (auto simp: residuals_def)

lemma star_nonempty_step: "u \<in> A - {[]} \<Longrightarrow> v \<in> star A \<Longrightarrow> u @ v \<in> star A"
  by (simp add: star.star_step)

lemma star_cases_nonempty:
  assumes "w \<in> star A"
  shows "w = [] \<or> (\<exists>u v. w = u @ v \<and> u \<in> A - {[]} \<and> v \<in> star A)"
  using assms
proof (induction rule: star.induct)
  case star_Nil
  show ?case by simp
next
  case (star_step u v)
  then show ?case by (cases "u = []") auto
qed

lemma star_unfold: "star A = insert [] (conc (A - {[]}) (star A))"
  using star_cases_nonempty [of _ A]
  by (auto simp: conc_def intro: star.star_Nil star_nonempty_step)

lemma residuals_star:
  "residuals (star A) s = insert s (\<Union>s'\<in>residuals (A - {[]}) s. residuals (star A) s')"
  by (subst star_unfold) (simp add: residuals_conc)

lemma residuals_Char: "residuals {[c]} s = {s'. s = c # s'}"
  by (simp add: residuals_def)

lemma shorter_residuals:
  "{s' \<in> residuals L s. length s' < length s} = residuals (L - {[]}) s"
proof -
  have "(w \<in> L \<and> length s' < length (w @ s')) = (w \<in> L - {[]})" for w s'
    by (cases w) simp_all
  then show ?thesis
    unfolding residuals_def by blast
qed

lemma residuals_drop_Nil: "insert s (residuals (L - {[]}) s) = insert s (residuals L s)"
proof -
  have "s' = s \<or> (\<exists>w\<in>L - {[]}. s = w @ s') \<longleftrightarrow> s' = s \<or> (\<exists>w\<in>L. s = w @ s')" for s'
  proof (cases "s' = s")
    case False
    then have "s = w @ s' \<Longrightarrow> w \<noteq> []" for w by auto
    then show ?thesis by blast
  qed simp
  then show ?thesis
    unfolding residuals_def by blast
qed

section \<open>The search against the language\<close>

lemma ms_Char_set: "set (ms inp (Char c) s) = {s'. s = c # s'}"
  by (cases s) auto

lemma ms_Class_set: "set (ms inp (Class cs) s) = {s'. \<exists>c\<in>set cs. s = c # s'}"
  by (cases s) auto

lemma set_ms_Star_step:
  assumes r: "set (ms inp r s) = residuals (lang r) s"
    and IH: "\<And>s'. s' \<in> set (filter (\<lambda>s'. length s' < length s) (ms inp r s)) \<Longrightarrow>
      set (ms inp (Star r) s') = residuals (star (lang r)) s'"
  shows "set (ms inp (Star r) s) = residuals (lang (Star r)) s"
proof -
  have f: "{s' \<in> set (ms inp r s). length s' < length s} = residuals (lang r - {[]}) s"
    unfolding r by (rule shorter_residuals)
  have "set (ms inp (Star r) s) =
      insert s (\<Union>s'\<in>residuals (lang r - {[]}) s. set (ms inp (Star r) s'))"
    by (subst ms_Star) (simp add: f)
  also have "\<dots> = insert s (\<Union>s'\<in>residuals (lang r - {[]}) s. residuals (star (lang r)) s')"
    using IH by (simp add: f)
  also have "\<dots> = residuals (lang (Star r)) s"
    by (simp add: residuals_star [symmetric])
  finally show ?thesis .
qed

lemma set_ms_Opt_step:
  assumes r: "set (ms inp r s) = residuals (lang r) s"
  shows "set (ms inp (Opt r) s) = residuals (lang (Opt r)) s"
proof -
  have "set (ms inp (Opt r) s) = insert s {s' \<in> set (ms inp r s). length s' < length s}"
    by simp
  also have "\<dots> = residuals (lang (Opt r)) s"
    by (simp only: r shorter_residuals residuals_drop_Nil lang.simps residuals_insert_Nil)
  finally show ?thesis .
qed

lemma set_ms_residuals:
  "assertion_free r \<Longrightarrow> set (ms inp r s) = residuals (lang r) s"
proof (induction inp r s rule: ms.induct)
  case (2 inp c s)
  show ?case by (simp only: ms_Char_set lang.simps residuals_Char)
next
  case (3 inp cs s)
  show ?case by (simp only: ms_Class_set lang.simps residuals_chars)
next
  case (6 inp r s)
  then show ?case by (intro set_ms_Star_step) simp_all
next
  case (8 inp r s)
  then show ?case by (intro set_ms_Opt_step) simp
qed (simp_all add: residuals_conc)

section \<open>Sequences, start positions and anchors\<close>

lemma ms_Seq_assoc: "ms inp (Seq (Seq a b) c) s = ms inp (Seq a (Seq b c)) s"
proof -
  have "ms inp (Seq b c) = (\<lambda>x. concat (map (ms inp c) (ms inp b x)))"
    by (rule ext) simp
  then show ?thesis
    by (simp add: concat_map_concat)
qed

lemma search_iff: "search r inp s \<longleftrightarrow> (\<exists>t. suffix t s \<and> ms inp r t \<noteq> [])"
  by (induction s) (auto simp: suffix_Cons)

lemma regexp_test_iff: "regexp_test r inp \<longleftrightarrow> (\<exists>t. suffix t inp \<and> ms inp r t \<noteq> [])"
  by (simp add: regexp_test_def search_iff)

lemma suffix_same_length: "suffix t s \<Longrightarrow> length t = length s \<longleftrightarrow> t = s"
  by (auto simp: suffix_def)

lemma regexp_test_LineStart: "regexp_test (Seq LineStart r) inp \<longleftrightarrow> ms inp r inp \<noteq> []"
proof -
  have "ms inp (Seq LineStart r) t \<noteq> [] \<longleftrightarrow> t = inp \<and> ms inp r inp \<noteq> []" if "suffix t inp" for t
    using suffix_same_length [OF that] by auto
  then show ?thesis
    unfolding regexp_test_iff by (metis suffix_order.order_refl)
qed

lemma set_ms_LineEnd: "set (ms inp (Seq r LineEnd) s) = set (ms inp r s) \<inter> {[]}"
  by auto

lemma Nil_in_residuals [simp]: "[] \<in> residuals L s \<longleftrightarrow> s \<in> L"
  by (simp add: residuals_def)

lemma regexp_test_anchored:
  assumes "assertion_free r"
  shows "regexp_test (Seq LineStart (Seq r LineEnd)) inp \<longleftrightarrow> inp \<in> lang r"
proof -
  have "ms inp (Seq r LineEnd) inp \<noteq> [] \<longleftrightarrow> set (ms inp (Seq r LineEnd) inp) \<noteq> {}"
    by (simp only: set_empty)
  also have "\<dots> \<longleftrightarrow> inp \<in> lang r"
    by (simp only: set_ms_LineEnd set_ms_residuals [OF assms]) simp
  finally show ?thesis
    by (simp only: regexp_test_LineStart)
qed

section \<open>Languages of character classes\<close>

lemma concI: "u \<in> A \<Longrightarrow> v \<in> B \<Longrightarrow> u @ v \<in> conc A B"
  by (auto simp: conc_def)

lemma concE:
  assumes "w \<in> conc A B"
  obtains u v where "w = u @ v" and "u \<in> A" and "v \<in> B"
  using assms by (auto simp: conc_def)

lemma in_conc_iff: "w \<in> conc A B \<longleftrightarrow> (\<exists>u v. w = u @ v \<and> u \<in> A \<and> v \<in> B)"
  by (auto simp: conc_def)

lemma in_conc3_iff:
  "w \<in> conc (conc A B) C \<longleftrightarrow> (\<exists>a b c. w = a @ b @ c \<and> a \<in> A \<and> b \<in> B \<and> c \<in> C)"
proof
  assume "w \<in> conc (conc A B) C"
  then obtain a b c where "w = (a @ b) @ c" "a \<in> A" "b \<in> B" "c \<in> C"
    by (elim concE) simp
  then show "\<exists>a b c. w = a @ b @ c \<and> a \<in> A \<and> b \<in> B \<and> c \<in> C"
    by auto
next
  assume "\<exists>a b c. w = a @ b @ c \<and> a \<in> A \<and> b \<in> B \<and> c \<in> C"
  then obtain a b c where w: "w = (a @ b) @ c" and "a \<in> A" "b \<in> B" "c \<in> C"
    by auto
  then show "w \<in> conc (conc A B) C"
    unfolding w by (intro concI)
qed

lemma conc_Collect: "conc {u. P u} {v. Q v} = {w. \<exists>u v. w = u @ v \<and> P u \<and> Q v}"
  by (auto simp: conc_def)

lemma conc_chars: "conc ((\<lambda>c. [c]) ` C) B = {w. \<exists>c v. w = c # v \<and> c \<in> C \<and> v \<in> B}"
proof -
  have "w \<in> conc ((\<lambda>c. [c]) ` C) B \<longleftrightarrow> (\<exists>c v. w = c # v \<and> c \<in> C \<and> v \<in> B)" for w
  proof
    assume "w \<in> conc ((\<lambda>c. [c]) ` C) B"
    then show "\<exists>c v. w = c # v \<and> c \<in> C \<and> v \<in> B"
      by (elim concE) auto
  next
    assume "\<exists>c v. w = c # v \<and> c \<in> C \<and> v \<in> B"
    then obtain c v where "w = [c] @ v" "[c] \<in> (\<lambda>c. [c]) ` C" "v \<in> B" by auto
    then show "w \<in> conc ((\<lambda>c. [c]) ` C) B" by (simp only: concI)
  qed
  then show ?thesis by blast
qed

lemma star_chars_subset: "w \<in> star ((\<lambda>c. [c]) ` C) \<Longrightarrow> set w \<subseteq> C"
  by (induction rule: star.induct) auto

lemma star_chars_superset: "set w \<subseteq> C \<Longrightarrow> w \<in> star ((\<lambda>c. [c]) ` C)"
proof (induction w)
  case Nil
  show ?case by (rule star.star_Nil)
next
  case (Cons c w)
  then have "[c] \<in> (\<lambda>c. [c]) ` C" and "w \<in> star ((\<lambda>c. [c]) ` C)" by auto
  then have "[c] @ w \<in> star ((\<lambda>c. [c]) ` C)" by (rule star.star_step)
  then show ?case by simp
qed

lemma star_chars: "star ((\<lambda>c. [c]) ` C) = {w. set w \<subseteq> C}"
  using star_chars_subset star_chars_superset by blast

lemma conc_chars_star:
  "conc ((\<lambda>c. [c]) ` C) (star ((\<lambda>c. [c]) ` C)) = {w. w \<noteq> [] \<and> set w \<subseteq> C}"
proof -
  have "(\<exists>c v. w = c # v \<and> c \<in> C \<and> set v \<subseteq> C) \<longleftrightarrow> w \<noteq> [] \<and> set w \<subseteq> C" for w
    by (cases w) simp_all
  then show ?thesis
    by (simp only: conc_chars star_chars mem_Collect_eq)
qed

lemma lang_Star_Class: "lang (Star (Class cs)) = {w. set w \<subseteq> set cs}"
  by (simp add: star_chars)

lemma lang_Plus_Class: "lang (Plus (Class cs)) = {w. w \<noteq> [] \<and> set w \<subseteq> set cs}"
  by (simp only: lang.simps conc_chars_star)

section \<open>The order of the results\<close>

lemma upt_0_Suc: "[0..<Suc n] = 0 # map Suc [0..<n]"
  by (simp only: upt_conv_Cons [OF zero_less_Suc] map_Suc_upt)

lemma ms_Star_Class:
  "ms inp (Star (Class cs)) s =
     rev (map (\<lambda>n. drop n s) [0..<Suc (length (takeWhile (\<lambda>c. c \<in> set cs) s))])"
proof (induction s)
  case Nil
  show ?case by (simp add: ms_Star)
next
  case (Cons c t)
  show ?case
  proof (cases "c \<in> set cs")
    case True
    let ?k = "length (takeWhile (\<lambda>c. c \<in> set cs) t)"
    have "ms inp (Star (Class cs)) (c # t) = ms inp (Star (Class cs)) t @ [c # t]"
      using True by (subst ms_Star) simp
    also have "\<dots> = rev (map (\<lambda>n. drop n (c # t)) (0 # map Suc [0..<Suc ?k]))"
      by (simp add: Cons.IH comp_def del: upt_Suc)
    also have "0 # map Suc [0..<Suc ?k] = [0..<Suc (Suc ?k)]"
      by (rule upt_0_Suc [symmetric])
    finally show ?thesis using True by (simp del: upt_Suc)
  next
    case False
    then show ?thesis by (subst ms_Star) simp
  qed
qed

lemma ms_Star_last: "ms inp (Star r) s \<noteq> [] \<and> last (ms inp (Star r) s) = s"
  by (subst (1 2) ms_Star) simp

section \<open>Properties of the matcher\<close>

text \<open>
  C7. The backtracking search is sound and complete for patterns without
  assertions: started at a position, it ends at exactly those positions that are
  reached by reading a string of the language of the pattern. In particular the
  rejection of iterations that consume nothing loses no match.
\<close>

theorem ms_sound_complete:
  assumes "assertion_free r"
  shows "s' \<in> set (ms inp r s) \<longleftrightarrow> (\<exists>w\<in>lang r. s = w @ s')"
  by (simp only: set_ms_residuals [OF assms] residuals_iff)

theorem ms_sound_complete_witness:
  "''c'' \<in> set (ms ''abc'' (Star (Class ''ab'')) ''abc'') \<longleftrightarrow>
     (\<exists>w\<in>lang (Star (Class ''ab'')). ''abc'' = w @ ''c'')"
  using ms_sound_complete [of "Star (Class ''ab'')" "''c''" "''abc''" "''abc''"] by simp

text \<open>
  C28. What \<open>test\<close> computes for a pattern without assertions: between \<open>^\<close> and
  \<open>$\<close> it accepts exactly the strings of the language of the pattern, and without
  them exactly the strings that have a substring in the language.
\<close>

theorem regexp_test_full_match:
  assumes "assertion_free r"
  shows "(regexp_test (Seq LineStart (Seq r LineEnd)) inp \<longleftrightarrow> inp \<in> lang r) \<and>
         (regexp_test r inp \<longleftrightarrow> (\<exists>u w v. inp = u @ w @ v \<and> w \<in> lang r))"
proof -
  have "ms inp r t \<noteq> [] \<longleftrightarrow> (\<exists>w v. t = w @ v \<and> w \<in> lang r)" for t
    using set_ms_residuals [OF assms, of inp t]
    by (simp only: set_empty [symmetric]) (auto simp: residuals_def)
  then have "regexp_test r inp \<longleftrightarrow> (\<exists>u w v. inp = u @ w @ v \<and> w \<in> lang r)"
    unfolding regexp_test_iff suffix_def by blast
  with regexp_test_anchored [OF assms] show ?thesis by simp
qed

theorem regexp_test_full_match_witness:
  "(regexp_test (Seq LineStart (Seq (Plus (Class ''01'')) LineEnd)) ''0110'' \<longleftrightarrow>
      ''0110'' \<in> lang (Plus (Class ''01''))) \<and>
   (regexp_test (Plus (Class ''01'')) ''a1b'' \<longleftrightarrow>
      (\<exists>u w v. ''a1b'' = u @ w @ v \<and> w \<in> lang (Plus (Class ''01''))))"
  using regexp_test_full_match [of "Plus (Class ''01'')" "''0110''"]
    regexp_test_full_match [of "Plus (Class ''01'')" "''a1b''"] by simp

text \<open>
  The search only moves forward: every position it returns is a suffix of the
  position it started from, for every pattern, assertions included.
\<close>

lemma ms_suffix: "s' \<in> set (ms inp r s) \<Longrightarrow> suffix s' s"
proof (induction inp r s arbitrary: s' rule: ms.induct)
  case (6 inp r s)
  from "6.prems" consider "s' = s"
    | t where "t \<in> set (ms inp r s)" "length t < length s" "s' \<in> set (ms inp (Star r) t)"
    by (subst (asm) ms_Star) auto
  then show ?case
  proof cases
    case 1
    then show ?thesis by simp
  next
    case 2
    from 2 have "t \<in> set (filter (\<lambda>s'. length s' < length s) (ms inp r s))" by simp
    from "6.IH"(2) [OF this 2(3)] "6.IH"(1) [OF 2(1)] show ?thesis
      by (rule suffix_order.trans)
  qed
qed (auto split: list.splits if_splits intro: suffix_order.trans simp: suffix_Cons)

text \<open>
  Sequencing is associative and the empty pattern is its unit, for the list of
  results in its order: how the terms of a pattern are grouped into sequences does
  not change what the matcher tries, nor in which order.
\<close>

lemma ms_Seq_monoid:
  "ms inp (Seq (Seq a b) c) s = ms inp (Seq a (Seq b c)) s \<and>
   ms inp (Seq Empty r) s = ms inp r s \<and>
   ms inp (Seq r Empty) s = ms inp r s"
proof -
  have "ms inp Empty = (\<lambda>s. [s])" by (rule ext) simp
  then have "ms inp (Seq r Empty) s = ms inp r s" by simp
  moreover have "ms inp (Seq Empty r) s = ms inp r s" by simp
  ultimately show ?thesis using ms_Seq_assoc [of inp a b c s] by (simp only: simp_thms)
qed

text \<open>
  Quantifiers are greedy: on a position, the star of a character class first
  takes the whole run of characters of the class and then gives them back one at a
  time, down to the empty match; and for every pattern under a star the empty
  match is there and is tried last.
\<close>

lemma ms_Star_greedy:
  "ms inp (Star (Class cs)) s =
     rev (map (\<lambda>n. drop n s) [0..<Suc (length (takeWhile (\<lambda>c. c \<in> set cs) s))]) \<and>
   hd (ms inp (Star (Class cs)) s) = dropWhile (\<lambda>c. c \<in> set cs) s \<and>
   ms inp (Star r) s \<noteq> [] \<and> last (ms inp (Star r) s) = s"
  by (simp add: ms_Star_Class ms_Star_last hd_rev dropWhile_eq_drop)

end
