(* ===== verification/Regex_Syntax.thy ===== *)
theory Regex_Syntax
  imports Js_Regex
begin

text \<open>
  From the text of a regular expression literal to its \<open>node\<close>, and back.

  \<open>parse_pattern\<close> reads the text between the slashes of a literal, for the part of
  the pattern grammar of the language that \<^verbatim>\<open>numbersAgain.js\<close> uses. It works in
  two passes over its input, each a structural recursion:

  \<^item> \<open>tokenize\<close> turns characters into tokens. Its state is where it is: at top
    level, behind a backslash, inside a character class, or behind a backslash
    inside a class. \<open>\d\<close> is the class of the ten digits; a backslash before a
    syntax character, a slash or a minus makes it literal; in a class a minus is
    literal when it is the last character.
  \<^item> \<open>run\<close> reads the tokens with a stack of frames, one per open parenthesis. A
    frame holds the alternatives completed so far and the terms of the alternative
    being read. An atom is put on the terms; a quantifier wraps the last term,
    which must be an atom; a bar closes the alternative; a closing parenthesis
    closes the frame and puts the group on the terms of the frame below.

  \<open>None\<close> is a pattern that is malformed or uses syntax outside this part: the dot,
  braces, ranges and negation in classes, lazy quantifiers, non-capturing groups and
  lookaround, other escapes. No text is given a tree that is not its own.

  \<open>show_node\<close> prints a tree as text and \<open>toks_of\<close> as tokens. A tree is in parsed
  form (\<open>nf\<close>) when sequences and alternations are nested to the right, sequences
  hold terms, and quantifiers hold atoms. The form has three levels, ordered by how
  tightly they bind: a disjunction, an alternative, a term; what is in parsed form
  at a level is so at every lower one. The theorems: the parser returns a tree
  exactly for the token lists of trees in parsed form, and returns that tree; and
  parsing the text printed for a tree in parsed form returns the tree.
\<close>

section \<open>Tokens\<close>

definition backslash :: char where
  "backslash = CHR 0x5C"

datatype token =
    TChar char | TClass "char list" | TCaret | TDollar
  | TOpen | TClose | TBar | TStar | TPlus | TQuest

datatype lexstate = Top | Esc | InClass "char list" | InClassEsc "char list"

definition syntax_chars :: "char list" where
  "syntax_chars = backslash # ''^$.*+?()[]{}|''"

definition identity_escapes :: "char list" where
  "identity_escapes = syntax_chars @ ''/-''"

definition digit_chars :: "char list" where
  "digit_chars = ''0123456789''"

definition escape :: "char \<Rightarrow> token option" where
  "escape e =
     (if e = CHR ''d'' then Some (TClass digit_chars)
      else if e \<in> set identity_escapes then Some (TChar e)
      else None)"

definition class_escape :: "char \<Rightarrow> char list option" where
  "class_escape e =
     (if e = CHR ''d'' then Some digit_chars
      else if e \<in> set identity_escapes then Some [e]
      else None)"

definition single :: "char \<Rightarrow> token option" where
  "single c =
     (if c = CHR ''('' then Some TOpen
      else if c = CHR '')'' then Some TClose
      else if c = CHR ''|'' then Some TBar
      else if c = CHR ''*'' then Some TStar
      else if c = CHR ''+'' then Some TPlus
      else if c = CHR ''?'' then Some TQuest
      else if c = CHR ''^'' then Some TCaret
      else if c = CHR ''$'' then Some TDollar
      else if c \<in> set ''.{}]/'' then None
      else Some (TChar c))"

fun tokenize :: "lexstate \<Rightarrow> string \<Rightarrow> token list option" where
  "tokenize Top [] = Some []"
| "tokenize Top (c # s) =
     (if c = backslash then tokenize Esc s
      else if c = CHR ''['' then tokenize (InClass []) s
      else case single c of
             None \<Rightarrow> None
           | Some t \<Rightarrow> map_option (Cons t) (tokenize Top s))"
| "tokenize Esc [] = None"
| "tokenize Esc (e # s) =
     (case escape e of
        None \<Rightarrow> None
      | Some t \<Rightarrow> map_option (Cons t) (tokenize Top s))"
| "tokenize (InClass cs) [] = None"
| "tokenize (InClass cs) (c # s) =
     (if c = CHR '']'' then map_option (Cons (TClass cs)) (tokenize Top s)
      else if c = backslash then tokenize (InClassEsc cs) s
      else if c = CHR ''-'' \<and> take 1 s \<noteq> '']'' then None
      else if c = CHR ''^'' \<and> cs = [] then None
      else tokenize (InClass (cs @ [c])) s)"
| "tokenize (InClassEsc cs) [] = None"
| "tokenize (InClassEsc cs) (e # s) =
     (case class_escape e of
        None \<Rightarrow> None
      | Some es \<Rightarrow> tokenize (InClass (cs @ es)) s)"

section \<open>Parsing tokens\<close>

type_synonym frame = "node list \<times> node list"

fun mkSeq :: "node list \<Rightarrow> node" where
  "mkSeq [] = Empty"
| "mkSeq [t] = t"
| "mkSeq (t # ts) = Seq t (mkSeq ts)"

fun mkAlt :: "node list \<Rightarrow> node" where
  "mkAlt [] = Empty"
| "mkAlt [a] = a"
| "mkAlt (a # as) = Alt a (mkAlt as)"

fun close_frame :: "frame \<Rightarrow> node" where
  "close_frame (alts, terms) = mkAlt (rev (mkSeq (rev terms) # alts))"

fun quantifiable :: "node \<Rightarrow> bool" where
  "quantifiable (Char c) = True"
| "quantifiable (Class cs) = True"
| "quantifiable (Group r) = True"
| "quantifiable _ = False"

fun quantify :: "(node \<Rightarrow> node) \<Rightarrow> frame list \<Rightarrow> frame list option" where
  "quantify q ((alts, t # terms) # st) =
     (if quantifiable t then Some ((alts, q t # terms) # st) else None)"
| "quantify q _ = None"

fun parse_step :: "token \<Rightarrow> frame list \<Rightarrow> frame list option" where
  "parse_step (TChar c) ((alts, terms) # st) = Some ((alts, Char c # terms) # st)"
| "parse_step (TClass cs) ((alts, terms) # st) = Some ((alts, Class cs # terms) # st)"
| "parse_step TCaret ((alts, terms) # st) = Some ((alts, LineStart # terms) # st)"
| "parse_step TDollar ((alts, terms) # st) = Some ((alts, LineEnd # terms) # st)"
| "parse_step TOpen st = Some (([], []) # st)"
| "parse_step TClose (f # (alts, terms) # st) = Some ((alts, Group (close_frame f) # terms) # st)"
| "parse_step TBar ((alts, terms) # st) = Some ((mkSeq (rev terms) # alts, []) # st)"
| "parse_step TStar st = quantify Star st"
| "parse_step TPlus st = quantify Plus st"
| "parse_step TQuest st = quantify Opt st"
| "parse_step _ _ = None"

fun run :: "token list \<Rightarrow> frame list \<Rightarrow> frame list option" where
  "run [] st = Some st"
| "run (t # ts) st = (case parse_step t st of None \<Rightarrow> None | Some st' \<Rightarrow> run ts st')"

definition parse_tokens :: "token list \<Rightarrow> node option" where
  "parse_tokens ts =
     (case run ts [([], [])] of
        Some [f] \<Rightarrow> Some (close_frame f)
      | _ \<Rightarrow> None)"

definition parse_pattern :: "string \<Rightarrow> node option" where
  "parse_pattern s = (case tokenize Top s of None \<Rightarrow> None | Some ts \<Rightarrow> parse_tokens ts)"

section \<open>Printing\<close>

definition esc :: "char \<Rightarrow> string" where
  "esc c = (if c \<in> set syntax_chars \<or> c = CHR ''/'' then [backslash, c] else [c])"

definition esc_class :: "char \<Rightarrow> string" where
  "esc_class c = (if c \<in> set ''^-]'' \<or> c = backslash then [backslash, c] else [c])"

primrec show_node :: "node \<Rightarrow> string" where
  "show_node Empty = []"
| "show_node (Char c) = esc c"
| "show_node (Class cs) = CHR ''['' # concat (map esc_class cs) @ '']''"
| "show_node (Seq a b) = show_node a @ show_node b"
| "show_node (Alt a b) = show_node a @ CHR ''|'' # show_node b"
| "show_node (Star a) = show_node a @ ''*''"
| "show_node (Plus a) = show_node a @ ''+''"
| "show_node (Opt a) = show_node a @ ''?''"
| "show_node (Group a) = CHR ''('' # show_node a @ '')''"
| "show_node LineStart = ''^''"
| "show_node LineEnd = ''$''"

primrec toks_of :: "node \<Rightarrow> token list" where
  "toks_of Empty = []"
| "toks_of (Char c) = [TChar c]"
| "toks_of (Class cs) = [TClass cs]"
| "toks_of (Seq a b) = toks_of a @ toks_of b"
| "toks_of (Alt a b) = toks_of a @ TBar # toks_of b"
| "toks_of (Star a) = toks_of a @ [TStar]"
| "toks_of (Plus a) = toks_of a @ [TPlus]"
| "toks_of (Opt a) = toks_of a @ [TQuest]"
| "toks_of (Group a) = TOpen # toks_of a @ [TClose]"
| "toks_of LineStart = [TCaret]"
| "toks_of LineEnd = [TDollar]"

section \<open>Parsed form and what the parser has read\<close>

datatype level = LDisj | LAlt | LTerm

primrec binding :: "level \<Rightarrow> nat" where
  "binding LDisj = 0"
| "binding LAlt = 1"
| "binding LTerm = 2"

instantiation level :: linorder
begin

definition less_eq_level :: "level \<Rightarrow> level \<Rightarrow> bool" where
  "l \<le> m \<longleftrightarrow> binding l \<le> binding m"

definition less_level :: "level \<Rightarrow> level \<Rightarrow> bool" where
  "l < m \<longleftrightarrow> binding l < binding m"

instance
proof
  fix l m :: level
  show "l \<le> m \<Longrightarrow> m \<le> l \<Longrightarrow> l = m"
    by (cases l; cases m; simp add: less_eq_level_def)
qed (auto simp: less_eq_level_def less_level_def)

end

primrec nf :: "level \<Rightarrow> node \<Rightarrow> bool" where
  "nf l Empty = (l \<le> LAlt)"
| "nf l (Char c) = True"
| "nf l (Class cs) = True"
| "nf l (Seq t r) = (l \<le> LAlt \<and> nf LTerm t \<and> r \<noteq> Empty \<and> nf LAlt r)"
| "nf l (Alt a d) = (l \<le> LDisj \<and> nf LAlt a \<and> nf LDisj d)"
| "nf l (Star a) = (quantifiable a \<and> nf LTerm a)"
| "nf l (Plus a) = (quantifiable a \<and> nf LTerm a)"
| "nf l (Opt a) = (quantifiable a \<and> nf LTerm a)"
| "nf l (Group d) = nf LDisj d"
| "nf l LineStart = True"
| "nf l LineEnd = True"

fun terms_of :: "node \<Rightarrow> node list" where
  "terms_of Empty = []"
| "terms_of (Seq t r) = t # terms_of r"
| "terms_of r = [r]"

fun alts_of :: "node \<Rightarrow> node list" where
  "alts_of (Alt a d) = a # alts_of d"
| "alts_of r = [r]"

fun push :: "node \<Rightarrow> frame \<Rightarrow> frame" where
  "push (Alt a d) (alts, terms) = push d (mkSeq (rev (rev (terms_of a) @ terms)) # alts, [])"
| "push r (alts, terms) = (alts, rev (terms_of r) @ terms)"

fun frame_toks :: "frame \<Rightarrow> token list" where
  "frame_toks (alts, terms) =
     concat (map (\<lambda>a. toks_of a @ [TBar]) (rev alts)) @ concat (map toks_of (rev terms))"

primrec stack_toks :: "frame list \<Rightarrow> token list" where
  "stack_toks [] = []"
| "stack_toks (f # st) = (if st = [] then [] else stack_toks st @ [TOpen]) @ frame_toks f"

fun wf_frame :: "frame \<Rightarrow> bool" where
  "wf_frame (alts, terms) \<longleftrightarrow> list_all (nf LAlt) alts \<and> list_all (nf LTerm) terms"

definition wf_stack :: "frame list \<Rightarrow> bool" where
  "wf_stack st \<longleftrightarrow> st \<noteq> [] \<and> list_all wf_frame st"

fun_cases quantify_SomeE: "quantify q st = Some st'"

fun_cases step_SomeE: "parse_step t st = Some st'"
  and step_TCloseE: "parse_step TClose st = Some st'"
  and step_TBarE: "parse_step TBar st = Some st'"

lemmas parse_defs = parse_pattern_def parse_tokens_def backslash_def single_def escape_def class_escape_def
  identity_escapes_def syntax_chars_def digit_chars_def


section \<open>Lexing what is printed\<close>

lemma tokenize_esc: "tokenize Top (esc c @ rest) = map_option (Cons (TChar c)) (tokenize Top rest)"
  by (auto simp: esc_def backslash_def single_def escape_def identity_escapes_def syntax_chars_def)

lemma tokenize_esc_class:
  "tokenize (InClass acc) (esc_class c @ rest) = tokenize (InClass (acc @ [c])) rest"
  by (auto simp: esc_class_def backslash_def class_escape_def identity_escapes_def syntax_chars_def)

lemma tokenize_class:
  "tokenize (InClass acc) (concat (map esc_class cs) @ CHR '']'' # rest) =
     map_option (Cons (TClass (acc @ cs))) (tokenize Top rest)"
proof (induction cs arbitrary: acc)
  case Nil
  show ?case by simp
next
  case (Cons c cs)
  show ?case using Cons [of "acc @ [c]"] by (simp add: tokenize_esc_class)
qed

lemma single_simps [simp]:
  "single CHR ''('' = Some TOpen" "single CHR '')'' = Some TClose" "single CHR ''|'' = Some TBar"
  "single CHR ''*'' = Some TStar" "single CHR ''+'' = Some TPlus" "single CHR ''?'' = Some TQuest"
  "single CHR ''^'' = Some TCaret" "single CHR ''$'' = Some TDollar"
  by (simp_all add: single_def)

lemma backslash_neq [simp]:
  "CHR ''('' \<noteq> backslash" "CHR '')'' \<noteq> backslash" "CHR ''|'' \<noteq> backslash" "CHR ''*'' \<noteq> backslash" "CHR ''+'' \<noteq> backslash"
  "CHR ''?'' \<noteq> backslash" "CHR ''^'' \<noteq> backslash" "CHR ''$'' \<noteq> backslash" "CHR ''['' \<noteq> backslash"
  by (simp_all add: backslash_def)

lemma tokenize_show:
  "tokenize Top rest = Some ts \<Longrightarrow> tokenize Top (show_node r @ rest) = Some (toks_of r @ ts)"
proof (induction r arbitrary: rest ts)
  case (Char c)
  then show ?case by (simp add: tokenize_esc)
next
  case (Class cs)
  then show ?case using tokenize_class [of "[]" cs rest] by (simp add: backslash_def)
qed simp_all

section \<open>Parsing what is printed\<close>

lemma level_le_simps [simp]:
  "LDisj \<le> l" "l \<le> LTerm" "\<not> LTerm \<le> LAlt" "\<not> LTerm \<le> LDisj" "\<not> LAlt \<le> LDisj"
  "l \<le> LDisj \<longleftrightarrow> l = LDisj" "LTerm \<le> l \<longleftrightarrow> l = LTerm"
  by (cases l; simp add: less_eq_level_def)+

lemma nf_le: "nf l r \<Longrightarrow> m \<le> l \<Longrightarrow> nf m r"
  by (cases r) auto

lemma nf_mono: "nf LTerm r \<Longrightarrow> nf l r" "nf LAlt r \<Longrightarrow> nf LDisj r"
  by (erule nf_le; simp)+

lemma terms_of_term: "nf LTerm r \<Longrightarrow> terms_of r = [r]"
  by (cases r) simp_all

lemma push_alt: "nf LAlt r \<Longrightarrow> push r (alts, terms) = (alts, rev (terms_of r) @ terms)"
  by (cases r) simp_all

lemma push_term: "nf LTerm r \<Longrightarrow> push r (alts, terms) = (alts, r # terms)"
  by (simp add: push_alt nf_mono terms_of_term)

lemma terms_of_Nil_iff: "terms_of r = [] \<longleftrightarrow> r = Empty"
  by (cases r) simp_all

lemma mkSeq_Cons: "ts \<noteq> [] \<Longrightarrow> mkSeq (t # ts) = Seq t (mkSeq ts)"
  by (cases ts) simp_all

lemma mkAlt_Cons: "as \<noteq> [] \<Longrightarrow> mkAlt (a # as) = Alt a (mkAlt as)"
  by (cases as) simp_all

lemma mkSeq_terms_of: "nf LAlt r \<Longrightarrow> mkSeq (terms_of r) = r"
  by (induction r) (simp_all add: mkSeq_Cons terms_of_Nil_iff)

lemma alts_of_nonempty [simp]: "alts_of r \<noteq> []"
  by (cases r) simp_all

lemma mkAlt_append: "us \<noteq> [] \<Longrightarrow> mkAlt (as @ us) = foldr Alt as (mkAlt us)"
  by (induction as) (simp_all add: mkAlt_Cons)

lemma close_push:
  "nf LDisj d \<Longrightarrow> close_frame (push d (alts, [])) = foldr Alt (rev alts) d"
proof (induction d arbitrary: alts)
  case (Alt a d)
  then show ?case by (simp add: mkSeq_terms_of)
qed (simp_all add: mkAlt_append mkSeq_terms_of mkSeq_Cons terms_of_Nil_iff)

lemma run_append: "run (ts @ us) st = (case run ts st of None \<Rightarrow> None | Some st' \<Rightarrow> run us st')"
  by (induction ts arbitrary: st) (simp_all split: option.splits)

lemma run_toks_of:
  "nf LDisj r \<Longrightarrow> run (toks_of r) ((alts, terms) # st) = Some (push r (alts, terms) # st)"
proof (induction r arbitrary: alts terms st)
  case (Seq t r)
  then have "nf LTerm t" "nf LAlt r" by simp_all
  with Seq.IH show ?case
    by (simp add: run_append nf_mono push_term push_alt)
next
  case (Alt a d)
  then have "nf LAlt a" "nf LDisj d" by simp_all
  with Alt.IH show ?case
    by (simp add: run_append nf_mono push_alt)
next
  case (Star a)
  then have "nf LTerm a" "quantifiable a" by simp_all
  with Star.IH show ?case
    by (simp add: run_append nf_mono push_term)
next
  case (Plus a)
  then have "nf LTerm a" "quantifiable a" by simp_all
  with Plus.IH show ?case
    by (simp add: run_append nf_mono push_term)
next
  case (Opt a)
  then have "nf LTerm a" "quantifiable a" by simp_all
  with Opt.IH show ?case
    by (simp add: run_append nf_mono push_term)
next
  case (Group d)
  then have "nf LDisj d" by simp
  with Group.IH close_push [of d "[]"] show ?case
    by (simp add: run_append)
qed simp_all

lemma parse_toks_of:
  assumes "nf LDisj r"
  shows "parse_tokens (toks_of r) = Some r"
proof -
  have "run (toks_of r) [([], [])] = Some [push r ([], [])]"
    using assms by (rule run_toks_of)
  moreover have "close_frame (push r ([], [])) = r"
    using close_push [OF assms, of "[]"] by simp
  ultimately show ?thesis
    by (simp add: parse_tokens_def)
qed

section \<open>Printing what is parsed\<close>

lemma toks_of_mkSeq: "toks_of (mkSeq ts) = concat (map toks_of ts)"
  by (induction ts rule: mkSeq.induct) simp_all

lemma toks_of_mkAlt_snoc:
  "toks_of (mkAlt (as @ [b])) = concat (map (\<lambda>a. toks_of a @ [TBar]) as) @ toks_of b"
  by (induction as) (simp_all add: mkAlt_Cons)

lemma toks_of_close_frame: "toks_of (close_frame f) = frame_toks f"
  by (cases f) (simp add: toks_of_mkAlt_snoc toks_of_mkSeq)

lemma nf_term_not_Empty: "nf LTerm t \<Longrightarrow> t \<noteq> Empty"
  by auto

lemma mkSeq_Empty_iff: "list_all (nf LTerm) ts \<Longrightarrow> mkSeq ts = Empty \<longleftrightarrow> ts = []"
  by (induction ts rule: mkSeq.induct) (auto dest: nf_term_not_Empty)

lemma nf_mkSeq: "list_all (nf LTerm) ts \<Longrightarrow> nf LAlt (mkSeq ts)"
  by (induction ts rule: mkSeq.induct) (simp_all add: nf_mono mkSeq_Empty_iff)

lemma nf_mkAlt_snoc: "list_all (nf LAlt) as \<Longrightarrow> nf LAlt b \<Longrightarrow> nf LDisj (mkAlt (as @ [b]))"
  by (induction as) (simp_all add: mkAlt_Cons nf_mono)

lemma nf_close_frame: "wf_frame f \<Longrightarrow> nf LDisj (close_frame f)"
  by (cases f) (simp add: nf_mkAlt_snoc nf_mkSeq)

lemma quantify_inv:
  assumes "quantify q st = Some st'" and "wf_stack st"
    and q: "\<And>a. toks_of (q a) = toks_of a @ [t]"
           "\<And>a. nf LTerm (q a) \<longleftrightarrow> quantifiable a \<and> nf LTerm a"
  shows "wf_stack st' \<and> stack_toks st' = stack_toks st @ [t]"
  using assms(1,2) by (auto elim!: quantify_SomeE simp: wf_stack_def q split: if_splits)

lemma step_inv:
  assumes "parse_step t st = Some st'" and "wf_stack st"
  shows "wf_stack st' \<and> stack_toks st' = stack_toks st @ [t]"
proof (cases t)
  case TClose
  with assms show ?thesis
    by (auto elim!: step_TCloseE simp: wf_stack_def toks_of_close_frame nf_close_frame
        simp del: close_frame.simps)
next
  case TBar
  with assms show ?thesis
    by (auto elim!: step_TBarE simp: wf_stack_def toks_of_mkSeq nf_mkSeq)
next
  case TStar
  with assms quantify_inv [of Star st st' t] show ?thesis by simp
next
  case TPlus
  with assms quantify_inv [of Plus st st' t] show ?thesis by simp
next
  case TQuest
  with assms quantify_inv [of Opt st st' t] show ?thesis by simp
qed (use assms in \<open>auto elim!: step_SomeE simp: wf_stack_def\<close>)

lemma run_inv:
  "run ts st = Some st' \<Longrightarrow> wf_stack st \<Longrightarrow> wf_stack st' \<and> stack_toks st' = stack_toks st @ ts"
proof (induction ts arbitrary: st)
  case Nil
  then show ?case by simp
next
  case (Cons t ts)
  from Cons.prems(1) obtain st1 where s: "parse_step t st = Some st1" and r: "run ts st1 = Some st'"
    by (auto split: option.splits)
  from step_inv [OF s Cons.prems(2)] Cons.IH [OF r] show ?case by simp
qed

lemma show_parse:
  assumes "parse_tokens ts = Some r"
  shows "nf LDisj r \<and> toks_of r = ts"
proof -
  from assms obtain f where "run ts [([], [])] = Some [f]" and r: "r = close_frame f"
    by (auto simp: parse_tokens_def split: option.splits list.splits)
  from run_inv [OF this(1)] have "wf_frame f" "frame_toks f = ts"
    by (simp_all add: wf_stack_def)
  then show ?thesis
    by (simp add: r nf_close_frame toks_of_close_frame)
qed

section \<open>Properties of the parser\<close>

text \<open>
  C25. Parsing and printing are inverse on tokens: the parser returns a tree for a
  list of tokens exactly when the tree is in parsed form and prints as that list.
  So it accepts the token lists of the trees in parsed form and no others, and
  different token lists give different trees.
\<close>

theorem parse_tokens_iff: "parse_tokens ts = Some r \<longleftrightarrow> nf LDisj r \<and> toks_of r = ts"
  using show_parse [of ts r] parse_toks_of [of r] by blast

text \<open>
  Parsing the text that is printed for a tree in parsed form gives back the
  tree: escapes, classes, groups and quantifiers are read as they were written.
\<close>

lemma parse_show:
  assumes "nf LDisj r"
  shows "parse_pattern (show_node r) = Some r"
  using tokenize_show [of "[]" "[]" r] parse_toks_of [OF assms]
  by (simp add: parse_pattern_def)

end
