(* ===== verification/Numbers_Again.thy ===== *)
theory Numbers_Again
  imports Regex_Syntax
begin

text \<open>
  Model of \<^verbatim>\<open>chapter 9 exercises/numbersAgain.js\<close>.

  \<open>expression_source\<close> is the text of the regular expression literal of the first
  line, \<^verbatim>\<open>/^[+-]?(\d+|\d+\.\d*|\.\d+|)([eE][+-]?\d*)?$/\<close>, between its slashes
  (\<open>backslash\<close> is the character, which a string of the logic cannot hold
  otherwise). \<open>expression\<close> is that literal as a \<open>node\<close>: the sequence of \<open>^\<close>,
  the optional sign (\<open>sign_part\<close>), the group of the four alternatives of the
  mantissa (\<open>mantissa\<close>), the optional group of the exponent (\<open>exponent\<close>) and
  \<open>$\<close>; it is what \<open>parse_pattern\<close> reads from the text. \<open>numbersAgain_main\<close> is
  the rest of the file: seven calls of \<open>expression.test\<close>, each printed.

  The specification is \<open>numeric_literal\<close>: a string is a sign, a mantissa and an
  exponent one after the other, each possibly empty, in the words of the
  grammar. \<open>digit_free\<close> strings hold no digit, and \<open>degenerate_literals\<close> is the
  list of the strings without a digit that the grammar has: a sign or none
  (\<open>sign_strings\<close>), then nothing or an exponent marker with a sign or none
  (\<open>bare_exponents\<close>).

  The theorems show that \<open>test\<close> accepts exactly the strings of the grammar, what
  the file prints, which characters an accepted string can hold, that the accepted
  strings without a digit are exactly the twenty-one of the list, and that a dot in
  an accepted string has a digit beside it. That the tree is the parse of the text
  is a lemma.
\<close>

section \<open>The file\<close>

definition digit :: node where
  "digit = Class ''0123456789''"

definition sign_part :: node where
  "sign_part = Opt (Class ''+-'')"

definition mantissa :: node where
  "mantissa =
     Group (Alt (Plus digit)
           (Alt (Seq (Plus digit) (Seq (Char CHR ''.'') (Star digit)))
           (Alt (Seq (Char CHR ''.'') (Plus digit))
                Empty)))"

definition exponent :: node where
  "exponent = Opt (Group (Seq (Class ''eE'') (Seq (Opt (Class ''+-'')) (Star digit))))"

definition expression :: node where
  "expression = Seq LineStart (Seq sign_part (Seq mantissa (Seq exponent LineEnd)))"

definition expression_source :: string where
  "expression_source =
     ''^[+-]?('' @ backslash # ''d+|'' @ backslash # ''d+'' @ backslash # ''.'' @ backslash # ''d*|'' @
     backslash # ''.'' @ backslash # ''d+|)([eE][+-]?'' @ backslash # ''d*)?$''"

definition numbersAgain_main :: console where
  "numbersAgain_main =
     map (\<lambda>s. Log [LBool (regexp_test expression s)])
       [''1E10'', ''5e-10'', ''5.5'', ''.3'', ''-5e-4'', ''-70e'', ''.'']"

section \<open>Number literals\<close>

definition digits :: "string \<Rightarrow> bool" where
  "digits w \<longleftrightarrow> set w \<subseteq> set ''0123456789''"

definition is_sign :: "string \<Rightarrow> bool" where
  "is_sign sg \<longleftrightarrow> sg = [] \<or> sg = ''+'' \<or> sg = ''-''"

definition is_mantissa :: "string \<Rightarrow> bool" where
  "is_mantissa m \<longleftrightarrow>
     (m \<noteq> [] \<and> digits m) \<or>
     (\<exists>i f. m = i @ ''.'' @ f \<and> i \<noteq> [] \<and> digits i \<and> digits f) \<or>
     (\<exists>f. m = ''.'' @ f \<and> f \<noteq> [] \<and> digits f) \<or>
     m = []"

definition signed_digits :: "string \<Rightarrow> bool" where
  "signed_digits t \<longleftrightarrow> (\<exists>sg ds. t = sg @ ds \<and> is_sign sg \<and> digits ds)"

definition is_exponent :: "string \<Rightarrow> bool" where
  "is_exponent e \<longleftrightarrow>
     e = [] \<or> (\<exists>c t. e = c # t \<and> (c = CHR ''e'' \<or> c = CHR ''E'') \<and> signed_digits t)"

definition numeric_literal :: "string \<Rightarrow> bool" where
  "numeric_literal s \<longleftrightarrow>
     (\<exists>sg m e. s = sg @ m @ e \<and> is_sign sg \<and> is_mantissa m \<and> is_exponent e)"

definition literal_chars :: "char set" where
  "literal_chars = set ''+-.0123456789eE''"

definition number :: node where
  "number = Seq (Seq sign_part mantissa) exponent"

text \<open>
  The strings of the grammar that hold no digit.
\<close>

definition digit_free :: "string \<Rightarrow> bool" where
  "digit_free s \<longleftrightarrow> set s \<inter> set digit_chars = {}"

definition sign_strings :: "string list" where
  "sign_strings = ['''', ''+'', ''-'']"

definition bare_exponents :: "string list" where
  "bare_exponents = '''' # [c # sg. c \<leftarrow> ''eE'', sg \<leftarrow> sign_strings]"

definition degenerate_literals :: "string list" where
  "degenerate_literals = [sg @ ex. sg \<leftarrow> sign_strings, ex \<leftarrow> bare_exponents]"

section \<open>The languages of the parts\<close>

lemma lang_digit_star: "lang (Star digit) = {w. digits w}"
  by (simp only: digit_def digits_def lang_Star_Class)

lemma lang_digit_plus: "lang (Plus digit) = {w. w \<noteq> [] \<and> digits w}"
  by (simp only: digit_def digits_def lang_Plus_Class)

lemma lang_sign: "lang (Opt (Class ''+-'')) = {sg. is_sign sg}"
  by (auto simp: is_sign_def)

lemma lang_dot_digits:
  "lang (Seq (Char CHR ''.'') r) = {w. \<exists>f. w = ''.'' @ f \<and> f \<in> lang r}"
  by (simp add: conc_def)

lemma lang_mantissa: "lang mantissa = {m. is_mantissa m}"
proof -
  have "m \<in> lang mantissa \<longleftrightarrow> is_mantissa m" for m
    unfolding mantissa_def lang.simps(5,9) lang.simps(4) [of "Plus digit"] lang_dot_digits
      lang_digit_plus lang_digit_star is_mantissa_def
    by (simp add: in_conc_iff) blast
  then show ?thesis by blast
qed

lemma lang_signed_digits: "lang (Seq (Opt (Class ''+-'')) (Star digit)) = {t. signed_digits t}"
  by (simp only: lang.simps(4) lang_sign lang_digit_star conc_Collect signed_digits_def)

lemma lang_exponent: "lang exponent = {e. is_exponent e}"
proof -
  have "lang (Seq (Class ''eE'') (Seq (Opt (Class ''+-'')) (Star digit))) =
      {e. \<exists>c t. e = c # t \<and> c \<in> set ''eE'' \<and> t \<in> {t. signed_digits t}}"
    by (simp only: lang.simps(3) lang.simps(4) [of "Class ''eE''"] lang_signed_digits conc_chars)
  then show ?thesis
    unfolding exponent_def lang.simps(8,9) by (auto simp: is_exponent_def)
qed

lemma lang_number: "lang number = {s. numeric_literal s}"
proof -
  have "s \<in> lang number \<longleftrightarrow> numeric_literal s" for s
    unfolding number_def sign_part_def lang.simps(4) lang_sign lang_mantissa lang_exponent
      in_conc3_iff numeric_literal_def by simp
  then show ?thesis by blast
qed

lemma assertion_free_number: "assertion_free number"
  by (simp add: number_def sign_part_def mantissa_def exponent_def digit_def)

lemma regexp_test_expression_number:
  "regexp_test expression s \<longleftrightarrow> regexp_test (Seq LineStart (Seq number LineEnd)) s"
  unfolding expression_def number_def regexp_test_LineStart
  by (simp only: ms_Seq_assoc)

lemma expression_numeric_literal_iff: "regexp_test expression s \<longleftrightarrow> numeric_literal s"
  by (simp add: regexp_test_expression_number regexp_test_anchored [OF assertion_free_number]
      lang_number)

section \<open>The characters of a literal\<close>

lemma literal_chars_simps [simp]:
  "CHR ''.'' \<in> literal_chars" "CHR ''e'' \<in> literal_chars" "CHR ''E'' \<in> literal_chars"
  by (simp_all add: literal_chars_def)

lemma is_sign_chars: "is_sign sg \<Longrightarrow> set sg \<subseteq> literal_chars"
  by (auto simp: is_sign_def literal_chars_def)

lemma digits_chars: "digits w \<Longrightarrow> set w \<subseteq> literal_chars"
  unfolding digits_def literal_chars_def by (erule subset_trans) simp

lemma is_mantissa_chars: "is_mantissa m \<Longrightarrow> set m \<subseteq> literal_chars"
  unfolding is_mantissa_def by (elim disjE exE conjE) (simp_all add: digits_chars)

lemma signed_digits_chars: "signed_digits t \<Longrightarrow> set t \<subseteq> literal_chars"
  unfolding signed_digits_def by (elim exE conjE) (simp add: digits_chars is_sign_chars)

lemma is_exponent_chars: "is_exponent e \<Longrightarrow> set e \<subseteq> literal_chars"
  unfolding is_exponent_def by (elim disjE exE conjE) (simp_all add: signed_digits_chars)

lemma numeric_literal_chars: "numeric_literal s \<Longrightarrow> set s \<subseteq> literal_chars"
  unfolding numeric_literal_def
  by (elim exE conjE) (simp add: is_sign_chars is_mantissa_chars is_exponent_chars)

section \<open>Strings without digits\<close>

lemma digits_iff_digit_chars: "digits w \<longleftrightarrow> set w \<subseteq> set digit_chars"
  by (simp only: digits_def digit_chars_def)

lemma not_digit_chars [simp]:
  "CHR ''.'' \<notin> set digit_chars" "CHR ''+'' \<notin> set digit_chars" "CHR ''-'' \<notin> set digit_chars"
  "CHR ''e'' \<notin> set digit_chars" "CHR ''E'' \<notin> set digit_chars"
  by (simp_all add: digit_chars_def)

lemma digit_free_simps [simp]:
  "digit_free []"
  "digit_free (c # s) \<longleftrightarrow> c \<notin> set digit_chars \<and> digit_free s"
  "digit_free (u @ v) \<longleftrightarrow> digit_free u \<and> digit_free v"
  by (auto simp: digit_free_def)

lemma is_sign_iff: "is_sign sg \<longleftrightarrow> sg \<in> set sign_strings"
  by (auto simp: is_sign_def sign_strings_def)

lemma is_sign_digit_free: "is_sign sg \<Longrightarrow> digit_free sg"
  by (auto simp: is_sign_def)

lemma digits_digit_free: "digits w \<Longrightarrow> digit_free w \<longleftrightarrow> w = []"
  unfolding digits_iff_digit_chars digit_free_def by (cases w) auto

lemma is_mantissa_digit_free: "is_mantissa m \<Longrightarrow> digit_free m \<longleftrightarrow> m = []"
  unfolding is_mantissa_def by (elim disjE exE conjE) (simp_all add: digits_digit_free)

lemma signed_digits_digit_free: "signed_digits t \<and> digit_free t \<longleftrightarrow> is_sign t"
proof
  assume "signed_digits t \<and> digit_free t"
  then obtain sg ds where "t = sg @ ds" "is_sign sg" "digits ds" "digit_free ds"
    by (auto simp: signed_digits_def)
  then show "is_sign t"
    by (simp add: digits_digit_free)
next
  assume "is_sign t"
  then have "t = t @ [] \<and> is_sign t \<and> digits []"
    by (simp add: digits_def)
  then have "signed_digits t"
    unfolding signed_digits_def by blast
  with \<open>is_sign t\<close> show "signed_digits t \<and> digit_free t"
    by (simp add: is_sign_digit_free)
qed

lemma bare_exponents_iff:
  "e \<in> set bare_exponents \<longleftrightarrow>
     e = [] \<or> (\<exists>c sg. e = c # sg \<and> (c = CHR ''e'' \<or> c = CHR ''E'') \<and> sg \<in> set sign_strings)"
  by (auto simp: bare_exponents_def)

lemma is_exponent_Cons:
  "is_exponent (c # t) \<longleftrightarrow> (c = CHR ''e'' \<or> c = CHR ''E'') \<and> signed_digits t"
  by (simp add: is_exponent_def)

lemma exponent_marker_not_digit: "c = CHR ''e'' \<or> c = CHR ''E'' \<Longrightarrow> c \<notin> set digit_chars"
  by (erule disjE) simp_all

lemma is_exponent_digit_free: "is_exponent e \<and> digit_free e \<longleftrightarrow> e \<in> set bare_exponents"
proof (cases e)
  case Nil
  then show ?thesis
    by (simp add: is_exponent_def bare_exponents_iff)
next
  case (Cons c t)
  have "is_exponent (c # t) \<and> digit_free (c # t) \<longleftrightarrow>
      (c = CHR ''e'' \<or> c = CHR ''E'') \<and> (signed_digits t \<and> digit_free t)"
    using exponent_marker_not_digit [of c] by (simp add: is_exponent_Cons) blast
  then show ?thesis
    by (simp only: Cons signed_digits_digit_free bare_exponents_iff is_sign_iff) simp
qed

lemma numeric_literal_digit_free:
  "numeric_literal s \<and> digit_free s \<longleftrightarrow>
     (\<exists>sg e. s = sg @ e \<and> is_sign sg \<and> (is_exponent e \<and> digit_free e))"
proof
  assume "numeric_literal s \<and> digit_free s"
  then obtain sg m e where "s = sg @ m @ e" "is_sign sg" "is_mantissa m" "is_exponent e"
    "digit_free m" "digit_free e"
    by (auto simp: numeric_literal_def)
  then show "\<exists>sg e. s = sg @ e \<and> is_sign sg \<and> (is_exponent e \<and> digit_free e)"
    by (auto simp: is_mantissa_digit_free)
next
  assume "\<exists>sg e. s = sg @ e \<and> is_sign sg \<and> (is_exponent e \<and> digit_free e)"
  then obtain sg e where s: "s = sg @ e" "is_sign sg" "is_exponent e" "digit_free e"
    by blast
  then have "s = sg @ [] @ e \<and> is_sign sg \<and> is_mantissa [] \<and> is_exponent e"
    by (simp add: is_mantissa_def)
  then have "numeric_literal s"
    unfolding numeric_literal_def by blast
  with s show "numeric_literal s \<and> digit_free s"
    by (simp add: is_sign_digit_free)
qed

section \<open>The place of the dot\<close>

lemma dot_not_digit: "digits w \<Longrightarrow> CHR ''.'' \<notin> set w"
  unfolding digits_iff_digit_chars by auto

lemma dot_not_sign: "is_sign sg \<Longrightarrow> CHR ''.'' \<notin> set sg"
  by (auto simp: is_sign_def)

lemma dot_not_exponent: "is_exponent e \<Longrightarrow> CHR ''.'' \<notin> set e"
  by (auto simp: is_exponent_def signed_digits_def dot_not_digit dot_not_sign)

lemma digits_last: "digits w \<Longrightarrow> w \<noteq> [] \<Longrightarrow> last w \<in> set digit_chars"
  unfolding digits_iff_digit_chars using last_in_set [of w] by blast

lemma digits_hd: "digits w \<Longrightarrow> w \<noteq> [] \<Longrightarrow> hd w \<in> set digit_chars"
  unfolding digits_iff_digit_chars using hd_in_set [of w] by blast

section \<open>Properties of the file\<close>

text \<open>
  The tree \<open>expression\<close> is what the parser reads from the text of the literal
  in line 1; the text is well-formed and uses nothing that the parser does not
  cover.
\<close>

lemma expression_parsed: "parse_pattern expression_source = Some expression"
  by (simp add: expression_source_def expression_def sign_part_def mantissa_def exponent_def
      digit_def parse_defs)

text \<open>
  C4. \<open>expression.test\<close> accepts exactly the number literals of the grammar: an
  optional sign; then digits, or digits, a dot and possibly more digits, or a dot
  and digits, or nothing; then possibly an exponent: \<open>e\<close> or \<open>E\<close>, an optional
  sign, and digits or none.
\<close>

theorem expression_numeric_literal: "regexp_test expression s \<longleftrightarrow> numeric_literal s"
  by (simp add: regexp_test_expression_number regexp_test_anchored [OF assertion_free_number] lang_number)

lemmas expression_defs =
  regexp_test_def expression_def sign_part_def mantissa_def exponent_def digit_def ms_Star

text \<open>
  C18. The file prints \<open>true\<close> for its first six strings, among them \<open>-70e\<close>, and
  \<open>false\<close> for the last one, the single dot.
\<close>

theorem numbersAgain_main_output:
  "numbersAgain_main =
     [Log [LBool True], Log [LBool True], Log [LBool True], Log [LBool True],
      Log [LBool True], Log [LBool True], Log [LBool False]]"
  by (simp add: numbersAgain_main_def expression_defs)

text \<open>
  C35. An accepted string holds nothing but signs, digits, dots and exponent
  markers: every string with another character is rejected.
\<close>

theorem expression_alphabet:
  assumes "regexp_test expression s"
  shows "set s \<subseteq> set ''+-.0123456789eE''"
  using assms numeric_literal_chars [of s]
  by (simp only: expression_numeric_literal_iff literal_chars_def)

theorem expression_alphabet_witness: "set ''-5e-4'' \<subseteq> set ''+-.0123456789eE''"
  using expression_alphabet [of "''-5e-4''"] by (simp add: expression_defs)

text \<open>
  C34. The pattern is loose at the edges: among the strings that hold no digit it
  accepts exactly twenty-one, those made of a sign or none followed by nothing or by
  an exponent marker with a sign or none; the empty string, \<open>+\<close>, \<open>e\<close> and \<open>-E+\<close> are
  among them. Every other string without a digit is rejected.
\<close>

theorem expression_degenerate:
  "regexp_test expression s \<and> digit_free s \<longleftrightarrow> s \<in> set degenerate_literals"
proof -
  have "regexp_test expression s \<and> digit_free s \<longleftrightarrow>
      (\<exists>sg e. s = sg @ e \<and> sg \<in> set sign_strings \<and> e \<in> set bare_exponents)"
    by (simp only: expression_numeric_literal_iff numeric_literal_digit_free
        is_exponent_digit_free is_sign_iff)
  also have "\<dots> \<longleftrightarrow> s \<in> set degenerate_literals"
    by (auto simp: degenerate_literals_def)
  finally show ?thesis .
qed

text \<open>
  The list, written out.
\<close>

lemma degenerate_literals_list:
  "degenerate_literals =
     ['''', ''e'', ''e+'', ''e-'', ''E'', ''E+'', ''E-'',
      ''+'', ''+e'', ''+e+'', ''+e-'', ''+E'', ''+E+'', ''+E-'',
      ''-'', ''-e'', ''-e+'', ''-e-'', ''-E'', ''-E+'', ''-E-'']"
  by (simp add: degenerate_literals_def bare_exponents_def sign_strings_def)

text \<open>
  C33. A dot is accepted only beside a digit: in every accepted string a dot has a
  digit directly before it or directly after it. The single dot is rejected, and so
  is every string with a dot between two characters that are not digits.
\<close>

theorem expression_dot_needs_digit:
  assumes "regexp_test expression (u @ ''.'' @ v)"
  shows "(u \<noteq> [] \<and> last u \<in> set digit_chars) \<or> (v \<noteq> [] \<and> hd v \<in> set digit_chars)"
proof -
  from assms obtain sg m e where s: "u @ CHR ''.'' # v = sg @ m @ e"
    and parts: "is_sign sg" "is_mantissa m" "is_exponent e"
    by (auto simp: expression_numeric_literal_iff numeric_literal_def)
  have out: "CHR ''.'' \<notin> set sg" "CHR ''.'' \<notin> set e"
    using parts by (simp_all add: dot_not_sign dot_not_exponent)
  have "digits []" by (simp add: digits_def)
  with parts(2) consider "digits m"
    | i f where "m = i @ ''.'' @ f" "i \<noteq> []" "digits i" "digits f"
    | f where "m = ''.'' @ f" "f \<noteq> []" "digits f"
    unfolding is_mantissa_def by auto
  then show ?thesis
  proof cases
    case 1
    then have "CHR ''.'' \<notin> set (sg @ m @ e)"
      using out by (simp add: dot_not_digit)
    with s [symmetric] show ?thesis by simp
  next
    case 2
    then have "u @ CHR ''.'' # v = (sg @ i) @ CHR ''.'' # (f @ e)"
      and "CHR ''.'' \<notin> set (sg @ i)" and "CHR ''.'' \<notin> set (f @ e)"
      using s out by (simp_all add: dot_not_digit)
    then have "u = sg @ i"
      by (metis append_Cons_eq_iff)
    with 2 show ?thesis by (simp add: digits_last)
  next
    case 3
    then have "u @ CHR ''.'' # v = sg @ CHR ''.'' # (f @ e)"
      and "CHR ''.'' \<notin> set (f @ e)"
      using s out by (simp_all add: dot_not_digit)
    with out(1) have "v = f @ e"
      by (metis append_Cons_eq_iff)
    with 3 show ?thesis by (simp add: digits_hd)
  qed
qed

theorem expression_dot_needs_digit_witness:
  "(''5'' \<noteq> [] \<and> last ''5'' \<in> set digit_chars) \<or> ([] \<noteq> [] \<and> hd [] \<in> set digit_chars)"
  using expression_dot_needs_digit [of "''5''" "[]"] by (simp add: expression_defs)


end
