(* ===== verification/Literal_Scanner.thy ===== *)
theory Literal_Scanner
  imports Numbers_Again
begin

text \<open>
  The contract \<open>isValidNumericLiteral\<close> of the number pattern as a scanner that reads
  its input once from left to right and never goes back: skip a sign, skip the
  mantissa, check the exponent.

  \<^item> \<open>skip_sign\<close> drops one leading \<open>+\<close> or \<open>-\<close>;
  \<^item> \<open>skip_digits\<close> drops the leading digits;
  \<^item> \<open>skip_mantissa\<close> drops the leading digits and, when a dot follows that has a
    digit before or after it, the dot and the digits after it; a dot without a digit
    beside it is left where it is;
  \<^item> \<open>exponent_ok\<close> accepts the empty rest, and \<open>e\<close> or \<open>E\<close> followed by an optional
    sign and digits up to the end.

  The theorems show that each scanner function takes off exactly what the
  corresponding part of the grammar \<open>numeric_literal\<close> of \<open>Numbers_Again\<close> allows and
  that the choice is forced, so that the backtracking search of
  \<open>expression.test\<close> and the scanner accept the same strings.
\<close>

section \<open>The scanner\<close>
definition is_digit :: "char \<Rightarrow> bool" where
  "is_digit c \<longleftrightarrow> c \<in> set ''0123456789''"

definition is_sign_char :: "char \<Rightarrow> bool" where
  "is_sign_char c \<longleftrightarrow> c = CHR ''+'' \<or> c = CHR ''-''"

fun skip_sign :: "string \<Rightarrow> string" where
  "skip_sign [] = []"
| "skip_sign (c # s) = (if is_sign_char c then s else c # s)"

definition skip_digits :: "string \<Rightarrow> string" where
  "skip_digits s = dropWhile is_digit s"

definition skip_mantissa :: "string \<Rightarrow> string" where
  "skip_mantissa s =
     (let r = skip_digits s in
      case r of
        [] \<Rightarrow> r
      | c # f \<Rightarrow>
          if c = CHR ''.'' \<and> (r \<noteq> s \<or> skip_digits f \<noteq> f) then skip_digits f else r)"

definition exponent_ok :: "string \<Rightarrow> bool" where
  "exponent_ok r =
     (case r of
        [] \<Rightarrow> True
      | c # t \<Rightarrow> (c = CHR ''e'' \<or> c = CHR ''E'') \<and> skip_digits (skip_sign t) = [])"

definition isValidNumericLiteral :: "string \<Rightarrow> bool" where
  "isValidNumericLiteral s = exponent_ok (skip_mantissa (skip_sign s))"

definition starts :: "(char \<Rightarrow> bool) \<Rightarrow> string \<Rightarrow> bool" where
  "starts P s = (case s of [] \<Rightarrow> True | c # t \<Rightarrow> P c)"

definition unsigned_literal :: "string \<Rightarrow> bool" where
  "unsigned_literal t \<longleftrightarrow> (\<exists>m e. t = m @ e \<and> is_mantissa m \<and> is_exponent e)"

section \<open>First characters and digits\<close>

lemma starts_simps [simp]: "starts P []" "starts P (c # t) = P c"
  by (simp_all add: starts_def)

lemma starts_append: "starts P (u @ v) = (if u = [] then starts P v else starts P u)"
  by (cases u) simp_all

lemma starts_mono: "starts P s \<Longrightarrow> (\<And>c. P c \<Longrightarrow> Q c) \<Longrightarrow> starts Q s"
  by (cases s) simp_all

lemma digits_iff: "digits w \<longleftrightarrow> (\<forall>c\<in>set w. is_digit c)"
  by (simp only: digits_def is_digit_def subset_eq)

lemma digits_simps [simp]: "digits []" "digits (c # w) \<longleftrightarrow> is_digit c \<and> digits w"
  by (simp_all add: digits_iff)

lemma digits_append [simp]: "digits (u @ v) \<longleftrightarrow> digits u \<and> digits v"
  by (auto simp: digits_iff)

lemma not_digit [simp]:
  "\<not> is_digit CHR ''.''" "\<not> is_digit CHR ''e''" "\<not> is_digit CHR ''E''"
  "\<not> is_digit CHR ''+''" "\<not> is_digit CHR ''-''"
  by (simp_all add: is_digit_def)

lemma not_sign_char [simp]:
  "\<not> is_sign_char CHR ''.''" "\<not> is_sign_char CHR ''e''" "\<not> is_sign_char CHR ''E''"
  "is_sign_char CHR ''+''" "is_sign_char CHR ''-''"
  by (simp_all add: is_sign_char_def)

lemma is_digit_not_sign: "is_digit c \<Longrightarrow> \<not> is_sign_char c"
  by (auto simp: is_sign_char_def)

section \<open>Skipping digits\<close>

lemma skip_digits_simps [simp]:
  "skip_digits [] = []"
  "skip_digits (c # s) = (if is_digit c then skip_digits s else c # s)"
  by (simp_all add: skip_digits_def)

lemma skip_digits_stop: "starts (\<lambda>c. \<not> is_digit c) r \<Longrightarrow> skip_digits r = r"
  by (cases r) simp_all

lemma skip_digits_append: "digits w \<Longrightarrow> skip_digits (w @ r) = skip_digits r"
  by (induction w) simp_all

lemma skip_digits_split:
  "\<exists>w. digits w \<and> s = w @ skip_digits s"
proof (intro exI conjI)
  show "digits (takeWhile is_digit s)"
    by (auto simp: digits_iff dest: set_takeWhileD)
  show "s = takeWhile is_digit s @ skip_digits s"
    by (simp add: skip_digits_def)
qed

lemma skip_digits_Nil_iff: "skip_digits w = [] \<longleftrightarrow> digits w"
  by (induction w) simp_all

section \<open>The sign\<close>

lemma skip_sign_stop: "starts (\<lambda>c. \<not> is_sign_char c) t \<Longrightarrow> skip_sign t = t"
  by (cases t) simp_all

lemma skip_sign_append:
  "is_sign sg \<Longrightarrow> starts (\<lambda>c. \<not> is_sign_char c) t \<Longrightarrow> skip_sign (sg @ t) = t"
  by (auto simp: is_sign_def skip_sign_stop)

lemma skip_sign_split: "\<exists>sg. is_sign sg \<and> s = sg @ skip_sign s"
  by (cases s) (auto simp: is_sign_def is_sign_char_def)

lemma digits_starts: "digits w \<Longrightarrow> starts (\<lambda>c. \<not> is_sign_char c) w"
  by (cases w) (simp_all add: is_digit_not_sign)

section \<open>The exponent\<close>

lemma signed_digits_iff: "signed_digits t \<longleftrightarrow> skip_digits (skip_sign t) = []"
proof
  assume "signed_digits t"
  then obtain sg ds where "t = sg @ ds" "is_sign sg" "digits ds"
    by (auto simp: signed_digits_def)
  then show "skip_digits (skip_sign t) = []"
    by (simp add: skip_sign_append digits_starts skip_digits_Nil_iff)
next
  assume "skip_digits (skip_sign t) = []"
  then have "digits (skip_sign t)" by (simp add: skip_digits_Nil_iff)
  with skip_sign_split [of t] show "signed_digits t"
    by (auto simp: signed_digits_def)
qed

lemma exponent_ok_iff: "exponent_ok e \<longleftrightarrow> is_exponent e"
  by (cases e) (auto simp: exponent_ok_def is_exponent_def signed_digits_iff)

lemma is_exponent_starts:
  "is_exponent e \<Longrightarrow> starts (\<lambda>c. \<not> is_digit c \<and> c \<noteq> CHR ''.'' \<and> \<not> is_sign_char c) e"
  by (auto simp: is_exponent_def)

section \<open>The mantissa\<close>

lemma skip_mantissa_append:
  assumes "is_mantissa m" and e: "starts (\<lambda>c. \<not> is_digit c \<and> c \<noteq> CHR ''.'' \<and> \<not> is_sign_char c) e"
  shows "skip_mantissa (m @ e) = e"
proof -
  from e have stop: "skip_digits e = e"
    by (intro skip_digits_stop) (erule starts_mono, simp)
  from e have nodot: "skip_mantissa e = e"
    by (cases e) (simp_all add: skip_mantissa_def stop Let_def)
  from assms(1) consider "m \<noteq> []" "digits m"
    | i f where "m = i @ ''.'' @ f" "i \<noteq> []" "digits i" "digits f"
    | f where "m = ''.'' @ f" "f \<noteq> []" "digits f"
    | "m = []"
    by (auto simp: is_mantissa_def)
  then show ?thesis
  proof cases
    case 1
    then have "skip_digits (m @ e) = e"
      by (simp add: skip_digits_append stop)
    with e show ?thesis
      by (cases e) (simp_all add: skip_mantissa_def Let_def)
  next
    case 2
    then show ?thesis
      by (simp add: skip_mantissa_def skip_digits_append stop Let_def)
  next
    case 3
    then have "skip_digits (f @ e) \<noteq> f @ e"
      by (simp add: skip_digits_append stop)
    with 3 show ?thesis
      by (simp add: skip_mantissa_def skip_digits_append stop Let_def)
  next
    case 4
    with nodot show ?thesis by simp
  qed
qed

lemma skip_mantissa_split: "\<exists>m. is_mantissa m \<and> t = m @ skip_mantissa t"
proof -
  obtain i where i: "digits i" "t = i @ skip_digits t"
    using skip_digits_split [of t] by blast
  show ?thesis
  proof (cases "\<exists>f. skip_digits t = CHR ''.'' # f \<and> (skip_digits t \<noteq> t \<or> skip_digits f \<noteq> f)")
    case True
    then obtain f where f: "skip_digits t = CHR ''.'' # f"
      and used: "skip_digits t \<noteq> t \<or> skip_digits f \<noteq> f" by blast
    obtain d where d: "digits d" "f = d @ skip_digits f"
      using skip_digits_split [of f] by blast
    from f used have res: "skip_mantissa t = skip_digits f"
      by (simp add: skip_mantissa_def Let_def)
    from i used d have "i \<noteq> [] \<or> d \<noteq> []" by auto
    with i d have "is_mantissa (i @ ''.'' @ d)"
      by (cases "i = []") (auto simp: is_mantissa_def)
    moreover from i f d have "t = (i @ ''.'' @ d) @ skip_digits f" by simp
    ultimately show ?thesis unfolding res by blast
  next
    case False
    then have res: "skip_mantissa t = skip_digits t"
      by (auto simp: skip_mantissa_def Let_def split: list.splits)
    from i have "is_mantissa i" by (auto simp: is_mantissa_def)
    with i show ?thesis unfolding res by blast
  qed
qed

lemma unsigned_literal_iff: "unsigned_literal t \<longleftrightarrow> exponent_ok (skip_mantissa t)"
proof
  assume "unsigned_literal t"
  then obtain m e where "t = m @ e" "is_mantissa m" "is_exponent e"
    by (auto simp: unsigned_literal_def)
  then show "exponent_ok (skip_mantissa t)"
    by (simp add: skip_mantissa_append is_exponent_starts exponent_ok_iff)
next
  assume "exponent_ok (skip_mantissa t)"
  with skip_mantissa_split [of t] show "unsigned_literal t"
    by (auto simp: unsigned_literal_def exponent_ok_iff)
qed

lemma is_mantissa_starts: "is_mantissa m \<Longrightarrow> starts (\<lambda>c. \<not> is_sign_char c) m"
  by (cases m) (auto simp: is_mantissa_def is_digit_not_sign Cons_eq_append_conv)

lemma unsigned_literal_starts:
  assumes "unsigned_literal t"
  shows "starts (\<lambda>c. \<not> is_sign_char c) t"
proof -
  from assms obtain m e where t: "t = m @ e" and "is_mantissa m" "is_exponent e"
    by (auto simp: unsigned_literal_def)
  then have "starts (\<lambda>c. \<not> is_sign_char c) m" "starts (\<lambda>c. \<not> is_sign_char c) e"
    by (auto dest: is_mantissa_starts is_exponent_starts elim: starts_mono)
  then show ?thesis by (simp add: t starts_append)
qed

section \<open>The whole literal\<close>

lemma numeric_literal_unsigned:
  "numeric_literal s \<longleftrightarrow> (\<exists>sg t. s = sg @ t \<and> is_sign sg \<and> unsigned_literal t)"
  unfolding numeric_literal_def unsigned_literal_def by blast

lemma numeric_literal_scan: "numeric_literal s \<longleftrightarrow> isValidNumericLiteral s"
proof
  assume "numeric_literal s"
  then obtain sg t where "s = sg @ t" "is_sign sg" "unsigned_literal t"
    by (auto simp: numeric_literal_unsigned)
  then show "isValidNumericLiteral s"
    by (simp add: isValidNumericLiteral_def skip_sign_append unsigned_literal_starts
        unsigned_literal_iff [symmetric])
next
  assume "isValidNumericLiteral s"
  then have "unsigned_literal (skip_sign s)"
    by (simp add: isValidNumericLiteral_def unsigned_literal_iff)
  with skip_sign_split [of s] show "numeric_literal s"
    unfolding numeric_literal_unsigned by blast
qed

text \<open>
  C19. The regular expression and the one-pass scanner accept the same strings: the
  backtracking of \<open>expression.test\<close> never finds a match that reading the sign, the
  mantissa and the exponent greedily from left to right would miss.
\<close>

theorem expression_scanner: "regexp_test expression s = isValidNumericLiteral s"
  by (simp only: expression_numeric_literal_iff numeric_literal_scan)

text \<open>
  The scanner takes apart every input, accepted or not: the input is a sign,
  a mantissa and a rest, and it is accepted exactly when the rest is an exponent.
\<close>

lemma scanner_decomposition:
  "\<exists>sg m. is_sign sg \<and> is_mantissa m \<and>
     s = sg @ m @ skip_mantissa (skip_sign s) \<and>
     (isValidNumericLiteral s \<longleftrightarrow> is_exponent (skip_mantissa (skip_sign s)))"
proof -
  obtain sg where "is_sign sg" "s = sg @ skip_sign s"
    using skip_sign_split [of s] by blast
  moreover obtain m where "is_mantissa m" "skip_sign s = m @ skip_mantissa (skip_sign s)"
    using skip_mantissa_split [of "skip_sign s"] by blast
  ultimately show ?thesis
    unfolding isValidNumericLiteral_def exponent_ok_iff by metis
qed

end
