(* ===== verification/Regex_Continuations.thy ===== *)
theory Regex_Continuations
  imports Js_Regex "HOL-Library.Extended_Nat"
begin

text \<open>
  The matcher in the form in which the language standard defines it (ECMA-262,
  Pattern Semantics). A pattern denotes a \<open>matcher\<close>: a function of a position and of
  a \<open>continuation\<close>, which is what the rest of the pattern does behind the position a
  match ends at. A matcher returns what the continuation returns at the first end
  position the continuation accepts, or \<open>None\<close> for failure. \<open>mc\<close> is the matcher of
  a \<open>node\<close>: a sequence passes the matcher of its second part as continuation to the
  first, an alternation tries its second part when the first fails, and a quantifier
  is \<open>repeat_matcher\<close> (RepeatMatcher) with its bounds: it tries one more iteration
  before it tries none, and an iteration that does not move the position fails.
  \<open>regexp_exec\<close> is the loop of RegExpBuiltinExec over the start positions, from the
  left; it returns where the match starts and where it ends. \<open>test_c\<close> is \<open>test\<close>
  through it.

  Positions are the rests of the input, as in \<open>Js_Regex\<close>. The check for an
  iteration that did not move compares lengths: a matcher only passes on rests of
  the rest it was given, so a rest that is not shorter is the same position; written
  with lengths the recursion of \<open>repeat_matcher\<close> ends for every matcher.

  The theorems: \<open>mc\<close> returns the first success of its continuation over the list
  \<open>ms\<close> of \<open>Js_Regex\<close>, in the order of that list, so the two matchers agree on
  what matches and on which match is preferred; \<open>regexp_exec\<close> finds the leftmost
  start with a match and the first end the matcher tries from there; \<open>test_c\<close> is
  \<open>regexp_test\<close>.
\<close>

section \<open>Matchers and continuations\<close>

type_synonym 'a continuation = "string \<Rightarrow> 'a option"

type_synonym 'a matcher = "string \<Rightarrow> 'a continuation \<Rightarrow> 'a option"

definition orelse :: "'a option \<Rightarrow> 'a option \<Rightarrow> 'a option" where
  "orelse z w = (case z of None \<Rightarrow> w | Some v \<Rightarrow> Some v)"

function repeat_matcher :: "'a matcher \<Rightarrow> nat \<Rightarrow> enat \<Rightarrow> string \<Rightarrow> 'a continuation \<Rightarrow> 'a option" where
  "repeat_matcher m lo hi x c =
     (if hi = 0 then c x
      else let d = (\<lambda>y. if lo = 0 \<and> length x \<le> length y then None
                        else repeat_matcher m (lo - 1) (hi - 1) y c)
           in if lo \<noteq> 0 then m x d else orelse (m x d) (c x))"
  by pat_completeness auto
termination
  by (relation "measures [\<lambda>(m, lo, hi, x, c). lo, \<lambda>(m, lo, hi, x, c). length x]") auto

declare repeat_matcher.simps [simp del]

primrec mc :: "string \<Rightarrow> node \<Rightarrow> 'a matcher" where
  "mc inp Empty = (\<lambda>x c. c x)"
| "mc inp (Char ch) = (\<lambda>x c. case x of [] \<Rightarrow> None | d # y \<Rightarrow> if d = ch then c y else None)"
| "mc inp (Class cs) = (\<lambda>x c. case x of [] \<Rightarrow> None | d # y \<Rightarrow> if d \<in> set cs then c y else None)"
| "mc inp (Seq r1 r2) = (\<lambda>x c. mc inp r1 x (\<lambda>y. mc inp r2 y c))"
| "mc inp (Alt r1 r2) = (\<lambda>x c. orelse (mc inp r1 x c) (mc inp r2 x c))"
| "mc inp (Star r) = repeat_matcher (mc inp r) 0 \<infinity>"
| "mc inp (Plus r) = repeat_matcher (mc inp r) 1 \<infinity>"
| "mc inp (Opt r) = repeat_matcher (mc inp r) 0 1"
| "mc inp (Group r) = mc inp r"
| "mc inp LineStart = (\<lambda>x c. if length x = length inp then c x else None)"
| "mc inp LineEnd = (\<lambda>x c. if x = [] then c x else None)"

primrec exec_from :: "node \<Rightarrow> string \<Rightarrow> string \<Rightarrow> (string \<times> string) option" where
  "exec_from r inp [] = map_option (Pair []) (mc inp r [] Some)"
| "exec_from r inp (ch # x) =
     orelse (map_option (Pair (ch # x)) (mc inp r (ch # x) Some)) (exec_from r inp x)"

definition regexp_exec :: "node \<Rightarrow> string \<Rightarrow> (string \<times> string) option" where
  "regexp_exec r inp = exec_from r inp inp"

definition test_c :: "node \<Rightarrow> string \<Rightarrow> bool" where
  "test_c r inp \<longleftrightarrow> regexp_exec r inp \<noteq> None"

section \<open>The first success over a list of positions\<close>

primrec first_some :: "('b \<Rightarrow> 'a option) \<Rightarrow> 'b list \<Rightarrow> 'a option" where
  "first_some c [] = None"
| "first_some c (y # ys) = orelse (c y) (first_some c ys)"

lemma orelse_simps [simp]:
  "orelse None w = w" "orelse (Some v) w = Some v" "orelse z None = z"
  by (simp_all add: orelse_def split: option.split)

lemma orelse_assoc: "orelse (orelse u v) w = orelse u (orelse v w)"
  by (cases u) simp_all

lemma orelse_eq_None [simp]: "orelse z w = None \<longleftrightarrow> z = None \<and> w = None"
  by (cases z) simp_all

lemma first_some_append [simp]:
  "first_some c (xs @ ys) = orelse (first_some c xs) (first_some c ys)"
  by (induction xs) (simp_all add: orelse_assoc)

lemma first_some_concat_map:
  "first_some c (concat (map f xs)) = first_some (\<lambda>x. first_some c (f x)) xs"
  by (induction xs) simp_all

lemma first_some_filter:
  "first_some c (filter Q xs) = first_some (\<lambda>x. if Q x then c x else None) xs"
  by (induction xs) simp_all

lemma first_some_cong_set:
  "(\<And>x. x \<in> set xs \<Longrightarrow> c x = d x) \<Longrightarrow> first_some c xs = first_some d xs"
  by (induction xs) simp_all

lemma first_some_Some: "first_some Some xs = (case xs of [] \<Rightarrow> None | y # ys \<Rightarrow> Some y)"
  by (cases xs) simp_all

lemma first_some_Some_only:
  "set xs \<subseteq> {y} \<Longrightarrow> first_some Some xs = (if xs = [] then None else Some y)"
  by (cases xs) simp_all

section \<open>RepeatMatcher at the bounds of the quantifiers\<close>

lemma if_le_less: "(if (a::nat) \<le> b then u else v) = (if b < a then v else u)"
  by auto

lemma repeat_star:
  "repeat_matcher m 0 \<infinity> x c =
     orelse (m x (\<lambda>y. if length y < length x then repeat_matcher m 0 \<infinity> y c else None)) (c x)"
  by (subst repeat_matcher.simps) (simp add: if_le_less cong: if_cong)

lemma repeat_plus: "repeat_matcher m 1 \<infinity> x c = m x (\<lambda>y. repeat_matcher m 0 \<infinity> y c)"
  by (subst repeat_matcher.simps) simp

lemma repeat_none: "repeat_matcher m n 0 x c = c x"
  by (subst repeat_matcher.simps) simp

lemma repeat_opt:
  "repeat_matcher m 0 1 x c = orelse (m x (\<lambda>y. if length y < length x then c y else None)) (c x)"
  by (subst repeat_matcher.simps) (simp add: if_le_less repeat_none cong: if_cong)

lemma mc_Star:
  "mc inp (Star r) x c =
     orelse (mc inp r x (\<lambda>y. if length y < length x then mc inp (Star r) y c else None)) (c x)"
  by (simp only: mc.simps) (rule repeat_star)

lemma mc_Plus: "mc inp (Plus r) x c = mc inp r x (\<lambda>y. mc inp (Star r) y c)"
  by (simp only: mc.simps) (rule repeat_plus)

lemma mc_Opt:
  "mc inp (Opt r) x c = orelse (mc inp r x (\<lambda>y. if length y < length x then c y else None)) (c x)"
  by (simp only: mc.simps) (rule repeat_opt)

declare mc.simps(6-8) [simp del]

section \<open>Agreement with the list of positions\<close>

text \<open>
  C16. The matcher with continuations and the matcher with lists of positions agree:
  \<open>mc\<close> returns what its continuation returns at the first position of \<open>ms\<close> that
  the continuation accepts, and fails when it accepts none. Backtracking into a
  pattern is going on in its list of positions.
\<close>

theorem mc_ms: "mc inp r x c = first_some c (ms inp r x)"
proof (induction inp r x arbitrary: c rule: ms.induct)
  case (2 inp ch s)
  show ?case by (cases s) auto
next
  case (3 inp cs s)
  show ?case by (cases s) auto
next
  case (4 inp r1 r2 s)
  have "mc inp (Seq r1 r2) s c = first_some (\<lambda>y. mc inp r2 y c) (ms inp r1 s)"
    by (simp add: "4.IH"(1))
  also have "\<dots> = first_some (\<lambda>y. first_some c (ms inp r2 y)) (ms inp r1 s)"
    by (rule first_some_cong_set) (rule "4.IH"(2))
  finally show ?case by (simp add: first_some_concat_map)
next
  case (5 inp r1 r2 s)
  show ?case by (simp add: "5.IH")
next
  case (6 inp r s)
  let ?shorter = "\<lambda>y. length y < length s"
  have "mc inp (Star r) s c =
      orelse (first_some (\<lambda>y. if ?shorter y then mc inp (Star r) y c else None) (ms inp r s)) (c s)"
    by (subst mc_Star) (simp only: "6.IH"(1))
  also have "first_some (\<lambda>y. if ?shorter y then mc inp (Star r) y c else None) (ms inp r s) =
      first_some (\<lambda>y. mc inp (Star r) y c) (filter ?shorter (ms inp r s))"
    by (simp only: first_some_filter)
  also have "\<dots> = first_some (\<lambda>y. first_some c (ms inp (Star r) y)) (filter ?shorter (ms inp r s))"
    by (rule first_some_cong_set) (rule "6.IH"(2))
  finally show ?case
    by (subst ms_Star) (simp add: first_some_concat_map)
next
  case (7 inp r s)
  have "mc inp (Plus r) s c = first_some (\<lambda>y. mc inp (Star r) y c) (ms inp r s)"
    by (simp only: mc_Plus "7.IH"(1))
  also have "\<dots> = first_some (\<lambda>y. first_some c (ms inp (Star r) y)) (ms inp r s)"
    by (rule first_some_cong_set) (rule "7.IH"(2))
  finally show ?case by (simp add: first_some_concat_map)
next
  case (8 inp r s)
  show ?case by (simp add: mc_Opt first_some_filter "8.IH")
next
  case (9 inp r s)
  show ?case by (simp add: "9.IH")
qed simp_all

section \<open>The search for a match\<close>

lemma mc_Some: "mc inp r x Some = (case ms inp r x of [] \<Rightarrow> None | y # ys \<Rightarrow> Some y)"
  by (simp add: mc_ms first_some_Some)

lemma mc_Some_eq_None: "mc inp r x Some = None \<longleftrightarrow> ms inp r x = []"
  by (simp add: mc_Some split: list.split)

lemma exec_from_None: "exec_from r inp x = None \<longleftrightarrow> \<not> search r inp x"
  by (induction x) (simp_all add: mc_Some_eq_None)

text \<open>
  \<open>test\<close> by way of \<open>regexp_exec\<close> is the \<open>test\<close> of \<open>Js_Regex\<close>.
\<close>

lemma test_c_regexp_test: "test_c r inp = regexp_test r inp"
  by (simp add: test_c_def regexp_exec_def regexp_test_def exec_from_None)

lemma exec_from_match:
  "exec_from r inp x = Some (p, q) \<Longrightarrow> suffix p x \<and> ms inp r p \<noteq> [] \<and> q = hd (ms inp r p)"
proof (induction x)
  case Nil
  then show ?case by (auto simp: mc_Some split: list.splits)
next
  case (Cons ch x)
  then show ?case
    by (cases "ms inp r (ch # x)") (auto simp: mc_Some suffix_Cons)
qed

lemma exec_from_leftmost:
  "exec_from r inp x = Some (p, q) \<Longrightarrow> suffix p' x \<Longrightarrow> length p < length p' \<Longrightarrow> ms inp r p' = []"
proof (induction x)
  case Nil
  then show ?case by simp
next
  case (Cons ch x)
  show ?case
  proof (cases "ms inp r (ch # x)")
    case Nil
    with Cons.prems(1) have "exec_from r inp x = Some (p, q)"
      by (simp add: mc_Some)
    with Cons.IH Cons.prems(2,3) Nil show ?thesis
      by (auto simp: suffix_Cons)
  next
    case (Cons y ys)
    with Cons.prems(1) have "p = ch # x"
      by (simp add: mc_Some)
    with Cons.prems(2,3) show ?thesis
      by (auto dest: suffix_length_le)
  qed
qed

lemma exec_from_first:
  "exec_from r inp x =
     first_some (\<lambda>p. map_option (Pair p) (first_some Some (ms inp r p))) (rev (suffixes x))"
  by (induction x) (simp_all add: mc_ms)

text \<open>
  \<open>regexp_exec\<close> tries the start positions from the left and at each of them the
  end positions in the order of the matcher: its result is the first start at which
  the pattern matches, with the first end the matcher finds there, and \<open>None\<close> when
  the pattern matches nowhere.
\<close>

lemma regexp_exec_first:
  "regexp_exec r inp =
     first_some (\<lambda>p. map_option (Pair p) (first_some Some (ms inp r p))) (rev (suffixes inp))"
  by (simp only: regexp_exec_def exec_from_first)

text \<open>
  In words: the match starts at a rest \<open>p\<close> of the input at which the pattern
  matches, ends at the first position the matcher reaches from \<open>p\<close>, and the
  pattern matches at no start further to the left.
\<close>

lemma regexp_exec_leftmost:
  assumes "regexp_exec r inp = Some (p, q)"
  shows "suffix p inp \<and> ms inp r p \<noteq> [] \<and> q = hd (ms inp r p) \<and>
    (\<forall>p'. suffix p' inp \<and> length p < length p' \<longrightarrow> ms inp r p' = [])"
  using assms exec_from_match [of r inp inp p q] exec_from_leftmost [of r inp inp p q]
  by (simp add: regexp_exec_def)

text \<open>
  Behind \<open>^\<close> a match can only start at the start of the input.
\<close>

lemma regexp_exec_LineStart:
  "regexp_exec (Seq LineStart r) inp = map_option (Pair inp) (first_some Some (ms inp r inp))"
proof (cases "regexp_exec (Seq LineStart r) inp")
  case None
  then have "\<not> regexp_test (Seq LineStart r) inp"
    by (simp add: regexp_exec_def regexp_test_def exec_from_None)
  with None show ?thesis
    by (simp add: regexp_test_LineStart)
next
  case (Some m)
  obtain p q where m: "m = (p, q)" by (cases m)
  from Some have match: "suffix p inp" "ms inp (Seq LineStart r) p \<noteq> []"
      "q = hd (ms inp (Seq LineStart r) p)"
    using exec_from_match [of "Seq LineStart r" inp inp p q] by (simp_all add: m regexp_exec_def)
  from match(2) have "length p = length inp"
    by (simp split: if_splits)
  with match(1) have "p = inp"
    by (simp add: suffix_same_length)
  with match(2,3) Some show ?thesis
    by (simp add: m first_some_Some split: list.splits)
qed

text \<open>
  The empty check: under a quantifier with no lower bound a matcher that does not
  move is given up at once, for every upper bound; \<open>()*\<close> matches the empty string
  once and does not loop.
\<close>

lemma repeat_matcher_empty_check:
  assumes "\<And>d. m x d = d x"
  shows "repeat_matcher m 0 hi x c = c x"
  by (subst repeat_matcher.simps) (simp add: assms)

lemma mc_Star_Empty: "mc inp (Star (Group Empty)) x c = c x"
  by (simp add: mc.simps(6) repeat_matcher_empty_check)

end
