(* ===== verification/Regex_Errors.thy ===== *)
theory Regex_Errors
  imports Regex_Syntax
begin

text \<open>
  Which patterns the parser of \<open>Regex_Syntax\<close> refuses.

  A regular expression literal that is malformed is a syntax error of the program
  that holds it. \<open>wellformed\<close> describes the token lists that are not, without
  building a tree: it reads the tokens once and keeps the number of groups that are
  open and whether the token before was an atom, which is what a quantifier may
  follow. \<open>last_quantifiable\<close> reads the second of these off the stack of the
  parser, the first being its height; \<open>complete\<close> says that a run of the parser
  ended with every group closed.

  The theorem: the parser fails exactly on the token lists that are not
  \<open>wellformed\<close>. So a pattern is refused for one of three reasons and for no other:
  a closing parenthesis without an open group, a group left open at the end, a
  quantifier behind something that is not an atom (the start of the pattern or of a
  group, a bar, \<open>^\<close>, \<open>$\<close> or another quantifier).
\<close>

section \<open>Well-formed token lists\<close>

fun wellformed :: "token list \<Rightarrow> nat \<Rightarrow> bool \<Rightarrow> bool" where
  "wellformed [] d q \<longleftrightarrow> d = 0"
| "wellformed (TChar c # ts) d q \<longleftrightarrow> wellformed ts d True"
| "wellformed (TClass cs # ts) d q \<longleftrightarrow> wellformed ts d True"
| "wellformed (TCaret # ts) d q \<longleftrightarrow> wellformed ts d False"
| "wellformed (TDollar # ts) d q \<longleftrightarrow> wellformed ts d False"
| "wellformed (TOpen # ts) d q \<longleftrightarrow> wellformed ts (Suc d) False"
| "wellformed (TClose # ts) d q \<longleftrightarrow> (case d of 0 \<Rightarrow> False | Suc d' \<Rightarrow> wellformed ts d' True)"
| "wellformed (TBar # ts) d q \<longleftrightarrow> wellformed ts d False"
| "wellformed (TStar # ts) d q \<longleftrightarrow> q \<and> wellformed ts d False"
| "wellformed (TPlus # ts) d q \<longleftrightarrow> q \<and> wellformed ts d False"
| "wellformed (TQuest # ts) d q \<longleftrightarrow> q \<and> wellformed ts d False"

fun last_quantifiable :: "frame list \<Rightarrow> bool" where
  "last_quantifiable ((alts, t # terms) # st) = quantifiable t"
| "last_quantifiable _ = False"

definition complete :: "frame list option \<Rightarrow> bool" where
  "complete res \<longleftrightarrow> (case res of Some [f] \<Rightarrow> True | _ \<Rightarrow> False)"

section \<open>The parser and the well-formed lists\<close>

lemma complete_simps [simp]:
  "complete None = False"
  "complete (Some st) \<longleftrightarrow> length st = 1"
  by (auto simp: complete_def length_Suc_conv split: list.splits)

lemma parse_tokens_None: "parse_tokens ts = None \<longleftrightarrow> \<not> complete (run ts [([], [])])"
  by (simp add: parse_tokens_def complete_def split: option.splits list.splits)

lemma quantify_wellformed:
  assumes "\<And>st'. st' \<noteq> [] \<Longrightarrow>
      complete (run ts st') \<longleftrightarrow> wellformed ts (length st' - 1) (last_quantifiable st')"
    and "st \<noteq> []" and "\<And>t. \<not> quantifiable (q t)"
  shows "complete (case quantify q st of None \<Rightarrow> None | Some st' \<Rightarrow> run ts st') \<longleftrightarrow>
    last_quantifiable st \<and> wellformed ts (length st - 1) False"
proof (cases st rule: last_quantifiable.cases)
  case (1 alts t terms st')
  show ?thesis
  proof (cases "quantifiable t")
    case True
    with assms(1) [of "(alts, q t # terms) # st'"] assms(3) 1 show ?thesis by simp
  next
    case False
    with 1 show ?thesis by simp
  qed
qed (use assms(2) in simp_all)

lemma run_wellformed:
  "st \<noteq> [] \<Longrightarrow> complete (run ts st) \<longleftrightarrow> wellformed ts (length st - 1) (last_quantifiable st)"
proof (induction ts arbitrary: st)
  case Nil
  then show ?case by (cases st) (auto simp: length_Suc_conv)
next
  case (Cons t ts)
  from Cons.prems obtain alts terms st' where st: "st = (alts, terms) # st'"
    by (cases st) auto
  note IH = Cons.IH
  show ?case
  proof (cases t)
    case TClose
    show ?thesis
    proof (cases st')
      case Nil
      with st TClose show ?thesis by simp
    next
      case (Cons f' st'')
      obtain alts' terms' where "f' = (alts', terms')" by (cases f')
      with Cons st TClose IH [of "(alts', Group (close_frame (alts, terms)) # terms') # st''"]
      show ?thesis by (simp del: close_frame.simps)
    qed
  next
    case TStar
    with quantify_wellformed [of ts st Star] IH Cons.prems show ?thesis by simp
  next
    case TPlus
    with quantify_wellformed [of ts st Plus] IH Cons.prems show ?thesis by simp
  next
    case TQuest
    with quantify_wellformed [of ts st Opt] IH Cons.prems show ?thesis by simp
  qed (simp_all add: st IH)
qed

text \<open>
  C26. The parser refuses exactly the token lists that are not well formed: those
  with a closing parenthesis that closes nothing, with a group that is never closed,
  or with a quantifier that does not follow an atom.
\<close>

theorem parse_tokens_None_iff: "parse_tokens ts = None \<longleftrightarrow> \<not> wellformed ts 0 False"
  using run_wellformed [of "[([], [])]" ts] by (simp add: parse_tokens_None)

text \<open>
  The three reasons on examples, from the text of the pattern: \<open>a)\<close>, \<open>(a\<close>, and
  \<open>*a\<close>, \<open>a**\<close>, \<open>^*\<close>, \<open>(|+)\<close>; and the empty group under a star, which is
  accepted.
\<close>

lemma parse_pattern_malformed:
  "parse_pattern ''a)'' = None" "parse_pattern ''(a'' = None"
  "parse_pattern ''*a'' = None" "parse_pattern ''a**'' = None"
  "parse_pattern ''^*'' = None" "parse_pattern ''(|+)'' = None"
  "parse_pattern ''()*'' = Some (Star (Group Empty))"
  by (simp_all add: parse_pattern_def parse_tokens_def single_def backslash_def)

end
