(* ===== verification/Spec2Isabelle.thy ===== *)
theory Spec2Isabelle
  imports
    Graph_Object Graph_Keys Box_Store Box_Steps Box_Clients Retry_Loop Literal_Scanner
    Regex_Continuations Regex_Errors
begin

text \<open>
  Verification of the exercise files of chapters 8 to 10 of the repository.

  \<^bold>\<open>The program.\<close> Four files, each a program of its own; none calls another and
  they share no state.

  \<^item> \<^verbatim>\<open>src/chapter 10 exercises/roadModules/graph.js\<close> exports \<open>buildGraph\<close>, which
    builds the adjacency object of a list of roads with its closure \<open>addEdge\<close>.
  \<^item> \<^verbatim>\<open>src/chapter 8 exercises/lockedBox.js\<close> holds the object \<open>box\<close> (a lock flag, a
    content array behind a getter that throws while the box is locked) and
    \<open>withBoxUnlocked\<close>, which runs a body on the unlocked box and locks it again in
    a \<^verbatim>\<open>finally\<close> block; the top level calls it with two bodies.
  \<^item> \<^verbatim>\<open>src/chapter 8 exercises/retry.js\<close> holds \<open>primitiveMultiply\<close>, which fails at
    random with a \<open>MultiplicatorUnitFailure\<close>, and \<open>trial\<close>, an endless loop that
    repeats it until it succeeds.
  \<^item> \<^verbatim>\<open>src/chapter 9 exercises/numbersAgain.js\<close> holds a regular expression for
    number literals and prints the result of its method \<open>test\<close> on seven strings.

  \<^bold>\<open>The theories.\<close>

  \<^item> \<open>Js_Prelude\<close>: what the files use of the language. A call completes by
    \<open>Normal\<close> or \<open>Throw\<close> (\<open>completion\<close>); the thrown values are \<open>Error\<close> and
    \<open>MultiplicatorUnitFailure\<close> (\<open>exn\<close>); a computation on a state returns its
    completion and the state it leaves (\<open>js\<close>), so that the writes of a body that
    throws are kept; \<open>try_finally\<close> is the \<^verbatim>\<open>try ... finally\<close> statement; the
    console is the list of the \<open>console.log\<close> and \<open>console.error\<close> calls made;
    \<open>adj\<close> reads the array under a key of an object. Its lemmas are the shared
    facts on completions, maps and counting in lists.
  \<^item> \<open>Road_Graph\<close> models \<^verbatim>\<open>graph.js\<close>. The object created by
    \<open>Object.create(null)\<close> is a partial map from places to arrays; \<open>addEdge\<close> is the
    closure, with the object passed in and returned; \<open>addRoad\<close> is the body of the
    \<^verbatim>\<open>for ... of\<close> loop and \<open>buildFrom\<close> the loop; \<open>buildGraph\<close> starts it on the
    empty object. The specification is \<open>adjacency\<close>: the neighbours of a place are
    the other ends of the roads that touch it, in the order of the roads. The
    theorems: \<open>buildGraph\<close> computes \<open>adjacency\<close>; every road connects its ends
    both ways; the keys are the ends of the roads; nothing is deduplicated; the loop
    invariant \<open>graph_inv\<close>; the degree sum; the orientation of a road does not
    matter; arrays only grow at the end, and building from a longer list continues
    the building from the shorter.
  \<^item> \<open>Locked_Box\<close> models \<^verbatim>\<open>lockedBox.js\<close>. The object is the record \<open>box\<close>
    (\<open>locked\<close>, and \<open>priv_content\<close> for \<open>_content\<close>), with \<open>unlock\<close>, \<open>lock\<close> and
    the getter \<open>content\<close>; \<open>withBoxUnlocked\<close> takes any body, a computation on the
    box, and threads the local \<open>progress\<close> through the \<^verbatim>\<open>try\<close> and the
    \<^verbatim>\<open>finally\<close> block; \<open>lockedBox_main\<close> is the top level with its console
    output; \<open>reachable\<close> are the boxes a client gets that calls nothing but
    \<open>withBoxUnlocked\<close>, a notion of the contract and not a part of the file. The
    theorems: the behaviour of a call on both entries; a locked box is locked
    afterwards whatever the body does; failures propagate; the flag after a call,
    for every body and box, which is the flag on entry for bodies that do not
    write it, and not always otherwise; reachable boxes deny access to the
    content; pushes persist; nested calls; the result and the output of the file.
  \<^item> \<open>Box_Store\<close> models \<^verbatim>\<open>lockedBox.js\<close> a second time, with the array of the
    box in a store: a \<open>world\<close> holds the flag, the reference in \<open>_content\<close>, the
    arrays by address and the variables of a client; \<open>content_s\<close> returns the
    reference, \<open>array_push\<close> pushes to an array whatever the flag, and
    \<open>withBoxUnlocked_s\<close> is the function on worlds. The theorem: a body that keeps
    the reference it reads lets its client change the content of the locked box.
    That this model refines the record model (\<open>box_of\<close>, \<open>refines\<close>), for all
    bodies that refine each other, is a lemma that carries the facts of
    \<open>Locked_Box\<close> over; it says nothing of the file by itself.
  \<^item> \<open>Box_Steps\<close> models \<open>withBoxUnlocked\<close> statement by statement: a
    configuration is the point in the function, \<open>progress\<close>, the pending
    completion and the box; \<open>step\<close> has a rule for every way through a statement
    and \<open>reach\<close> are the configurations of a call. The theorems: a call passes
    through four configurations and ends with the result of the function of
    \<open>Locked_Box\<close>; the invariants of the run.
  \<^item> \<open>Box_Clients\<close> models the clients of the box as programs: \<open>stmt\<close> has a
    constructor for each statement the top level of \<^verbatim>\<open>lockedBox.js\<close> is written
    with (the push to \<open>box.content\<close>, \<^verbatim>\<open>throw\<close>, the call of \<open>withBoxUnlocked\<close>
    on a body, the \<^verbatim>\<open>try\<close> with its \<^verbatim>\<open>catch\<close> block, the print of
    \<open>box.locked\<close>) and for the methods \<open>lock\<close> and \<open>unlock\<close>; \<open>exec_stmt\<close> and
    \<open>exec_block\<close> run a program on a \<open>session\<close>, the record of the box extended by
    the console, with \<open>withBoxUnlocked\<close> of \<open>Locked_Box\<close> for the calls;
    \<open>lockedBox_program\<close> is the file. The specification is \<open>plain_block\<close>, the
    program on the bare array. The theorems: programs that leave the flag to
    \<open>withBoxUnlocked\<close> behave as plain programs and restore the flag; programs that
    pass the check \<open>scoped_block\<close> never make the getter throw. That the program of
    the file runs as \<open>lockedBox_main\<close> is a lemma, which ties the syntax to the
    function of \<open>Locked_Box\<close>.
  \<^item> \<open>Retry\<close> models \<^verbatim>\<open>retry.js\<close>. \<open>primitiveMultiply\<close> takes the value of
    \<open>Math.random()\<close> as an argument; \<open>trial\<close> takes the stream of all draws and
    the console. The loop has no bound, so \<open>trial\<close> is a
    \<^theory_text>\<open>partial_function (option)\<close>: \<open>None\<close> is the run that never ends, and the
    theorems say for which draws it ends. \<open>trial_fuel\<close> is the loop cut off after
    \<open>n\<close> iterations; the fuel that is enough is the position of the first draw
    that passes, plus one. The theorems: the result of \<open>trial\<close> for every stream;
    it returns when a draw passes and diverges when none does; it never returns a
    wrong value or throws; the cut-off loop agrees with it; one attempt succeeds
    exactly for draws below \<open>0.205\<close>; of \<open>N\<close> equally spaced draws
    (\<open>grid_draw\<close>, \<open>passing\<close>) the share \<open>0.205\<close> passes, up to one draw.
  \<^item> \<open>Retry_Loop\<close> models the loop of \<open>trial\<close> around any operation:
    \<open>trial_with prim\<close> is the code of \<open>trial\<close> with \<open>prim\<close> called in line 14, so
    that both branches of the \<^verbatim>\<open>catch\<close> block are reached. \<open>trial_while\<close> is the
    same loop as a \<open>while_option\<close> over the state of the \<^verbatim>\<open>try\<close> statement
    (\<open>control\<close>, \<open>iteration\<close>, \<open>running\<close>, \<open>leave\<close>). The theorems: the result of
    the loop for every operation; an exception of another kind is thrown on at once.
    Lemmas: the while loop is the recursive function; \<open>trial\<close> is
    \<open>trial_with primitiveMultiply\<close>.
  \<^item> \<open>Graph_Object\<close> models \<^verbatim>\<open>graph.js\<close> a second time, on an object that keeps the
    order of its keys: an association list, on which \<open>AList.update\<close> is the
    assignment to a property. \<open>addEdge_obj\<close>, \<open>addRoad_obj\<close>, \<open>buildFrom_obj\<close> and
    \<open>buildGraph_obj\<close> are the operations and \<open>keys_obj\<close> is \<open>Object.keys\<close>. The
    theorems: the well-formedness invariant \<open>obj_wf\<close> (distinct keys, no empty
    array) is preserved by every operation; the result in closed form, with the
    keys in the order in which the places first occur. Lemmas: \<open>map_of\<close> takes each
    operation to that of \<open>Road_Graph\<close>; the edges read back from the object are the
    roads, once in each direction.
  \<^item> \<open>Graph_Keys\<close> models \<^verbatim>\<open>graph.js\<close> for places of any kind and roads of any
    length: \<open>addEdge_key\<close> to \<open>buildGraph_key\<close> take the conversion of a place to
    its property key as a parameter, \<open>destructure\<close> is the pattern
    \<^verbatim>\<open>[from, to]\<close> on an array of any length, and \<open>buildGraph_arr\<close> is the function
    on such roads. The theorem: the result for any conversion, in closed form.
    Lemmas: for a conversion that tells the places apart it is the result of
    \<open>Road_Graph\<close>; what happens to places with the same key and to roads with one
    end.
  \<^item> \<open>Js_Regex\<close> models what \<^verbatim>\<open>numbersAgain.js\<close> uses of regular expressions. A
    pattern is a \<open>node\<close>: characters, classes, sequence, alternation, the greedy
    quantifiers \<open>*\<close>, \<open>+\<close> and \<open>?\<close>, groups, \<open>^\<close> and \<open>$\<close>. \<open>ms inp r s\<close> is the
    backtracking matcher of the language: the positions (rests of the input \<open>inp\<close>)
    at which a match of \<open>r\<close> started at \<open>s\<close> can end, in the order in which
    backtracking tries them, with the rule that an iteration of a quantifier that
    consumes nothing is rejected; it ends because every recursive call has a
    smaller pattern or, under a star, a shorter rest (\<open>rank\<close>). \<open>search\<close> tries
    the start positions from left to right and \<open>regexp_test\<close> is the method
    \<open>test\<close>. The specification is \<open>lang\<close>, the set of strings of a pattern. The
    theorems: the matcher reaches exactly the positions behind a string of the
    language; \<open>test\<close> between \<open>^\<close> and \<open>$\<close> decides the language, and without them
    the strings with a substring in it; the matcher only moves forward; sequencing
    is associative; quantifiers are greedy.
  \<^item> \<open>Regex_Syntax\<close> models the reading of a literal: \<open>tokenize\<close> (the lexical
    part of the pattern grammar, a state machine over the characters) and \<open>run\<close>
    (the grammar proper, a machine with a stack of open groups), composed in
    \<open>parse_pattern\<close>; \<open>None\<close> is a text that is malformed or outside the
    part of the grammar that is covered. \<open>show_node\<close> prints a tree. The theorems:
    parser and printer are inverse on tokens, and parsing printed text gives back
    the tree.
  \<^item> \<open>Regex_Errors\<close> says which patterns the parser refuses: \<open>wellformed\<close> reads a
    token list once with the number of open groups and whether a quantifier may
    follow. The theorem: the parser fails exactly on the lists that are not
    \<open>wellformed\<close>.
  \<^item> \<open>Regex_Continuations\<close> models the matcher a second time, in the form of the
    language standard: \<open>mc\<close> is the matcher of a pattern, a function of a position
    and a continuation; \<open>repeat_matcher\<close> is RepeatMatcher with its bounds and its
    check for empty iterations; \<open>regexp_exec\<close> is the loop over the start
    positions. The theorems: \<open>mc\<close> returns the first success of its continuation
    over the list of \<open>ms\<close>; \<open>regexp_exec\<close> finds the leftmost match and
    \<open>test_c\<close> is \<open>regexp_test\<close>.
  \<^item> \<open>Numbers_Again\<close> models \<^verbatim>\<open>numbersAgain.js\<close>: \<open>expression_source\<close> is the text
    of the literal of line 1 and \<open>expression\<close> its tree, built from \<open>sign_part\<close>,
    \<open>mantissa\<close> and \<open>exponent\<close>; \<open>numbersAgain_main\<close> is the seven printed tests.
    The specification is \<open>numeric_literal\<close>, the grammar of number literals in
    words. The theorems: \<open>expression.test\<close> decides \<open>numeric_literal\<close>; the output
    of the file, with \<open>false\<close> for the single dot; the characters of an accepted
    string; the accepted strings without a digit are exactly the twenty-one of
    \<open>degenerate_literals\<close>; a dot in an accepted string has a digit beside it. That
    the tree is the parse of the text is a lemma.
  \<^item> \<open>Literal_Scanner\<close> holds the contract \<open>isValidNumericLiteral\<close> as a scanner
    that reads its input once (\<open>skip_sign\<close>, \<open>skip_mantissa\<close>, \<open>exponent_ok\<close>) and
    the theorem that it accepts the same strings as the pattern.
  \<^item> This theory holds the road list of the book as an example for \<open>buildGraph\<close>,
    and the result of \<open>exec\<close> for the pattern of the file, which spans
    \<open>Numbers_Again\<close> and \<open>Regex_Continuations\<close>.

  \<^bold>\<open>Choices.\<close> In \<open>Road_Graph\<close> and \<open>Graph_Object\<close> places are values of any type
  and are their own property keys, as for the strings the module is called with,
  and roads are pairs, which is what the destructuring in the loop reads from a
  two-element array; \<open>Graph_Keys\<close> lifts both restrictions and proves that the
  restricted model is the instance for such input. Numbers are integers
  (the operands of \<open>trial\<close>) and reals (the draws) in place of doubles: products
  are exact, and the rounding of \<open>Math.random() * 100\<close> and of \<open>a * b\<close> in floating
  point is not modelled; only the exactness of the threshold \<open>0.205\<close> leans on it.
  Operands for which \<open>a * b\<close> itself throws (a BigInt with a number, a Symbol) are
  outside the model of \<open>primitiveMultiply\<close>; \<open>trial_with\<close> covers an operation
  that throws anything. Randomness is an input: a property of \<open>trial\<close> is stated
  for every stream of draws, or for every stream that satisfies a stated
  condition; the equally spaced draws of \<open>grid_draw\<close> are an assumption on
  \<open>Math.random\<close>, not code of the file.

  \<open>trial_with\<close> and the models \<open>Box_Store\<close>, \<open>Graph_Object\<close> and \<open>Graph_Keys\<close>
  translate lines that \<open>Retry\<close>, \<open>Locked_Box\<close> and \<open>Road_Graph\<close> translate already,
  each at another level of detail; the lemmas that connect two models of the same
  lines are kept as lemmas, and the theorems are those that fix what the code
  does.

  A body of \<open>withBoxUnlocked\<close> is a total function from the box to a completion
  and a box: it returns or throws, and all it can write is the flag and the
  content. A body that does not return, or that replaces a method of the box, is
  outside the model.

  The operations of the box are stated for every record that extends \<open>box\<close>, so
  the same definitions serve the box alone and the box with the console; the
  language of \<open>Box_Clients\<close> has the statements the file uses, with strings as
  the values pushed, and the calls \<open>box.lock()\<close> and \<open>box.unlock()\<close>, which the
  file makes inside \<open>withBoxUnlocked\<close> only: they are there so that the theorems
  can say what a client must not call.

  Characters are the 8-bit characters of HOL, which cover every character the
  pattern names; a string with other characters is rejected by the pattern at its
  first such character, as the theorem on the characters of an accepted string
  shows for the model. A sequence
  of more than two terms is nested to the right; by \<open>ms_Seq_assoc\<close> the nesting
  does not matter.

  \<^bold>\<open>Bounds and fuel.\<close> Nothing is bounded in size: road lists, box contents, inputs
  of the matcher and streams of draws are arbitrary. The only loop that may not end
  is that of \<open>trial\<close>; its fuel is discussed above, and \<open>trial\<close> itself needs none.
  \<open>trial_with\<close> is a partial function in the same way, and \<open>trial_while\<close> is
  \<open>None\<close> when the while loop does not end. Both matchers are total functions:
  \<open>ms\<close> by the pattern and, under a star, the length of the rest; \<open>repeat_matcher\<close>
  by its lower bound and then the length of the rest, for every matcher it is given,
  since an iteration that does not shorten the rest is refused.

  \<open>node\<close> is the syntax of all patterns of the covered part of the grammar; of
  \<^verbatim>\<open>numbersAgain.js\<close> it has the one literal of line 1, and the theorems on
  \<open>ms\<close>, \<open>mc\<close>, \<open>tokenize\<close> and \<open>run\<close> for every pattern are theorems on the
  modelled engine, which the file only calls.

  \<^bold>\<open>Not modelled.\<close> The enumeration of keys that are array indices, which come
  before all others; roads that are not arrays; the loader of modules
  (\<^verbatim>\<open>require\<close> and its cache), which is not in the repository; the text that the
  console prints for an error object; of regular expressions, capture groups,
  flags, lazy quantifiers, lookaround, backreferences, the dot, ranges and negation
  in classes, and a \<open>lastIndex\<close> that is kept between calls, none of which the
  file uses.
\<close>

section \<open>The example of the book\<close>

text \<open>
  The module is written for the road list of the village of Meadowfield; three of
  its roads are enough to exercise every branch of \<open>addEdge\<close>.
\<close>

definition meadowfield :: "(string \<times> string) list" where
  "meadowfield =
     [(''Alice's House'', ''Bob's House''),
      (''Alice's House'', ''Cabin''),
      (''Alice's House'', ''Post Office'')]"

lemma meadowfield_alice:
  "buildGraph meadowfield ''Alice's House'' = Some [''Bob's House'', ''Cabin'', ''Post Office'']"
  by (simp add: buildGraph_apply meadowfield_def)

section \<open>The pattern of the file under the matcher of the standard\<close>

text \<open>
  C20. What \<open>exec\<close> returns for the pattern of \<^verbatim>\<open>numbersAgain.js\<close>, with the matcher
  of \<open>Regex_Continuations\<close>: for a string of the grammar of number literals the
  match is the whole string, from its start to its end, and for any other string
  there is no match.
\<close>

theorem expression_exec:
  "regexp_exec expression s = (if numeric_literal s then Some (s, []) else None)"
proof -
  define ends where "ends = ms s (Seq sign_part (Seq mantissa (Seq exponent LineEnd))) s"
  have "ends \<noteq> [] \<longleftrightarrow> numeric_literal s"
    using expression_numeric_literal_iff [of s]
    by (simp only: ends_def expression_def regexp_test_LineStart)
  moreover have "set ends \<subseteq> {[]}"
    using set_ms_LineEnd [of s number s]
    by (simp only: ends_def number_def ms_Seq_assoc) simp
  ultimately have "first_some Some ends = (if numeric_literal s then Some [] else None)"
    by (auto simp: first_some_Some_only)
  then show ?thesis
    unfolding expression_def regexp_exec_LineStart ends_def [symmetric] by simp
qed

end
